theory Spec2Isabelle
  imports Complex_Main
begin

section \<open>Python exceptions, external calls and traces\<close>

text \<open>
  The notebooks and the scripts they write are straight-line Python around calls into the
  Azure ML SDK, pandas, numpy, scikit-learn and the file system. The model keeps the code's
  control flow and makes everything external explicit:
  \<^item> an exception is a value: its class and its \<open>message\<close> attribute, when the object has
    one (the SDK's exceptions carry one, Python 3's built-in exceptions do not);
  \<^item> the result of an external call is a parameter of the cell (a field of a record of
    outcomes), either an exception (\<open>Inl\<close>) or the returned value (\<open>Inr\<close>);
  \<^item> a cell returns the trace of the external calls it made, in order, together with the
    exception it ended with or its value.
\<close>

datatype exn_class =
    ComputeTargetException
  | AttributeError
  | NameError
  | KeyError
  | IndexError
  | ZeroDivisionError
  | TypeError
  | SystemExit
  | KeyboardInterrupt
  | OtherException string

datatype exn = Exn (exn_cls: exn_class) (exn_message: "string option")

text \<open>\<open>except Exception\<close> catches every class derived from \<open>Exception\<close>; \<open>SystemExit\<close> and
  \<open>KeyboardInterrupt\<close> derive from \<open>BaseException\<close> only.\<close>

fun is_Exception :: "exn_class \<Rightarrow> bool" where
  "is_Exception SystemExit = False"
| "is_Exception KeyboardInterrupt = False"
| "is_Exception _ = True"

text \<open>The two \<open>except\<close> clauses that the notebooks write, and the exceptions each catches.\<close>

datatype except_clause = Except_Exception | Except_ComputeTargetException

fun catches :: "except_clause \<Rightarrow> exn \<Rightarrow> bool" where
  "catches Except_Exception e = is_Exception (exn_cls e)"
| "catches Except_ComputeTargetException e = (exn_cls e = ComputeTargetException)"

record workspace =
  ws_name :: string
  ws_subscription_id :: string
  ws_resource_group :: string

record compute_config =
  vm_size :: string
  vm_priority :: string
  max_nodes :: nat

text \<open>A compute target is an object of the SDK; the model knows it by an identity only.\<close>

datatype compute_target = ComputeTargetObj nat

text \<open>Values that the code logs or prints: a string, an integer, a float (kept as the
  decimal value it stands for), or the value of a variable that only the libraries look
  into, known by the variable's name.\<close>

datatype pyval = PStr string | PInt int | PFloat rat | PVar string

text \<open>JSON, as \<open>response.json()\<close> returns it and as \<open>requests.post(json=...)\<close> takes it.\<close>

datatype json = JNull | JBool bool | JNumber rat | JString string | JArray "json list"
  | JObject "(string \<times> json) list"

record http_request =
  req_method :: string
  req_url :: string
  req_headers :: "(string \<times> string) list"
  req_json :: json

datatype auth_session = AuthSession nat

datatype response = Response nat

text \<open>
  What the constructors of \<open>azureml.train.hyperdrive\<close> and \<open>azureml.train.sklearn\<close> are
  given in Exercise 5: a parameter expression \<open>choice(v1, ..., vn)\<close>, a sampling over a
  dictionary from parameter names to expressions, a policy with its keyword arguments as
  written, an estimator and the sweep's configuration.
\<close>

datatype parameter_expression = choice "rat list"

datatype sampling = GridParameterSampling "(string \<times> parameter_expression) list"

datatype termination_policy = BanditPolicy "(string \<times> pyval) list"

datatype primary_metric_goal = MAXIMIZE | MINIMIZE

record sklearn =
  source_directory :: string
  compute_target :: compute_target
  conda_packages :: "string list"
  pip_packages :: "string list"
  entry_script :: string

record hyperdrive_config =
  estimator :: sklearn
  hyperparameter_sampling :: sampling
  policy :: termination_policy
  primary_metric_name :: string
  primary_metric_goal :: primary_metric_goal
  max_total_runs :: nat
  max_concurrent_runs :: nat

datatype event =
    Print string
  | Print_values "pyval list"
  | ComputeTarget_init workspace string
  | AmlCompute_provisioning_configuration compute_config
  | ComputeTarget_create workspace string compute_config
  | Wait_for_completion compute_target bool
  | Workspace_init string string string
  | Workspace_create string string string bool string
  | Write_config workspace
  | InteractiveLoginAuthentication_init
  | Get_authentication_header auth_session
  | Print_headers "(string \<times> string) list"
  | Requests_request http_request
  | Response_json response
  | Run_get_context
  | Run_log string pyval
  | Run_log_image string
  | Run_log_row string "(string \<times> pyval) list"
  | Run_upload_file string string
  | Run_complete
  | LogisticRegression_fit rat string
  | Model_register string string "(string \<times> string) list"
  | Joblib_load string
  | Joblib_dump string
  | Os_makedirs string
  | File_open string string
  | File_write string string
  | File_flush string
  | File_close string
  | Read_csv string
  | Dataframe_sample nat
  | Tofile string "rat list" string
  | Get_default_datastore
  | Datastore_upload string string bool
  | Model_get_model_path string
  | Glob string
  | Genfromtxt string
  | Model_predict "rat list list"
  | Experiment_submit_hyperdrive hyperdrive_config
  | RunDetails_show
  | Step_started string
  | Step_completed string
  | Lib string

type_synonym 'a io = "event list \<times> (exn + 'a)"

definition ret :: "'a \<Rightarrow> 'a io" where
  "ret x = ([], Inr x)"

definition raise :: "exn \<Rightarrow> 'a io" where
  "raise e = ([], Inl e)"

text \<open>An external call: the event is recorded and the call's outcome is the result.\<close>

definition call :: "event \<Rightarrow> exn + 'a \<Rightarrow> 'a io" where
  "call ev outcome = ([ev], outcome)"

text \<open>Sequencing: an exception of the first statement ends the sequence.\<close>

definition bind_io :: "'a io \<Rightarrow> ('a \<Rightarrow> 'b io) \<Rightarrow> 'b io" where
  "bind_io m f =
     (case m of
        (tr, Inl e) \<Rightarrow> (tr, Inl e)
      | (tr, Inr x) \<Rightarrow> (case f x of (tr', r) \<Rightarrow> (tr @ tr', r)))"

text \<open>\<open>try: body except C: handler\<close>, the clause \<open>C\<close> given as a predicate on the exception.\<close>

definition try_except :: "'a io \<Rightarrow> (exn \<Rightarrow> bool) \<Rightarrow> (exn \<Rightarrow> 'a io) \<Rightarrow> 'a io" where
  "try_except body clause handler =
     (case body of
        (tr, Inl e) \<Rightarrow>
          (if clause e then (case handler e of (tr', r) \<Rightarrow> (tr @ tr', r)) else (tr, Inl e))
      | (tr, Inr x) \<Rightarrow> (tr, Inr x))"

definition print :: "string \<Rightarrow> unit io" where
  "print s = call (Print s) (Inr ())"

text \<open>A script is a list of statements run in order; the first exception ends it.\<close>

fun steps :: "unit io list \<Rightarrow> unit io" where
  "steps [] = ret ()"
| "steps (s # ss) = bind_io s (\<lambda>_. steps ss)"

text \<open>
  A call into a library whose returned value only other library calls look into. The
  function \<open>lib\<close> says which calls fail, and with which exception. \<open>names\<close> are the names
  that the script's \<open>import\<close> statements bind; a call through a name that is not bound
  raises \<open>NameError\<close> before anything is called. A method call on one of the script's own
  variables needs no such name.
\<close>

type_synonym library = "event \<Rightarrow> exn option"

definition method_call :: "library \<Rightarrow> event \<Rightarrow> unit io" where
  "method_call lib ev = call ev (case lib ev of None \<Rightarrow> Inr () | Some e \<Rightarrow> Inl e)"

definition global_name :: "string list \<Rightarrow> string \<Rightarrow> unit io" where
  "global_name names n = (if n \<in> set names then ret () else raise (Exn NameError None))"

definition lib_call :: "string list \<Rightarrow> library \<Rightarrow> string \<Rightarrow> event \<Rightarrow> unit io" where
  "lib_call names lib n ev = bind_io (global_name names n) (\<lambda>_. method_call lib ev)"

text \<open>The same for a call whose returned value the script itself uses: the outcome is
  given with the call.\<close>

definition named_call :: "string list \<Rightarrow> string \<Rightarrow> event \<Rightarrow> exn + 'a \<Rightarrow> 'a io" where
  "named_call names n ev outcome = bind_io (global_name names n) (\<lambda>_. call ev outcome)"

text \<open>Python's \<open>a / b\<close> on floats.\<close>

definition py_truediv :: "rat \<Rightarrow> rat \<Rightarrow> rat io" where
  "py_truediv a b = (if b = 0 then raise (Exn ZeroDivisionError None) else ret (a / b))"

text \<open>
  The command line, as \<open>argparse\<close> sees it: options with their values. A value is the
  token's text together with what \<open>float\<close> makes of it (\<open>None\<close> when \<open>float\<close> rejects the
  text). \<open>parse_args\<close> exits (\<open>SystemExit\<close>) on an option that was not declared and on
  a value that the option's type rejects; of a repeated option the last value counts.
\<close>

record token =
  tok_text :: string
  tok_float :: "rat option"

type_synonym argv = "(string \<times> token) list"

definition undeclared_options :: "string list \<Rightarrow> argv \<Rightarrow> unit io" where
  "undeclared_options declared args =
     (if list_all (\<lambda>(opt, _). opt \<in> set declared) args then ret ()
      else raise (Exn SystemExit None))"

definition float_option :: "argv \<Rightarrow> string \<Rightarrow> rat \<Rightarrow> rat io" where
  "float_option args opt dflt =
     (case map_of (rev args) opt of
        None \<Rightarrow> ret dflt
      | Some t \<Rightarrow> (case tok_float t of None \<Rightarrow> raise (Exn SystemExit None) | Some r \<Rightarrow> ret r))"

definition str_option :: "argv \<Rightarrow> string \<Rightarrow> string option \<Rightarrow> string option" where
  "str_option args opt dflt =
     (case map_of (rev args) opt of None \<Rightarrow> dflt | Some t \<Rightarrow> Some (tok_text t))"

text \<open>
  A statement that assigns to the cell's variables takes their values and returns the
  trace, their new values and the exception it ended with, if any. \<open>try_except_finally\<close>
  is Python's \<open>try: ... except C as ex: ... finally: ...\<close>: the handler runs on an exception
  of the body that the clause matches, the \<open>finally\<close> block runs in every case and sees the
  variables as they are then, and an exception of the \<open>finally\<close> block replaces a pending one.
\<close>

type_synonym 's stmt = "'s \<Rightarrow> event list \<times> 's \<times> exn option"

definition skip :: "'s stmt" where
  "skip s = ([], s, None)"

definition seq :: "'s stmt \<Rightarrow> 's stmt \<Rightarrow> 's stmt" where
  "seq a b s =
     (case a s of
        (tr, s', Some e) \<Rightarrow> (tr, s', Some e)
      | (tr, s', None) \<Rightarrow> (case b s' of (tr', s'', r) \<Rightarrow> (tr @ tr', s'', r)))"

definition try_except_finally ::
  "'s stmt \<Rightarrow> (exn \<Rightarrow> bool) \<Rightarrow> (exn \<Rightarrow> 's stmt) \<Rightarrow> 's stmt \<Rightarrow> 's stmt" where
  "try_except_finally body clause handler finalizer s =
     (case body s of (tr1, s1, r1) \<Rightarrow>
        (case (case r1 of
                 None \<Rightarrow> ([], s1, None)
               | Some e \<Rightarrow> if clause e then handler e s1 else ([], s1, Some e))
         of (tr2, s2, r2) \<Rightarrow>
           (case finalizer s2 of (tr3, s3, r3) \<Rightarrow>
              (tr1 @ tr2 @ tr3, s3, (case r3 of Some e \<Rightarrow> Some e | None \<Rightarrow> r2)))))"

definition stmt_print :: "string \<Rightarrow> 's stmt" where
  "stmt_print msg s = ([Print msg], s, None)"

section \<open>The cpu-cluster cell\<close>

text \<open>
  The same cell, character for character, stands in four notebooks (Exercise 4 Task 2,
  Exercise 5 Task 1, Exercise 7 Task 2 and Exercise 8 Task 3):
  \<^verbatim>\<open>
  cpu_cluster_name = "cpu-cluster"
  try:
      cpu_cluster = ComputeTarget(workspace=ws, name=cpu_cluster_name)
      print('Found existing cluster, use it.')
  except ComputeTargetException:
      compute_config = AmlCompute.provisioning_configuration(vm_size='STANDARD_D2_V2',
                                                             vm_priority='lowpriority',
                                                             max_nodes=4)
      cpu_cluster = ComputeTarget.create(ws, cpu_cluster_name, compute_config)
  cpu_cluster.wait_for_completion(show_output=True)
  \<close>
\<close>

record cluster_sdk =
  sdk_ComputeTarget :: "workspace \<Rightarrow> string \<Rightarrow> exn + compute_target"
  sdk_ComputeTarget_create :: "workspace \<Rightarrow> string \<Rightarrow> compute_config \<Rightarrow> exn + compute_target"
  sdk_wait_for_completion :: "compute_target \<Rightarrow> exn + unit"

definition cpu_cluster_name :: string where
  "cpu_cluster_name = ''cpu-cluster''"

text \<open>\<open>AmlCompute.provisioning_configuration\<close> builds the configuration object from its
  keyword arguments.\<close>

definition provisioning_configuration :: "string \<Rightarrow> string \<Rightarrow> nat \<Rightarrow> compute_config io" where
  "provisioning_configuration vsize priority nodes =
     (let cfg = \<lparr>vm_size = vsize, vm_priority = priority, max_nodes = nodes\<rparr>
      in call (AmlCompute_provisioning_configuration cfg) (Inr cfg))"

definition create_compute_cell :: "cluster_sdk \<Rightarrow> workspace \<Rightarrow> compute_target io" where
  "create_compute_cell sdk ws =
     bind_io
       (try_except
          (bind_io
             (call (ComputeTarget_init ws cpu_cluster_name)
                (sdk_ComputeTarget sdk ws cpu_cluster_name))
             (\<lambda>cpu_cluster.
                bind_io (print ''Found existing cluster, use it.'') (\<lambda>_. ret cpu_cluster)))
          (catches Except_ComputeTargetException)
          (\<lambda>_. bind_io (provisioning_configuration ''STANDARD_D2_V2'' ''lowpriority'' 4)
             (\<lambda>compute_config.
                call (ComputeTarget_create ws cpu_cluster_name compute_config)
                  (sdk_ComputeTarget_create sdk ws cpu_cluster_name compute_config))))
       (\<lambda>cpu_cluster.
          bind_io
            (call (Wait_for_completion cpu_cluster True) (sdk_wait_for_completion sdk cpu_cluster))
            (\<lambda>_. ret cpu_cluster))"

text \<open>The notebooks that obtain the compute target, by their titles, each with its cell.\<close>

definition cpu_cluster_cells :: "(string \<times> (cluster_sdk \<Rightarrow> workspace \<Rightarrow> compute_target io)) list" where
  "cpu_cluster_cells =
     [(''Exercise 8 - Batch Inferencing with Pipelines'', create_compute_cell),
      (''Exercise 4 - Compute Contexts'', create_compute_cell),
      (''Exercise 7 - Automating ML Workflows with Pipelines'', create_compute_cell),
      (''Exercise 5 - Optimizing Model Training'', create_compute_cell)]"

text \<open>The calls that provision compute.\<close>

fun is_provisioning :: "event \<Rightarrow> bool" where
  "is_provisioning (AmlCompute_provisioning_configuration _) = True"
| "is_provisioning (ComputeTarget_create _ _ _) = True"
| "is_provisioning _ = False"

definition the_cluster_config :: compute_config where
  "the_cluster_config = \<lparr>vm_size = ''STANDARD_D2_V2'', vm_priority = ''lowpriority'', max_nodes = 4\<rparr>"

section \<open>The workspace cell\<close>

text \<open>
  Exercise 1, Task 3:
  \<^verbatim>\<open>
  SUBSCRIPTION_ID = '<YOUR_AZURE_SUBSCRIPTION_ID>'
  RESOURCE_GROUP_NAME  = 'aml-resource-group'
  WORKSPACE_NAME  = 'aml-workspace'
  REGION = 'eastus2'

  ws = None
  try:
      # Find existing workspace
      ws = Workspace(workspace_name=WORKSPACE_NAME,
                     subscription_id=SUBSCRIPTION_ID,
                     resource_group= RESOURCE_GROUP_NAME)
      print (ws.name, "found.")
  except Exception as ex:
      # If workspace not found, create it
      print(ex.message)
      print("Attempting to create new workspace...")
      ws = Workspace.create(name=WORKSPACE_NAME,
                        subscription_id=SUBSCRIPTION_ID,
                        resource_group=RESOURCE_GROUP_NAME,
                        create_resource_group=True,
                        location=REGION
                       )
      print(ws.name, "created.")
  finally:
      # Save the workspace configuration for later
      if ws != None:
          ws.write_config()
          print(ws.name, "saved.")
  \<close>
  The cell's one variable is \<open>ws\<close>: \<open>None\<close> or a workspace.
\<close>

record workspace_sdk =
  sdk_Workspace :: "string \<Rightarrow> string \<Rightarrow> string \<Rightarrow> exn + workspace"
  sdk_Workspace_create :: "string \<Rightarrow> string \<Rightarrow> string \<Rightarrow> bool \<Rightarrow> string \<Rightarrow> exn + workspace"
  sdk_write_config :: "workspace \<Rightarrow> exn + unit"

definition SUBSCRIPTION_ID :: string where
  "SUBSCRIPTION_ID = ''<YOUR_AZURE_SUBSCRIPTION_ID>''"

definition RESOURCE_GROUP_NAME :: string where
  "RESOURCE_GROUP_NAME = ''aml-resource-group''"

definition WORKSPACE_NAME :: string where
  "WORKSPACE_NAME = ''aml-workspace''"

definition REGION :: string where
  "REGION = ''eastus2''"

text \<open>\<open>ws = Workspace(workspace_name=..., subscription_id=..., resource_group=...)\<close>\<close>

definition find_workspace :: "workspace_sdk \<Rightarrow> workspace option stmt" where
  "find_workspace sdk ws =
     (case sdk_Workspace sdk WORKSPACE_NAME SUBSCRIPTION_ID RESOURCE_GROUP_NAME of
        Inl e \<Rightarrow> ([Workspace_init WORKSPACE_NAME SUBSCRIPTION_ID RESOURCE_GROUP_NAME], ws, Some e)
      | Inr w \<Rightarrow> ([Workspace_init WORKSPACE_NAME SUBSCRIPTION_ID RESOURCE_GROUP_NAME], Some w, None))"

text \<open>\<open>ws = Workspace.create(name=..., ..., create_resource_group=True, location=REGION)\<close>\<close>

definition create_workspace :: "workspace_sdk \<Rightarrow> workspace option stmt" where
  "create_workspace sdk ws =
     (case sdk_Workspace_create sdk WORKSPACE_NAME SUBSCRIPTION_ID RESOURCE_GROUP_NAME True REGION of
        Inl e \<Rightarrow>
          ([Workspace_create WORKSPACE_NAME SUBSCRIPTION_ID RESOURCE_GROUP_NAME True REGION],
           ws, Some e)
      | Inr w \<Rightarrow>
          ([Workspace_create WORKSPACE_NAME SUBSCRIPTION_ID RESOURCE_GROUP_NAME True REGION],
           Some w, None))"

text \<open>\<open>print(ws.name, suffix)\<close>; \<open>None\<close> has no attribute \<open>name\<close>.\<close>

definition print_ws_name :: "string \<Rightarrow> workspace option stmt" where
  "print_ws_name suffix ws =
     (case ws of
        None \<Rightarrow> ([], ws, Some (Exn AttributeError None))
      | Some w \<Rightarrow> ([Print (ws_name w @ '' '' @ suffix)], ws, None))"

text \<open>\<open>print(ex.message)\<close>: reading the attribute of an exception object that has none
  raises \<open>AttributeError\<close>.\<close>

definition print_ex_message :: "exn \<Rightarrow> 's stmt" where
  "print_ex_message ex s =
     (case exn_message ex of
        None \<Rightarrow> ([], s, Some (Exn AttributeError None))
      | Some m \<Rightarrow> ([Print m], s, None))"

text \<open>\<open>ws.write_config()\<close>\<close>

definition write_config :: "workspace_sdk \<Rightarrow> workspace option stmt" where
  "write_config sdk ws =
     (case ws of
        None \<Rightarrow> ([], ws, Some (Exn AttributeError None))
      | Some w \<Rightarrow>
          (case sdk_write_config sdk w of
             Inl e \<Rightarrow> ([Write_config w], ws, Some e)
           | Inr _ \<Rightarrow> ([Write_config w], ws, None)))"

definition connect_workspace_cell :: "workspace_sdk \<Rightarrow> event list \<times> workspace option \<times> exn option" where
  "connect_workspace_cell sdk =
     try_except_finally
       (seq (find_workspace sdk) (print_ws_name ''found.''))
       (catches Except_Exception)
       (\<lambda>ex. seq (print_ex_message ex)
          (seq (stmt_print ''Attempting to create new workspace...'')
             (seq (create_workspace sdk) (print_ws_name ''created.''))))
       (\<lambda>ws. if ws \<noteq> None then seq (write_config sdk) (print_ws_name ''saved.'') ws
             else skip ws)
       None"

text \<open>The parts of a cell's result.\<close>

definition trace_of :: "event list \<times> 's \<times> exn option \<Rightarrow> event list" where
  "trace_of r = fst r"

definition vars_of :: "event list \<times> 's \<times> exn option \<Rightarrow> 's" where
  "vars_of r = fst (snd r)"

definition raised :: "event list \<times> 's \<times> exn option \<Rightarrow> exn option" where
  "raised r = snd (snd r)"

fun is_Write_config :: "event \<Rightarrow> bool" where
  "is_Write_config (Write_config _) = True"
| "is_Write_config _ = False"

fun is_Workspace_create :: "event \<Rightarrow> bool" where
  "is_Workspace_create (Workspace_create _ _ _ _ _) = True"
| "is_Workspace_create _ = False"

section \<open>The except clauses of the notebooks\<close>

text \<open>
  Every notebook of the repository by its title, with the \<open>except\<close> clauses of each of its
  code cells in order (a cell that writes a script counts with the script's text). A cell
  with no \<open>try\<close> statement has the empty list.
\<close>

definition notebook_except_clauses :: "(string \<times> except_clause list list) list" where
  "notebook_except_clauses =
     [(''Exercise 1: Setting up Your Environment'',
       [[], [], [Except_Exception], [], []]),
      (''Exercise 8 - Batch Inferencing with Pipelines'',
       [[], [], [], [Except_ComputeTargetException], [], [], [], [], [], [], [], [], [], [],
        [], [], []]),
      (''Exercise 2 - Getting Started with Experiments'',
       [[], [], [], [], [], [], [], []]),
      (''Exercise 4 - Compute Contexts'',
       [[], [], [Except_ComputeTargetException], [], [], [], [], [], [], [], [], []]),
      (''Exercise 7 - Automating ML Workflows with Pipelines'',
       [[], [], [], [], [], [Except_ComputeTargetException], [], [], [], []]),
      (''Exercise 3 - From Data to Model'',
       [[], [], [], [], [], [], [], [], [], [], [], [], [], [], [], [], [], [], [], [], [],
        []]),
      (''Exercise 5 - Optimizing Model Training'',
       [[], [], [Except_ComputeTargetException], [], [], [], [], [], [], [], [], [], [], [],
        []])]"

text \<open>The code cells that have an \<open>except\<close> clause: notebook, number of the code cell
  (from 1) and the clauses.\<close>

definition cells_with_except_clauses :: "(string \<times> nat \<times> except_clause list) list" where
  "cells_with_except_clauses =
     concat (map (\<lambda>(nb, cells).
        map (\<lambda>(i, cs). (nb, i, cs))
          (filter (\<lambda>(i, cs). cs \<noteq> []) (enumerate 1 cells)))
       notebook_except_clauses)"

section \<open>Triggering the published pipeline over REST\<close>

text \<open>
  Exercise 8, Task 5:
  \<^verbatim>\<open>
  interactive_auth = InteractiveLoginAuthentication()
  auth_header = interactive_auth.get_authentication_header()
  print(auth_header)
  \<close>
  and, in the next code cell,
  \<^verbatim>\<open>
  rest_endpoint = published_pipeline.endpoint
  response = requests.post(rest_endpoint,
                           headers=auth_header,
                           json={"ExperimentName": "Batch_Pipeline_via_REST"})
  run_id = response.json()["Id"]
  \<close>
  The endpoint is an attribute of the pipeline published before; the cell takes it as a
  parameter. The authentication session, the HTTP exchange and the decoding of the
  response are external.
\<close>

record rest_env =
  env_InteractiveLoginAuthentication :: "exn + auth_session"
  env_get_authentication_header :: "auth_session \<Rightarrow> exn + (string \<times> string) list"
  env_requests_post :: "http_request \<Rightarrow> exn + response"
  env_response_json :: "response \<Rightarrow> exn + json"

definition get_auth_header_cell :: "rest_env \<Rightarrow> (string \<times> string) list io" where
  "get_auth_header_cell env =
     bind_io (call InteractiveLoginAuthentication_init (env_InteractiveLoginAuthentication env))
       (\<lambda>interactive_auth.
          bind_io
            (call (Get_authentication_header interactive_auth)
               (env_get_authentication_header env interactive_auth))
            (\<lambda>auth_header.
               bind_io (call (Print_headers auth_header) (Inr ())) (\<lambda>_. ret auth_header)))"

text \<open>\<open>requests.post(url, headers=..., json=...)\<close> sends one request with method POST.\<close>

definition requests_post :: "rest_env \<Rightarrow> string \<Rightarrow> (string \<times> string) list \<Rightarrow> json \<Rightarrow> response io" where
  "requests_post env url hdrs body =
     (let req = \<lparr>req_method = ''POST'', req_url = url, req_headers = hdrs, req_json = body\<rparr>
      in call (Requests_request req) (env_requests_post env req))"

text \<open>\<open>value[key]\<close> on what \<open>response.json()\<close> returned: a dictionary gives the value
  stored last under the key or raises \<open>KeyError\<close>; no other JSON value takes a string as
  subscript.\<close>

definition subscript :: "json \<Rightarrow> string \<Rightarrow> json io" where
  "subscript j k =
     (case j of
        JObject kvs \<Rightarrow>
          (case map_of (rev kvs) k of None \<Rightarrow> raise (Exn KeyError None) | Some v \<Rightarrow> ret v)
      | _ \<Rightarrow> raise (Exn TypeError None))"

definition trigger_pipeline_cell :: "rest_env \<Rightarrow> string \<Rightarrow> (string \<times> string) list \<Rightarrow> json io" where
  "trigger_pipeline_cell env endpoint auth_header =
     (let rest_endpoint = endpoint in
      bind_io
        (requests_post env rest_endpoint auth_header
           (JObject [(''ExperimentName'', JString ''Batch_Pipeline_via_REST'')]))
        (\<lambda>response.
           bind_io (call (Response_json response) (env_response_json env response))
             (\<lambda>body. subscript body ''Id'')))"

text \<open>The two cells in the notebook's order.\<close>

definition trigger_published_pipeline :: "rest_env \<Rightarrow> string \<Rightarrow> json io" where
  "trigger_published_pipeline env endpoint =
     bind_io (get_auth_header_cell env) (trigger_pipeline_cell env endpoint)"

fun is_Requests_request :: "event \<Rightarrow> bool" where
  "is_Requests_request (Requests_request _) = True"
| "is_Requests_request _ = False"

section \<open>Paths, files and lines\<close>

text \<open>\<open>os.path.join(a, b)\<close> with two components, on POSIX: an absolute \<open>b\<close> replaces \<open>a\<close>;
  otherwise \<open>b\<close> follows \<open>a\<close>, after a slash unless \<open>a\<close> is empty or ends with one.\<close>

definition os_path_join :: "string \<Rightarrow> string \<Rightarrow> string" where
  "os_path_join a b =
     (if b \<noteq> [] \<and> hd b = CHR ''/'' then b
      else if a = [] \<or> last a = CHR ''/'' then a @ b
      else a @ ''/'' @ b)"

text \<open>\<open>os.path.split(p)[1]\<close>: what follows the last slash of \<open>p\<close>.\<close>

definition path_tail :: "string \<Rightarrow> string" where
  "path_tail p = rev (takeWhile (\<lambda>c. c \<noteq> CHR ''/'') (rev p))"

definition newline :: char where
  "newline = CHR 0x0A"

text \<open>The contents of the file at \<open>path\<close> after the calls of a trace: opening it for
  writing empties it, every write appends. \<open>None\<close> when the trace never opened it.\<close>

fun file_step :: "string \<Rightarrow> event \<Rightarrow> string option \<Rightarrow> string option" where
  "file_step path (File_open p mode) c = (if p = path \<and> mode = ''w'' then Some [] else c)"
| "file_step path (File_write p chunk) c = (if p = path then map_option (\<lambda>s. s @ chunk) c else c)"
| "file_step path _ c = c"

definition file_content :: "event list \<Rightarrow> string \<Rightarrow> string option" where
  "file_content tr path = fold (file_step path) tr None"

text \<open>The lines of a text, each without its newline (a last line need not end with one).\<close>

definition split_lines :: "string \<Rightarrow> string list" where
  "split_lines s =
     foldr (\<lambda>c acc. if c = newline then [] # acc
                     else (case acc of [] \<Rightarrow> [[c]] | l # ls \<Rightarrow> (c # l) # ls)) s []"

text \<open>\<open>with open(path, mode) as f: body\<close>: the file is closed when the body ends, also
  when it ends with an exception.\<close>

definition with_open :: "library \<Rightarrow> string \<Rightarrow> string \<Rightarrow> 'a io \<Rightarrow> 'a io" where
  "with_open lib path mode body =
     bind_io (method_call lib (File_open path mode))
       (\<lambda>_. case body of
                (tr, Inl e) \<Rightarrow> (tr @ [File_close path], Inl e)
              | (tr, Inr x) \<Rightarrow>
                  bind_io (tr, Inr x) (\<lambda>_. bind_io (method_call lib (File_close path)) (\<lambda>_. ret x)))"

section \<open>The batch scoring script\<close>

text \<open>
  \<open>batch_diabetes.py\<close>, written by Exercise 8, Task 4:
  \<^verbatim>\<open>
  import argparse
  import joblib
  from azureml.core import Workspace, Model, Run
  from glob import glob
  import os
  import numpy as np
  from azureml.core.model import Model
  import azureml.train.automl # Required for AutoML models
  import shutil

  global model

  run = Run.get_context()

  parser = argparse.ArgumentParser()
  parser.add_argument('--input_dir', type=str, dest='input_dir', default="batch_data", ...)
  args = parser.parse_args()
  input_dir = args.input_dir
  run.log("Input Folder", input_dir)

  model_path = Model.get_model_path('diabetes_model')
  model = joblib.load(model_path)

  file_path = os.path.join(input_dir, "*.csv")
  file_names = glob(file_path)
  run.log("File Count", len(file_names))
  input_data = np.asarray([np.genfromtxt(f, delimiter=',') for f in file_names])

  predictions = model.predict(input_data)

  output_dir = "outputs"
  os.makedirs(output_dir, exist_ok=True)
  output_path = os.path.join(output_dir, "results.txt")
  with open(output_path, 'w') as output_file:
      for i in range(len(predictions)):
          output_file.write(os.path.split(file_names[i])[1] + ": " + str(predictions[i]) + "\n")
      output_file.flush()
  output_file.close()

  run.complete()
  \<close>
  What the file system matches, what the files hold, what the model predicts and how a
  prediction prints are external; \<open>'p\<close> is the type of a prediction.
\<close>

record 'p batch_env =
  env_lib :: library
  env_get_model_path :: "string \<Rightarrow> exn + string"
  env_glob :: "string \<Rightarrow> exn + string list"
  env_genfromtxt :: "string \<Rightarrow> exn + rat list"
  env_predict :: "rat list list \<Rightarrow> exn + 'p list"
  env_str :: "'p \<Rightarrow> string"

definition batch_diabetes_imports :: "string list" where
  "batch_diabetes_imports =
     [''argparse'', ''joblib'', ''Workspace'', ''Model'', ''Run'', ''glob'', ''os'', ''np'',
      ''azureml'', ''shutil'']"

text \<open>\<open>[np.genfromtxt(f, delimiter=',') for f in file_names]\<close>\<close>

fun genfromtxt_all :: "string list \<Rightarrow> 'p batch_env \<Rightarrow> string list \<Rightarrow> rat list list io" where
  "genfromtxt_all names env [] = ret []"
| "genfromtxt_all names env (f # fs) =
     bind_io (named_call names ''np'' (Genfromtxt f) (env_genfromtxt env f))
       (\<lambda>row. bind_io (genfromtxt_all names env fs) (\<lambda>rows. ret (row # rows)))"

text \<open>\<open>os.path.split(file_names[i])[1] + ": " + str(predictions[i]) + "\n"\<close>\<close>

definition result_line :: "('p \<Rightarrow> string) \<Rightarrow> string \<Rightarrow> 'p \<Rightarrow> string" where
  "result_line str f p = path_tail f @ '': '' @ str p @ [newline]"

text \<open>One turn of the loop: \<open>file_names[i]\<close> raises \<open>IndexError\<close> beyond the list's end.\<close>

definition write_result :: "string list \<Rightarrow> 'p batch_env \<Rightarrow> string \<Rightarrow> string list \<Rightarrow> 'p list \<Rightarrow> nat \<Rightarrow> unit io" where
  "write_result names env output_path file_names predictions i =
     bind_io (global_name names ''os'')
       (\<lambda>_. if i < length file_names
             then method_call (env_lib env)
                    (File_write output_path
                       (result_line (env_str env) (file_names ! i) (predictions ! i)))
             else raise (Exn IndexError None))"

text \<open>The script from \<open>run.log("Input Folder", input_dir)\<close> on.\<close>

definition score_files :: "'p batch_env \<Rightarrow> string \<Rightarrow> unit io" where
  "score_files env input_dir =
     (let names = batch_diabetes_imports; lib = env_lib env in
      bind_io (method_call lib (Run_log ''Input Folder'' (PStr input_dir))) (\<lambda>_.
      bind_io (named_call names ''Model'' (Model_get_model_path ''diabetes_model'')
                 (env_get_model_path env ''diabetes_model'')) (\<lambda>model_path.
      bind_io (lib_call names lib ''joblib'' (Joblib_load model_path)) (\<lambda>_.
      bind_io (global_name names ''os'') (\<lambda>_.
      let file_path = os_path_join input_dir ''*.csv'' in
      bind_io (named_call names ''glob'' (Glob file_path) (env_glob env file_path)) (\<lambda>file_names.
      bind_io (method_call lib (Run_log ''File Count'' (PInt (int (length file_names))))) (\<lambda>_.
      bind_io (global_name names ''np'') (\<lambda>_.
      bind_io (genfromtxt_all names env file_names) (\<lambda>rows.
      bind_io (method_call lib (Lib ''np.asarray'')) (\<lambda>_.
      bind_io (call (Model_predict rows) (env_predict env rows)) (\<lambda>predictions.
      let output_dir = ''outputs'' in
      bind_io (lib_call names lib ''os'' (Os_makedirs output_dir)) (\<lambda>_.
      bind_io (global_name names ''os'') (\<lambda>_.
      let output_path = os_path_join output_dir ''results.txt'' in
      bind_io
        (with_open lib output_path ''w''
           (bind_io
              (steps (map (write_result names env output_path file_names predictions)
                        [0..<length predictions]))
              (\<lambda>_. method_call lib (File_flush output_path)))) (\<lambda>_.
      bind_io (method_call lib (File_close output_path)) (\<lambda>_.
      method_call lib Run_complete)))))))))))))))"

definition batch_diabetes :: "'p batch_env \<Rightarrow> argv \<Rightarrow> unit io" where
  "batch_diabetes env args =
     (let names = batch_diabetes_imports; lib = env_lib env in
      bind_io (lib_call names lib ''Run'' Run_get_context) (\<lambda>_.
      bind_io (lib_call names lib ''argparse'' (Lib ''argparse.ArgumentParser()'')) (\<lambda>_.
      bind_io (undeclared_options [''--input_dir''] args) (\<lambda>_.
      case str_option args ''--input_dir'' (Some ''batch_data'') of
        None \<Rightarrow> raise (Exn TypeError None)
      | Some input_dir \<Rightarrow> score_files env input_dir))))"

section \<open>Generating the batch data\<close>

text \<open>
  Exercise 8, Task 2:
  \<^verbatim>\<open>
  diabetes = pd.read_csv('data/diabetes.csv')
  sample = diabetes[['Pregnancies','PlasmaGlucose','DiastolicBloodPressure',
      'TricepsThickness','SerumInsulin','BMI','DiabetesPedigree','Age']].sample(n=100).values

  batch_folder = './batch_data'
  os.makedirs(batch_folder, exist_ok=True)
  print("Folder created!")

  print("Saving files...")
  for i in range(100):
      fname = str(i+1) + '.csv'
      sample[i].tofile(os.path.join(batch_folder, fname), sep=",")
  print("files saved!")

  print("Uploading files to datastore...")
  default_ds = ws.get_default_datastore()
  default_ds.upload(src_dir="batch_data", target_path="batch_data", overwrite=True,
                    show_progress=True)
  print("Done!")
  \<close>
  A data frame is its column names and its rows, each row a value per column
  (\<open>read_csv\<close> makes the column names distinct). Reading the file and drawing the random
  sample are external.
\<close>

record dataframe =
  df_columns :: "string list"
  df_rows :: "rat list list"

text \<open>The position of a column.\<close>

definition column_index :: "dataframe \<Rightarrow> string \<Rightarrow> nat" where
  "column_index df c = length (takeWhile (\<lambda>d. d \<noteq> c) (df_columns df))"

text \<open>\<open>df[[c1, ..., cn]]\<close>: the frame of these columns, in this order; \<open>KeyError\<close> when the
  frame lacks one of them.\<close>

definition project_columns :: "dataframe \<Rightarrow> string list \<Rightarrow> dataframe" where
  "project_columns df cols =
     \<lparr>df_columns = cols,
      df_rows = map (\<lambda>row. map (\<lambda>c. row ! column_index df c) cols) (df_rows df)\<rparr>"

definition select_columns :: "dataframe \<Rightarrow> string list \<Rightarrow> dataframe io" where
  "select_columns df cols =
     (if list_all (\<lambda>c. c \<in> set (df_columns df)) cols then ret (project_columns df cols)
      else raise (Exn KeyError None))"

text \<open>Python's \<open>str\<close> on a natural number.\<close>

definition digit_char :: "nat \<Rightarrow> char" where
  "digit_char d = char_of (48 + d)"

fun str_nat :: "nat \<Rightarrow> string" where
  "str_nat n = (if n < 10 then [digit_char n] else str_nat (n div 10) @ [digit_char (n mod 10)])"

declare str_nat.simps [simp del]

definition feature_columns :: "string list" where
  "feature_columns =
     [''Pregnancies'', ''PlasmaGlucose'', ''DiastolicBloodPressure'', ''TricepsThickness'',
      ''SerumInsulin'', ''BMI'', ''DiabetesPedigree'', ''Age'']"

record batch_data_env =
  gen_lib :: library
  gen_read_csv :: "string \<Rightarrow> exn + dataframe"
  gen_sample :: "dataframe \<Rightarrow> nat \<Rightarrow> exn + rat list list"

text \<open>One turn of the loop; \<open>sample[i]\<close> raises \<open>IndexError\<close> beyond the sample's end.\<close>

definition save_sample :: "batch_data_env \<Rightarrow> string \<Rightarrow> rat list list \<Rightarrow> nat \<Rightarrow> unit io" where
  "save_sample env batch_folder sample i =
     (let fname = str_nat (i + 1) @ ''.csv'' in
      if i < length sample
      then method_call (gen_lib env) (Tofile (os_path_join batch_folder fname) (sample ! i) '','')
      else raise (Exn IndexError None))"

definition generate_batch_data_cell :: "batch_data_env \<Rightarrow> unit io" where
  "generate_batch_data_cell env =
     (let lib = gen_lib env in
      bind_io (call (Read_csv ''data/diabetes.csv'') (gen_read_csv env ''data/diabetes.csv''))
        (\<lambda>diabetes.
      bind_io (select_columns diabetes feature_columns) (\<lambda>features.
      bind_io (call (Dataframe_sample 100) (gen_sample env features 100)) (\<lambda>sample.
      let batch_folder = ''./batch_data'' in
      bind_io (method_call lib (Os_makedirs batch_folder)) (\<lambda>_.
      bind_io (print ''Folder created!'') (\<lambda>_.
      bind_io (print ''Saving files...'') (\<lambda>_.
      bind_io (steps (map (save_sample env batch_folder sample) [0..<100])) (\<lambda>_.
      bind_io (print ''files saved!'') (\<lambda>_.
      bind_io (print ''Uploading files to datastore...'') (\<lambda>_.
      bind_io (method_call lib Get_default_datastore) (\<lambda>_.
      bind_io (method_call lib (Datastore_upload ''batch_data'' ''batch_data'' True)) (\<lambda>_.
      print ''Done!''))))))))))))"

fun is_Tofile :: "event \<Rightarrow> bool" where
  "is_Tofile (Tofile _ _ _) = True"
| "is_Tofile _ = False"

text \<open>The files that a trace writes.\<close>

fun written_files :: "event list \<Rightarrow> string list" where
  "written_files [] = []"
| "written_files (Tofile path _ _ # tr) = path # written_files tr"
| "written_files (_ # tr) = written_files tr"

section \<open>The training scripts\<close>

text \<open>
  The notebooks write \<open>diabetes_training.py\<close> five times. From the comment
  \<open># Separate features and labels\<close> to the end the five texts are the same:
  \<^verbatim>\<open>
  X, y = diabetes[['Pregnancies', ..., 'Age']].values, diabetes['Diabetic'].values
  X_train, X_test, y_train, y_test = train_test_split(X, y, test_size=0.30, random_state=0)
  print('Training a logistic regression model with regularization rate of', reg)
  run.log('Regularization Rate',  np.float(reg))
  model = LogisticRegression(C=1/reg, solver="liblinear").fit(X_train, y_train)
  y_hat = model.predict(X_test)
  acc = np.average(y_hat == y_test)
  print('Accuracy:', acc)
  run.log('Accuracy', np.float(acc))
  y_scores = model.predict_proba(X_test)
  auc = roc_auc_score(y_test,y_scores[:,1])
  print('AUC: ' + str(auc))
  run.log('AUC', np.float(auc))
  fpr, tpr, thresholds = roc_curve(y_test, y_scores[:,1])
  fig = plt.figure(figsize=(6, 4))
  plt.plot([0, 1], [0, 1], 'k--')
  plt.plot(fpr, tpr)
  plt.xlabel('False Positive Rate')
  plt.ylabel('True Positive Rate')
  plt.title('ROC Curve')
  run.log_image(name = "ROC", plot = fig)
  plt.show()
  os.makedirs('outputs', exist_ok=True)
  joblib.dump(value=model, filename='outputs/diabetes_model.pkl')
  run.complete()
  \<close>
  The data, the model and the metrics are values that only the libraries look into. The
  callee of \<open>LogisticRegression(C=1/reg, ...)\<close> is looked up before its argument is
  computed.
\<close>

definition print_values :: "pyval list \<Rightarrow> unit io" where
  "print_values vs = call (Print_values vs) (Inr ())"

definition train_evaluate :: "string list \<Rightarrow> library \<Rightarrow> rat \<Rightarrow> unit io list" where
  "train_evaluate names lib reg =
     [method_call lib (Lib ''diabetes[features].values, diabetes[Diabetic].values''),
      lib_call names lib ''train_test_split''
        (Lib ''train_test_split(X, y, test_size=0.30, random_state=0)''),
      print_values
        [PStr ''Training a logistic regression model with regularization rate of'', PFloat reg],
      lib_call names lib ''np'' (Run_log ''Regularization Rate'' (PFloat reg)),
      bind_io (global_name names ''LogisticRegression'')
        (\<lambda>_. bind_io (py_truediv 1 reg)
           (\<lambda>C. method_call lib (LogisticRegression_fit C ''liblinear''))),
      method_call lib (Lib ''model.predict(X_test)''),
      lib_call names lib ''np'' (Lib ''np.average(y_hat == y_test)''),
      print_values [PStr ''Accuracy:'', PVar ''acc''],
      lib_call names lib ''np'' (Run_log ''Accuracy'' (PVar ''acc'')),
      method_call lib (Lib ''model.predict_proba(X_test)''),
      lib_call names lib ''roc_auc_score'' (Lib ''roc_auc_score(y_test, y_scores[:,1])''),
      print_values [PVar ''AUC: + str(auc)''],
      lib_call names lib ''np'' (Run_log ''AUC'' (PVar ''auc'')),
      lib_call names lib ''roc_curve'' (Lib ''roc_curve(y_test, y_scores[:,1])''),
      lib_call names lib ''plt'' (Lib ''plt.figure(figsize=(6, 4))''),
      lib_call names lib ''plt'' (Lib ''plt.plot([0, 1], [0, 1], k--)''),
      lib_call names lib ''plt'' (Lib ''plt.plot(fpr, tpr)''),
      lib_call names lib ''plt'' (Lib ''plt.xlabel(False Positive Rate)''),
      lib_call names lib ''plt'' (Lib ''plt.ylabel(True Positive Rate)''),
      lib_call names lib ''plt'' (Lib ''plt.title(ROC Curve)''),
      method_call lib (Run_log_image ''ROC''),
      lib_call names lib ''plt'' (Lib ''plt.show()'')]"

text \<open>The last three statements: \<open>os.makedirs(folder, exist_ok=True)\<close>,
  \<open>joblib.dump(value=model, filename=path)\<close> and \<open>run.complete()\<close>.\<close>

definition save_and_complete :: "string list \<Rightarrow> library \<Rightarrow> string \<Rightarrow> string \<Rightarrow> unit io list" where
  "save_and_complete names lib folder path =
     [lib_call names lib ''os'' (Os_makedirs folder),
      lib_call names lib ''joblib'' (Joblib_dump path),
      method_call lib Run_complete]"

definition train_evaluate_save :: "string list \<Rightarrow> library \<Rightarrow> rat \<Rightarrow> unit io list" where
  "train_evaluate_save names lib reg =
     train_evaluate names lib reg
     @ save_and_complete names lib ''outputs'' ''outputs/diabetes_model.pkl''"

text \<open>The three ways in which the scripts load the data:
  \<^verbatim>\<open>
  print("Loading data from " + dataset_name)
  diabetes = Dataset.get_by_name(workspace=run.experiment.workspace,
                                 name=dataset_name).to_pandas_dataframe()
  \<close>
  \<^verbatim>\<open>
  print("Loading Data...")
  diabetes = run.input_datasets['diabetes'].to_pandas_dataframe()
  \<close>
  \<^verbatim>\<open>
  data_folder = args.data_folder
  print("Loading data from", data_folder)
  diabetes = pd.read_csv(os.path.join(data_folder,"diabetes.csv"))
  \<close>
  In the last, \<open>--data-folder\<close> has no default: without the option \<open>data_folder\<close> is
  \<open>None\<close>, which \<open>os.path.join\<close> rejects.\<close>

definition load_by_name :: "string list \<Rightarrow> library \<Rightarrow> string \<Rightarrow> unit io list" where
  "load_by_name names lib dataset_name =
     [print (''Loading data from '' @ dataset_name),
      lib_call names lib ''Dataset''
        (Lib (''Dataset.get_by_name(name='' @ dataset_name @ '').to_pandas_dataframe()''))]"

definition load_input_dataset :: "library \<Rightarrow> unit io list" where
  "load_input_dataset lib =
     [print ''Loading Data...'',
      method_call lib (Lib ''run.input_datasets[diabetes].to_pandas_dataframe()'')]"

definition load_data_folder :: "string list \<Rightarrow> library \<Rightarrow> string option \<Rightarrow> unit io list" where
  "load_data_folder names lib data_folder =
     [print_values [PStr ''Loading data from'',
        (case data_folder of None \<Rightarrow> PVar ''None'' | Some d \<Rightarrow> PStr d)],
      bind_io (global_name names ''pd'')
        (\<lambda>_. bind_io (global_name names ''os'')
           (\<lambda>_. case data_folder of
                   None \<Rightarrow> raise (Exn TypeError None)
                 | Some d \<Rightarrow> method_call lib (Read_csv (os_path_join d ''diabetes.csv''))))]"

text \<open>
  Exercise 3, Task 4: no command line; the script begins
  \<^verbatim>\<open>
  from azureml.core import Workspace, Dataset, Experiment, Run
  import pandas as pd
  import numpy as np
  import joblib
  import matplotlib.pyplot as plt
  from sklearn.model_selection import train_test_split
  from sklearn.linear_model import LogisticRegression
  from sklearn.metrics import roc_auc_score
  from sklearn.metrics import roc_curve

  # Set regularization rate
  reg = 0.01

  # Get the experiment run context
  run = Run.get_context()

  # load the diabetes dataset
  dataset_name = 'Diabetes Dataset'
  \<close>
\<close>

definition training_fixed_imports :: "string list" where
  "training_fixed_imports =
     [''Workspace'', ''Dataset'', ''Experiment'', ''Run'', ''pd'', ''np'', ''joblib'', ''plt'',
      ''train_test_split'', ''LogisticRegression'', ''roc_auc_score'', ''roc_curve'']"

definition diabetes_training_fixed :: "library \<Rightarrow> argv \<Rightarrow> unit io" where
  "diabetes_training_fixed lib args =
     (let names = training_fixed_imports; reg = 1 / 100 in
      steps ([lib_call names lib ''Run'' Run_get_context]
             @ load_by_name names lib ''Diabetes Dataset''
             @ train_evaluate_save names lib reg))"

text \<open>
  Exercise 3, Task 5 and Exercise 4, Task 3 (the same statements; the imports are the
  first script's and \<open>argparse\<close>, in another order):
  \<^verbatim>\<open>
  parser = argparse.ArgumentParser()
  parser.add_argument('--regularization', type=float, dest='reg_rate', default=0.01,
                      help='regularization rate')
  args = parser.parse_args()
  reg = args.reg_rate

  run = Run.get_context()
  \<close>
  followed by the loading from \<open>run.input_datasets\<close>.
\<close>

definition training_estimator_imports :: "string list" where
  "training_estimator_imports =
     [''argparse'', ''Workspace'', ''Dataset'', ''Experiment'', ''Run'', ''pd'', ''np'',
      ''joblib'', ''plt'', ''train_test_split'', ''LogisticRegression'', ''roc_auc_score'',
      ''roc_curve'']"

definition training_compute_imports :: "string list" where
  "training_compute_imports =
     [''argparse'', ''joblib'', ''Workspace'', ''Dataset'', ''Experiment'', ''Run'', ''pd'',
      ''np'', ''plt'', ''train_test_split'', ''LogisticRegression'', ''roc_auc_score'',
      ''roc_curve'']"

definition parse_regularization :: "string list \<Rightarrow> library \<Rightarrow> string list \<Rightarrow> argv \<Rightarrow> rat io" where
  "parse_regularization names lib declared args =
     bind_io (lib_call names lib ''argparse'' (Lib ''argparse.ArgumentParser()''))
       (\<lambda>_. bind_io (undeclared_options declared args)
          (\<lambda>_. float_option args ''--regularization'' (1 / 100)))"

definition diabetes_training_estimator :: "library \<Rightarrow> argv \<Rightarrow> unit io" where
  "diabetes_training_estimator lib args =
     (let names = training_estimator_imports in
      bind_io (parse_regularization names lib [''--regularization''] args)
        (\<lambda>reg. steps ([lib_call names lib ''Run'' Run_get_context]
                       @ load_input_dataset lib
                       @ train_evaluate_save names lib reg)))"

definition diabetes_training_compute :: "library \<Rightarrow> argv \<Rightarrow> unit io" where
  "diabetes_training_compute lib args =
     (let names = training_compute_imports in
      bind_io (parse_regularization names lib [''--regularization''] args)
        (\<lambda>reg. steps ([lib_call names lib ''Run'' Run_get_context]
                       @ load_input_dataset lib
                       @ train_evaluate_save names lib reg)))"

text \<open>Exercise 5, Task 2 (Hyperdrive): the imports and the parsing of Exercise 4's script,
  the loading by name of the first script.\<close>

definition diabetes_training_hyperdrive :: "library \<Rightarrow> argv \<Rightarrow> unit io" where
  "diabetes_training_hyperdrive lib args =
     (let names = training_compute_imports in
      bind_io (parse_regularization names lib [''--regularization''] args)
        (\<lambda>reg. steps ([lib_call names lib ''Run'' Run_get_context]
                       @ load_by_name names lib ''Diabetes Dataset''
                       @ train_evaluate_save names lib reg)))"

text \<open>
  Exercise 3, Task 6: the script also imports \<open>os\<close> and declares a second option,
  \<^verbatim>\<open>
  import os
  import argparse
  ...
  parser.add_argument('--data-folder', type=str, dest='data_folder',
                      help='data folder reference')
  \<close>
\<close>

definition training_datastore_imports :: "string list" where
  "training_datastore_imports =
     [''os'', ''argparse'', ''Workspace'', ''Dataset'', ''Experiment'', ''Run'', ''pd'', ''np'',
      ''joblib'', ''plt'', ''train_test_split'', ''LogisticRegression'', ''roc_auc_score'',
      ''roc_curve'']"

definition diabetes_training_datastore :: "library \<Rightarrow> argv \<Rightarrow> unit io" where
  "diabetes_training_datastore lib args =
     (let names = training_datastore_imports in
      bind_io (parse_regularization names lib [''--regularization'', ''--data-folder''] args)
        (\<lambda>reg. steps ([lib_call names lib ''Run'' Run_get_context]
                       @ load_data_folder names lib (str_option args ''--data-folder'' None)
                       @ train_evaluate_save names lib reg)))"

section \<open>The scripts of the training pipeline\<close>

text \<open>
  \<open>train_diabetes.py\<close> (Exercise 7, Task 2):
  \<^verbatim>\<open>
  import argparse
  import joblib
  from azureml.core import Workspace, Dataset, Experiment, Run
  import pandas as pd
  import numpy as np
  from sklearn.model_selection import train_test_split
  from sklearn.linear_model import LogisticRegression

  parser = argparse.ArgumentParser()
  parser.add_argument('--dataset_name', type=str, dest='dataset_name',
                      default="Diabetes Dataset", help='source dataset')
  parser.add_argument('--regularization', type=float, dest='reg_rate', default=0.01,
                      help='regularization rate')
  parser.add_argument('--output_folder', type=str, dest='output_folder',
                      default="diabetes_model", help='output folder')
  args = parser.parse_args()
  reg = args.reg_rate
  dataset_name = args.dataset_name
  output_folder = args.output_folder

  run = Run.get_context()

  print("Loading data from " + dataset_name)
  diabetes = Dataset.get_by_name(workspace=run.experiment.workspace,
                                 name=dataset_name).to_pandas_dataframe()

  X, y = diabetes[['Pregnancies', ..., 'Age']].values, diabetes['Diabetic'].values

  print('Training a logistic regression model with regularization rate of', reg)
  run.log('Regularization Rate',  np.float(reg))
  model = LogisticRegression(C=1/reg, solver="liblinear").fit(X, y)

  os.makedirs(output_folder, exist_ok=True)
  output_path = output_folder + "/model.pkl"
  joblib.dump(value=model, filename=output_path)

  run.complete()
  \<close>
\<close>

definition train_diabetes_imports :: "string list" where
  "train_diabetes_imports =
     [''argparse'', ''joblib'', ''Workspace'', ''Dataset'', ''Experiment'', ''Run'', ''pd'',
      ''np'', ''train_test_split'', ''LogisticRegression'']"

text \<open>Where a training step puts the model, and where a registration step looks for it.\<close>

definition model_file_in :: "string \<Rightarrow> string" where
  "model_file_in folder = folder @ ''/model.pkl''"

text \<open>The statements from \<open>run = Run.get_context()\<close> to the fitting of the model.\<close>

definition load_and_train :: "string list \<Rightarrow> library \<Rightarrow> rat \<Rightarrow> string \<Rightarrow> unit io list" where
  "load_and_train names lib reg dataset_name =
     [lib_call names lib ''Run'' Run_get_context]
     @ load_by_name names lib dataset_name
     @ [method_call lib (Lib ''diabetes[features].values, diabetes[Diabetic].values''),
        print_values
          [PStr ''Training a logistic regression model with regularization rate of'',
           PFloat reg],
        lib_call names lib ''np'' (Run_log ''Regularization Rate'' (PFloat reg)),
        bind_io (global_name names ''LogisticRegression'')
          (\<lambda>_. bind_io (py_truediv 1 reg)
             (\<lambda>C. method_call lib (LogisticRegression_fit C ''liblinear'')))]"

definition train_diabetes :: "library \<Rightarrow> argv \<Rightarrow> unit io" where
  "train_diabetes lib args =
     (let names = train_diabetes_imports in
      bind_io
        (parse_regularization names lib
           [''--dataset_name'', ''--regularization'', ''--output_folder''] args)
        (\<lambda>reg.
           case str_option args ''--dataset_name'' (Some ''Diabetes Dataset'') of
             None \<Rightarrow> raise (Exn TypeError None)
           | Some dataset_name \<Rightarrow>
               (case str_option args ''--output_folder'' (Some ''diabetes_model'') of
                  None \<Rightarrow> raise (Exn TypeError None)
                | Some output_folder \<Rightarrow>
                    steps (load_and_train names lib reg dataset_name
                      @ save_and_complete names lib output_folder
                          (model_file_in output_folder)))))"

text \<open>
  \<open>register_diabetes.py\<close> (Exercise 7, Task 2):
  \<^verbatim>\<open>
  import argparse
  import joblib
  from azureml.core import Workspace, Model, Run

  parser = argparse.ArgumentParser()
  parser.add_argument('--model_folder', type=str, dest='model_folder',
                      default="diabetes_model", help='model location')
  args = parser.parse_args()
  model_folder = args.model_folder

  run = Run.get_context()

  print("Loading model from " + model_folder)
  model_file = model_folder + "/model.pkl"
  model = joblib.load(model_file)

  Model.register(workspace=run.experiment.workspace,
                 model_path = model_file,
                 model_name = 'diabetes_model',
                 tags={'Training context':'Pipeline'})

  run.complete()
  \<close>
\<close>

definition register_diabetes_imports :: "string list" where
  "register_diabetes_imports = [''argparse'', ''joblib'', ''Workspace'', ''Model'', ''Run'']"

definition register_diabetes :: "library \<Rightarrow> argv \<Rightarrow> unit io" where
  "register_diabetes lib args =
     (let names = register_diabetes_imports in
      bind_io (lib_call names lib ''argparse'' (Lib ''argparse.ArgumentParser()'')) (\<lambda>_.
      bind_io (undeclared_options [''--model_folder''] args) (\<lambda>_.
      case str_option args ''--model_folder'' (Some ''diabetes_model'') of
        None \<Rightarrow> raise (Exn TypeError None)
      | Some model_folder \<Rightarrow>
          (let model_file = model_file_in model_folder in
           steps
             [lib_call names lib ''Run'' Run_get_context,
              print (''Loading model from '' @ model_folder),
              lib_call names lib ''joblib'' (Joblib_load model_file),
              lib_call names lib ''Model''
                (Model_register model_file ''diabetes_model''
                   [(''Training context'', ''Pipeline'')]),
              method_call lib Run_complete]))))"

section \<open>The experiment script\<close>

text \<open>
  \<open>diabetes_experiment.py\<close> (Exercise 2, Task 3):
  \<^verbatim>\<open>
  from azureml.core import Run
  import pandas as pd
  import matplotlib.pyplot as plt

  run = Run.get_context()

  data = pd.read_csv('./diabetes.csv')

  row_count = (len(data))
  run.log("observations", row_count)

  num_cols = data.columns[:-1]
  for col in num_cols:
      fig = plt.figure(figsize=(9, 6))
      ax = fig.gca()
      data.boxplot(column = col, by = "Diabetic", ax = ax)
      ax.set_title(col + ' by Diabetic')
      ax.set_ylabel(col)
      run.log_image(name = col, plot = fig)
  plt.show()

  mean_by_age = data[["Age", "DiabetesPedigree"]].groupby(["Age"]).mean().reset_index()
  ages = mean_by_age["Age"].tolist()
  pedigrees = mean_by_age["DiabetesPedigree"].tolist()
  for index in range(len(ages)):
         run.log_row("Mean Diabetes Pedigree by Age", Age = ages[index],
                     Diabetes_Pedigree = pedigrees[index])

  data.sample(100).to_csv("sample.csv", index=False, header=True)
  run.upload_file(name = 'outputs/sample.csv', path_or_stream = './sample.csv')

  run.complete()
  \<close>
  Reading the data and grouping it by age are external.
\<close>

record experiment_env =
  exp_lib :: library
  exp_read_csv :: "string \<Rightarrow> exn + dataframe"
  exp_mean_by_age :: "dataframe \<Rightarrow> exn + rat list \<times> rat list"

definition diabetes_experiment_imports :: "string list" where
  "diabetes_experiment_imports = [''Run'', ''pd'', ''plt'']"

definition box_plot :: "string list \<Rightarrow> library \<Rightarrow> string \<Rightarrow> unit io" where
  "box_plot names lib col =
     steps
       [lib_call names lib ''plt'' (Lib ''plt.figure(figsize=(9, 6))''),
        method_call lib (Lib ''fig.gca()''),
        method_call lib (Lib (''data.boxplot(column='' @ col @ '', by=Diabetic)'')),
        method_call lib (Lib (''ax.set_title('' @ col @ '' by Diabetic)'')),
        method_call lib (Lib (''ax.set_ylabel('' @ col @ '')'')),
        method_call lib (Run_log_image col)]"

definition log_age_row :: "library \<Rightarrow> rat list \<Rightarrow> rat list \<Rightarrow> nat \<Rightarrow> unit io" where
  "log_age_row lib ages pedigrees index =
     (if index < length pedigrees
      then method_call lib
             (Run_log_row ''Mean Diabetes Pedigree by Age''
                [(''Age'', PFloat (ages ! index)),
                 (''Diabetes_Pedigree'', PFloat (pedigrees ! index))])
      else raise (Exn IndexError None))"

definition diabetes_experiment :: "experiment_env \<Rightarrow> unit io" where
  "diabetes_experiment env =
     (let names = diabetes_experiment_imports; lib = exp_lib env in
      bind_io (lib_call names lib ''Run'' Run_get_context) (\<lambda>_.
      bind_io (named_call names ''pd'' (Read_csv ''./diabetes.csv'')
                 (exp_read_csv env ''./diabetes.csv'')) (\<lambda>data.
      let row_count = length (df_rows data) in
      bind_io (method_call lib (Run_log ''observations'' (PInt (int row_count)))) (\<lambda>_.
      let num_cols = butlast (df_columns data) in
      bind_io (steps (map (box_plot names lib) num_cols)) (\<lambda>_.
      bind_io (lib_call names lib ''plt'' (Lib ''plt.show()'')) (\<lambda>_.
      bind_io (call (Lib ''data[[Age, DiabetesPedigree]].groupby([Age]).mean().reset_index()'')
                 (exp_mean_by_age env data)) (\<lambda>(ages, pedigrees).
      bind_io (steps (map (log_age_row lib ages pedigrees) [0..<length ages])) (\<lambda>_.
      bind_io (method_call lib (Lib ''data.sample(100).to_csv(sample.csv)'')) (\<lambda>_.
      bind_io (method_call lib (Run_upload_file ''outputs/sample.csv'' ''./sample.csv'')) (\<lambda>_.
      method_call lib Run_complete))))))))))"

text \<open>The operations on a run.\<close>

fun is_run_operation :: "event \<Rightarrow> bool" where
  "is_run_operation (Run_log _ _) = True"
| "is_run_operation (Run_log_image _) = True"
| "is_run_operation (Run_log_row _ _) = True"
| "is_run_operation (Run_upload_file _ _) = True"
| "is_run_operation Run_complete = True"
| "is_run_operation _ = False"

fun is_LogisticRegression_fit :: "event \<Rightarrow> bool" where
  "is_LogisticRegression_fit (LogisticRegression_fit _ _) = True"
| "is_LogisticRegression_fit _ = False"

text \<open>Every run of every script: no library call fails.\<close>

definition all_succeed :: library where
  "all_succeed = (\<lambda>_. None)"

text \<open>The training scripts that take the option \<open>--regularization\<close>, each with the
  options it declares and the options it cannot do without.\<close>

definition regularization_scripts ::
  "(string \<times> (library \<Rightarrow> argv \<Rightarrow> unit io) \<times> string list \<times> string list) list" where
  "regularization_scripts =
     [(''Exercise 3, Task 5: diabetes_training.py'', diabetes_training_estimator,
       [''--regularization''], []),
      (''Exercise 3, Task 6: diabetes_training.py'', diabetes_training_datastore,
       [''--regularization'', ''--data-folder''], [''--data-folder'']),
      (''Exercise 4, Task 3: diabetes_training.py'', diabetes_training_compute,
       [''--regularization''], []),
      (''Exercise 5, Task 2: diabetes_training.py'', diabetes_training_hyperdrive,
       [''--regularization''], []),
      (''Exercise 7, Task 2: train_diabetes.py'', train_diabetes,
       [''--dataset_name'', ''--regularization'', ''--output_folder''], [])]"

text \<open>A run of a script calls \<open>run.complete()\<close> at most once, and then as its last call of
  all: the trace has no \<open>Run_complete\<close> but, possibly, at its end.\<close>

definition completes_last :: "'a io \<Rightarrow> bool" where
  "completes_last m \<longleftrightarrow>
     (\<exists>tr. Run_complete \<notin> set tr \<and> (fst m = tr \<or> fst m = tr @ [Run_complete]))"

text \<open>A run of a script that ends without an exception has called \<open>run.complete()\<close>.\<close>

definition completes_when_successful :: "unit io \<Rightarrow> bool" where
  "completes_when_successful m \<longleftrightarrow> (snd m = Inr () \<longrightarrow> Run_complete \<in> set (fst m))"

section \<open>The hyperparameter sweep\<close>

text \<open>
  Exercise 5, Task 2:
  \<^verbatim>\<open>
  # Sample a range of parameter values
  params = GridParameterSampling(
      {
          # There's only one parameter, so grid sampling will try each value - with
          # multiple parameters it would try every combination
          '--regularization': choice(0.001, 0.005, 0.01, 0.05, 0.1, 1.0)
      }
  )

  # Set evaluation policy to stop poorly performing training runs early
  policy = BanditPolicy(evaluation_interval=2, slack_factor=0.1)

  # Create an estimator that uses the remote compute
  hyper_estimator = SKLearn(source_directory=experiment_folder,
                            compute_target = cpu_cluster,
                            conda_packages=['pandas','ipykernel','matplotlib'],
                            pip_packages=['azureml-sdk','argparse','pyarrow'],
                            entry_script='diabetes_training.py')

  # Configure hyperdrive settings
  hyperdrive = HyperDriveConfig(estimator=hyper_estimator,
                            hyperparameter_sampling=params,
                            policy=policy,
                            primary_metric_name='AUC',
                            primary_metric_goal=PrimaryMetricGoal.MAXIMIZE,
                            max_total_runs=6,
                            max_concurrent_runs=4)

  # Run the experiment
  run = experiment.submit(config=hyperdrive)

  # Show the status in the notebook as the experiment runs
  RunDetails(run).show()
  \<close>
  \<open>experiment_folder\<close> and \<open>cpu_cluster\<close> are variables of earlier cells.
\<close>

definition params :: sampling where
  "params =
     GridParameterSampling
       [(''--regularization'', choice [1 / 1000, 5 / 1000, 1 / 100, 5 / 100, 1 / 10, 1])]"

definition bandit_policy :: termination_policy where
  "bandit_policy =
     BanditPolicy [(''evaluation_interval'', PInt 2), (''slack_factor'', PFloat (1 / 10))]"

definition hyper_estimator :: "string \<Rightarrow> compute_target \<Rightarrow> sklearn" where
  "hyper_estimator experiment_folder cpu_cluster =
     \<lparr>source_directory = experiment_folder,
      compute_target = cpu_cluster,
      conda_packages = [''pandas'', ''ipykernel'', ''matplotlib''],
      pip_packages = [''azureml-sdk'', ''argparse'', ''pyarrow''],
      entry_script = ''diabetes_training.py''\<rparr>"

definition hyperdrive :: "string \<Rightarrow> compute_target \<Rightarrow> hyperdrive_config" where
  "hyperdrive experiment_folder cpu_cluster =
     \<lparr>estimator = hyper_estimator experiment_folder cpu_cluster,
      hyperparameter_sampling = params,
      policy = bandit_policy,
      primary_metric_name = ''AUC'',
      primary_metric_goal = MAXIMIZE,
      max_total_runs = 6,
      max_concurrent_runs = 4\<rparr>"

text \<open>The calls of the cell, in the order in which Python makes them; each may fail.\<close>

definition hyperdrive_calls :: "string \<Rightarrow> compute_target \<Rightarrow> event list" where
  "hyperdrive_calls experiment_folder cpu_cluster =
     [Lib ''choice'', Lib ''GridParameterSampling'', Lib ''BanditPolicy'', Lib ''SKLearn'',
      Lib ''HyperDriveConfig'',
      Experiment_submit_hyperdrive (hyperdrive experiment_folder cpu_cluster),
      Lib ''RunDetails'', RunDetails_show]"

definition hyperdrive_cell :: "library \<Rightarrow> string \<Rightarrow> compute_target \<Rightarrow> unit io" where
  "hyperdrive_cell lib experiment_folder cpu_cluster =
     steps (map (method_call lib) (hyperdrive_calls experiment_folder cpu_cluster))"

text \<open>The points of a grid, after the comment in the cell: each value of a single
  parameter, every combination of the values of several.\<close>

fun sampling_space :: "sampling \<Rightarrow> (string \<times> parameter_expression) list" where
  "sampling_space (GridParameterSampling space) = space"

fun grid_points :: "(string \<times> parameter_expression) list \<Rightarrow> (string \<times> rat) list list" where
  "grid_points [] = [[]]"
| "grid_points ((name, choice vs) # space) =
     concat (map (\<lambda>v. map (\<lambda>point. (name, v) # point) (grid_points space)) vs)"

fun policy_arguments :: "termination_policy \<Rightarrow> (string \<times> pyval) list" where
  "policy_arguments (BanditPolicy kwargs) = kwargs"

section \<open>The training pipeline\<close>

text \<open>
  Exercise 7, Task 3:
  \<^verbatim>\<open>
  # Create a PipelineData (Data Reference) for the model folder
  model_folder = PipelineData("model_folder", datastore=ws.get_default_datastore())

  # Step 1, run the training script
  train_step = PythonScriptStep(name = "Train Model",
                                  source_directory = experiment_folder,
                                  script_name = "train_diabetes.py",
                                  arguments = ['--dataset_name', 'Diabetes Dataset',
                                               '--regularization', 0.1,
                                               '--output_folder', model_folder],
                                  outputs=[model_folder],
                                  compute_target = cpu_cluster,
                                  runconfig = pipeline_run_config,
                                  allow_reuse = False)

  # Step 2, run the model registration script
  register_step = PythonScriptStep(name = "Register Model",
                                  source_directory = experiment_folder,
                                  script_name = "register_diabetes.py",
                                  arguments = ['--model_folder', model_folder],
                                  inputs=[model_folder],
                                  compute_target = cpu_cluster,
                                  runconfig = pipeline_run_config,
                                  allow_reuse = False)
  \<close>
  \<^verbatim>\<open>
  pipeline_steps = [train_step, register_step]
  pipeline = Pipeline(workspace = ws, steps=pipeline_steps)
  experiment = Experiment(workspace = ws, name = experiment_name)
  pipeline_run = experiment.submit(pipeline, regenerate_outputs=True)
  \<close>
  A \<open>PipelineData\<close> is an object that Python compares by identity: the model keeps the
  identity as a number, beside the name the constructor is given. An argument of a step
  is a string, a float (both kept as the command-line token they become) or such an
  object. The run configuration, which is the same for both steps and which only the
  service reads, is left out of the steps.
\<close>

datatype pipeline_data = PipelineData nat string

datatype argument = Arg token | Arg_data pipeline_data

definition str_arg :: "string \<Rightarrow> argument" where
  "str_arg s = Arg \<lparr>tok_text = s, tok_float = None\<rparr>"

record python_script_step =
  step_name :: string
  step_source_directory :: string
  script_name :: string
  arguments :: "argument list"
  inputs :: "pipeline_data list"
  outputs :: "pipeline_data list"
  step_compute_target :: compute_target
  allow_reuse :: bool

definition train_step :: "string \<Rightarrow> compute_target \<Rightarrow> pipeline_data \<Rightarrow> python_script_step" where
  "train_step experiment_folder cpu_cluster model_folder =
     \<lparr>step_name = ''Train Model'',
      step_source_directory = experiment_folder,
      script_name = ''train_diabetes.py'',
      arguments =
        [str_arg ''--dataset_name'', str_arg ''Diabetes Dataset'',
         str_arg ''--regularization'', Arg \<lparr>tok_text = ''0.1'', tok_float = Some (1 / 10)\<rparr>,
         str_arg ''--output_folder'', Arg_data model_folder],
      inputs = [],
      outputs = [model_folder],
      step_compute_target = cpu_cluster,
      allow_reuse = False\<rparr>"

definition register_step :: "string \<Rightarrow> compute_target \<Rightarrow> pipeline_data \<Rightarrow> python_script_step" where
  "register_step experiment_folder cpu_cluster model_folder =
     \<lparr>step_name = ''Register Model'',
      step_source_directory = experiment_folder,
      script_name = ''register_diabetes.py'',
      arguments = [str_arg ''--model_folder'', Arg_data model_folder],
      inputs = [model_folder],
      outputs = [],
      step_compute_target = cpu_cluster,
      allow_reuse = False\<rparr>"

definition pipeline_steps :: "string \<Rightarrow> compute_target \<Rightarrow> pipeline_data \<Rightarrow> python_script_step list" where
  "pipeline_steps experiment_folder cpu_cluster model_folder =
     [train_step experiment_folder cpu_cluster model_folder,
      register_step experiment_folder cpu_cluster model_folder]"

text \<open>The scripts that the notebook has written into the experiment folder.\<close>

definition experiment_folder_scripts :: "string \<Rightarrow> (library \<Rightarrow> argv \<Rightarrow> unit io) option" where
  "experiment_folder_scripts =
     [''train_diabetes.py'' \<mapsto> train_diabetes, ''register_diabetes.py'' \<mapsto> register_diabetes]"

text \<open>
  Modelled from the spec: ``Pipeline / PipelineRun: a DAG of steps with data references
  passed between them, materialized and scheduled entirely by the external service.''
  A step depends on the steps that have one of its inputs among their outputs. The
  service gives every data reference a path, the same wherever the same object stands,
  and puts it in place of the object on the command line of the step's script. It starts
  a step once all the steps that the step depends on have completed; a step completes
  when its script ends without an exception, and an exception of the script ends the run.
  Every step runs in a process of its own, so each has its own library behaviour.
\<close>

definition depends_on :: "python_script_step \<Rightarrow> python_script_step \<Rightarrow> bool" where
  "depends_on b a \<longleftrightarrow> list_ex (\<lambda>d. d \<in> set (outputs a)) (inputs b)"

definition ready :: "python_script_step list \<Rightarrow> string list \<Rightarrow> python_script_step \<Rightarrow> bool" where
  "ready all_steps completed s \<longleftrightarrow>
     list_all (\<lambda>a. step_name a \<in> set completed) (filter (depends_on s) all_steps)"

fun materialize :: "(pipeline_data \<Rightarrow> token) \<Rightarrow> argument \<Rightarrow> token" where
  "materialize mount (Arg t) = t"
| "materialize mount (Arg_data d) = mount d"

text \<open>The options that \<open>argparse\<close> reads off the command line; an option without a value
  makes it exit.\<close>

fun options :: "token list \<Rightarrow> argv option" where
  "options [] = Some []"
| "options [opt] = None"
| "options (opt # v # rest) = map_option (\<lambda>args. (tok_text opt, v) # args) (options rest)"

definition run_script ::
  "(string \<Rightarrow> (library \<Rightarrow> argv \<Rightarrow> unit io) option) \<Rightarrow> library \<Rightarrow> string \<Rightarrow> token list \<Rightarrow> unit io" where
  "run_script scripts lib file command_line =
     (case scripts file of
        None \<Rightarrow> raise (Exn (OtherException ''FileNotFoundError'') None)
      | Some script \<Rightarrow>
          (case options command_line of
             None \<Rightarrow> raise (Exn SystemExit None)
           | Some args \<Rightarrow> script lib args))"

definition run_step ::
  "(string \<Rightarrow> (library \<Rightarrow> argv \<Rightarrow> unit io) option) \<Rightarrow> (string \<Rightarrow> library) \<Rightarrow>
   (pipeline_data \<Rightarrow> token) \<Rightarrow> python_script_step \<Rightarrow> unit io" where
  "run_step scripts libs mount s =
     bind_io (call (Step_started (step_name s)) (Inr ())) (\<lambda>_.
     bind_io (run_script scripts (libs (step_name s)) (script_name s)
                (map (materialize mount) (arguments s))) (\<lambda>_.
     call (Step_completed (step_name s)) (Inr ())))"

function run_steps ::
  "(string \<Rightarrow> (library \<Rightarrow> argv \<Rightarrow> unit io) option) \<Rightarrow> (string \<Rightarrow> library) \<Rightarrow>
   (pipeline_data \<Rightarrow> token) \<Rightarrow> python_script_step list \<Rightarrow> python_script_step list \<Rightarrow>
   string list \<Rightarrow> unit io" where
  "run_steps scripts libs mount all_steps pending completed =
     (case find (ready all_steps completed) pending of
        None \<Rightarrow> ret ()
      | Some s \<Rightarrow>
          bind_io (run_step scripts libs mount s) (\<lambda>_.
          run_steps scripts libs mount all_steps (remove1 s pending)
            (step_name s # completed)))"
  by pat_completeness auto

termination run_steps
proof (relation "measure (\<lambda>(scripts, libs, mount, all_steps, pending, completed). length pending)")
  show "wf (measure (\<lambda>(scripts :: string \<Rightarrow> (library \<Rightarrow> argv \<Rightarrow> unit io) option,
      libs :: string \<Rightarrow> library, mount :: pipeline_data \<Rightarrow> token,
      all_steps :: python_script_step list, pending :: python_script_step list,
      completed :: string list). length pending))"
    by simp
next
  fix scripts :: "string \<Rightarrow> (library \<Rightarrow> argv \<Rightarrow> unit io) option"
    and libs :: "string \<Rightarrow> library" and mount :: "pipeline_data \<Rightarrow> token"
    and all_steps pending :: "python_script_step list" and completed :: "string list"
    and s :: python_script_step and u :: unit
  assume "find (ready all_steps completed) pending = Some s"
  then have "s \<in> set pending"
    by (auto simp: find_Some_iff)
  then have "length (remove1 s pending) < length pending"
    using length_pos_if_in_set [of s pending] by (simp add: length_remove1)
  then show "((scripts, libs, mount, all_steps, remove1 s pending, step_name s # completed),
      (scripts, libs, mount, all_steps, pending, completed))
    \<in> measure (\<lambda>(scripts, libs, mount, all_steps, pending, completed). length pending)"
    by simp
qed

definition run_pipeline ::
  "(string \<Rightarrow> (library \<Rightarrow> argv \<Rightarrow> unit io) option) \<Rightarrow> (string \<Rightarrow> library) \<Rightarrow>
   (pipeline_data \<Rightarrow> token) \<Rightarrow> python_script_step list \<Rightarrow> unit io" where
  "run_pipeline scripts libs mount all_steps = run_steps scripts libs mount all_steps all_steps []"

text \<open>The run of the pipeline that the notebook submits.\<close>

definition diabetes_pipeline_run ::
  "(string \<Rightarrow> library) \<Rightarrow> (pipeline_data \<Rightarrow> token) \<Rightarrow> string \<Rightarrow> compute_target \<Rightarrow>
   pipeline_data \<Rightarrow> unit io" where
  "diabetes_pipeline_run libs mount experiment_folder cpu_cluster model_folder =
     run_pipeline experiment_folder_scripts libs mount
       (pipeline_steps experiment_folder cpu_cluster model_folder)"

text \<open>The calls that \<open>train_diabetes.py\<close> makes before it saves the model.\<close>

fun is_training_call :: "event \<Rightarrow> bool" where
  "is_training_call (Lib _) = True"
| "is_training_call (Print _) = True"
| "is_training_call (Print_values _) = True"
| "is_training_call Run_get_context = True"
| "is_training_call (Run_log _ _) = True"
| "is_training_call (LogisticRegression_fit _ _) = True"
| "is_training_call _ = False"

subsection \<open>The pipeline, whatever names the training script finds bound\<close>

text \<open>
  \<open>train_diabetes.py\<close> run in a namespace that binds \<open>names\<close>. The names that the script's
  own \<open>import\<close> statements bind are \<open>train_diabetes_imports\<close>; with them this is
  \<open>train_diabetes\<close>.
\<close>

definition train_diabetes_with :: "string list \<Rightarrow> library \<Rightarrow> argv \<Rightarrow> unit io" where
  "train_diabetes_with names lib args =
     bind_io
       (parse_regularization names lib
          [''--dataset_name'', ''--regularization'', ''--output_folder''] args)
       (\<lambda>reg.
          case str_option args ''--dataset_name'' (Some ''Diabetes Dataset'') of
            None \<Rightarrow> raise (Exn TypeError None)
          | Some dataset_name \<Rightarrow>
              (case str_option args ''--output_folder'' (Some ''diabetes_model'') of
                 None \<Rightarrow> raise (Exn TypeError None)
               | Some output_folder \<Rightarrow>
                   steps (load_and_train names lib reg dataset_name
                     @ save_and_complete names lib output_folder
                         (model_file_in output_folder))))"

definition pipeline_scripts :: "string list \<Rightarrow> string \<Rightarrow> (library \<Rightarrow> argv \<Rightarrow> unit io) option" where
  "pipeline_scripts names =
     [''train_diabetes.py'' \<mapsto> train_diabetes_with names,
      ''register_diabetes.py'' \<mapsto> register_diabetes]"

definition diabetes_pipeline_run_with ::
  "string list \<Rightarrow> (string \<Rightarrow> library) \<Rightarrow> (pipeline_data \<Rightarrow> token) \<Rightarrow> string \<Rightarrow>
   compute_target \<Rightarrow> pipeline_data \<Rightarrow> unit io" where
  "diabetes_pipeline_run_with names libs mount experiment_folder cpu_cluster model_folder =
     run_pipeline (pipeline_scripts names) libs mount
       (pipeline_steps experiment_folder cpu_cluster model_folder)"

section \<open>Example services\<close>

text \<open>Two example services: one that knows no compute target of that name, one that has it.\<close>

definition example_ws :: workspace where
  "example_ws = \<lparr>ws_name = ''aml-workspace'', ws_subscription_id = ''0000'',
     ws_resource_group = ''aml-resource-group''\<rparr>"

definition sdk_cluster_missing :: cluster_sdk where
  "sdk_cluster_missing =
     \<lparr>sdk_ComputeTarget =
        (\<lambda>_ _. Inl (Exn ComputeTargetException (Some ''ComputeTargetNotFound''))),
      sdk_ComputeTarget_create = (\<lambda>_ _ _. Inr (ComputeTargetObj 1)),
      sdk_wait_for_completion = (\<lambda>_. Inr ())\<rparr>"

definition sdk_cluster_present :: cluster_sdk where
  "sdk_cluster_present =
     \<lparr>sdk_ComputeTarget = (\<lambda>_ _. Inr (ComputeTargetObj 0)),
      sdk_ComputeTarget_create = (\<lambda>_ _ _. Inr (ComputeTargetObj 1)),
      sdk_wait_for_completion = (\<lambda>_. Inr ())\<rparr>"

text \<open>Example services for the workspace cell: one that knows no such workspace (an SDK
  exception with a message), one whose lookup is interrupted from the keyboard, and one that
  cannot be reached (a built-in exception, which has no \<open>message\<close> attribute); and a
  service that rejects the caller when the compute target is looked up.\<close>

definition sdk_workspace_missing :: workspace_sdk where
  "sdk_workspace_missing =
     \<lparr>sdk_Workspace =
        (\<lambda>_ _ _. Inl (Exn (OtherException ''WorkspaceException'') (Some ''Workspace not found''))),
      sdk_Workspace_create = (\<lambda>_ _ _ _ _. Inr example_ws),
      sdk_write_config = (\<lambda>_. Inr ())\<rparr>"

definition sdk_workspace_interrupted :: workspace_sdk where
  "sdk_workspace_interrupted =
     \<lparr>sdk_Workspace = (\<lambda>_ _ _. Inl (Exn KeyboardInterrupt None)),
      sdk_Workspace_create = (\<lambda>_ _ _ _ _. Inr example_ws),
      sdk_write_config = (\<lambda>_. Inr ())\<rparr>"

definition sdk_workspace_unreachable :: workspace_sdk where
  "sdk_workspace_unreachable =
     \<lparr>sdk_Workspace = (\<lambda>_ _ _. Inl (Exn (OtherException ''ConnectionError'') None)),
      sdk_Workspace_create = (\<lambda>_ _ _ _ _. Inr example_ws),
      sdk_write_config = (\<lambda>_. Inr ())\<rparr>"

definition sdk_cluster_unauthorized :: cluster_sdk where
  "sdk_cluster_unauthorized =
     \<lparr>sdk_ComputeTarget =
        (\<lambda>_ _. Inl (Exn (OtherException ''AuthenticationException'') (Some ''token expired''))),
      sdk_ComputeTarget_create = (\<lambda>_ _ _. Inr (ComputeTargetObj 1)),
      sdk_wait_for_completion = (\<lambda>_. Inr ())\<rparr>"

text \<open>A service that signs the caller in and answers the POST with a run identifier.\<close>

definition example_rest_env :: rest_env where
  "example_rest_env =
     \<lparr>env_InteractiveLoginAuthentication = Inr (AuthSession 0),
      env_get_authentication_header = (\<lambda>_. Inr [(''Authorization'', ''Bearer abc'')]),
      env_requests_post = (\<lambda>_. Inr (Response 0)),
      env_response_json =
        (\<lambda>_. Inr (JObject [(''Id'', JString ''run-1''), (''Status'', JString ''Running'')]))\<rparr>"

text \<open>A batch of two patient files and a model that predicts 0 for the first, 1 for the
  second.\<close>

definition example_batch_env :: "nat batch_env" where
  "example_batch_env =
     \<lparr>env_lib = (\<lambda>_. None),
      env_get_model_path = (\<lambda>_. Inr ''azureml-models/diabetes_model/1/model.pkl''),
      env_glob = (\<lambda>_. Inr [''batch_data/1.csv'', ''batch_data/2.csv'']),
      env_genfromtxt =
        (\<lambda>f. if f = ''batch_data/1.csv'' then Inr [0, 171, 80, 34, 23, 43, 1, 21]
             else Inr [8, 92, 93, 47, 36, 21, 0, 46]),
      env_predict = (\<lambda>rows. Inr (map (\<lambda>row. if hd row = 0 then 0 else 1) rows)),
      env_str = (\<lambda>p. if p = 0 then ''0'' else ''1'')\<rparr>"

text \<open>A data set of 150 patients (patient k has the value k in every feature column and
  the label k mod 2) and a sampler that draws the first n rows.\<close>

definition example_diabetes :: dataframe where
  "example_diabetes =
     \<lparr>df_columns = ''PatientID'' # feature_columns @ [''Diabetic''],
      df_rows = map (\<lambda>k. of_nat (1000 + k) # replicate 8 (of_nat k) @ [of_nat (k mod 2)])
                  [0..<150]\<rparr>"

definition example_batch_data_env :: batch_data_env where
  "example_batch_data_env =
     \<lparr>gen_lib = (\<lambda>_. None),
      gen_read_csv = (\<lambda>_. Inr example_diabetes),
      gen_sample = (\<lambda>df n. Inr (take n (df_rows df)))\<rparr>"

text \<open>Command lines: \<open>--regularization 0.1\<close> and \<open>--regularization 0.0\<close>.\<close>

definition regularization_tenth :: argv where
  "regularization_tenth = [(''--regularization'', \<lparr>tok_text = ''0.1'', tok_float = Some (1 / 10)\<rparr>)]"

definition regularization_zero :: argv where
  "regularization_zero = [(''--regularization'', \<lparr>tok_text = ''0.0'', tok_float = Some 0\<rparr>)]"

text \<open>A service that mounts every data reference under \<open>/mnt\<close>, by its name.\<close>

fun example_mount :: "pipeline_data \<Rightarrow> token" where
  "example_mount (PipelineData ref name) = \<lparr>tok_text = ''/mnt/'' @ name, tok_float = None\<rparr>"

section \<open>Properties of the cpu-cluster cell\<close>

lemmas io_defs = bind_io_def try_except_def call_def ret_def raise_def print_def Let_def

lemma create_compute_cell_found:
  assumes "sdk_ComputeTarget sdk ws ''cpu-cluster'' = Inr c"
  shows "create_compute_cell sdk ws =
    ([ComputeTarget_init ws ''cpu-cluster'', Print ''Found existing cluster, use it.'',
      Wait_for_completion c True],
     (case sdk_wait_for_completion sdk c of Inl e \<Rightarrow> Inl e | Inr _ \<Rightarrow> Inr c))"
  using assms
  by (simp add: create_compute_cell_def cpu_cluster_name_def io_defs split: sum.splits)

lemma create_compute_cell_not_found:
  assumes "sdk_ComputeTarget sdk ws ''cpu-cluster'' = Inl e"
    and "exn_cls e = ComputeTargetException"
  shows "create_compute_cell sdk ws =
    (case sdk_ComputeTarget_create sdk ws ''cpu-cluster'' the_cluster_config of
       Inl e' \<Rightarrow>
         ([ComputeTarget_init ws ''cpu-cluster'',
           AmlCompute_provisioning_configuration the_cluster_config,
           ComputeTarget_create ws ''cpu-cluster'' the_cluster_config], Inl e')
     | Inr c \<Rightarrow>
         ([ComputeTarget_init ws ''cpu-cluster'',
           AmlCompute_provisioning_configuration the_cluster_config,
           ComputeTarget_create ws ''cpu-cluster'' the_cluster_config,
           Wait_for_completion c True],
          (case sdk_wait_for_completion sdk c of Inl e' \<Rightarrow> Inl e' | Inr _ \<Rightarrow> Inr c)))"
  using assms
  by (simp add: create_compute_cell_def cpu_cluster_name_def io_defs
      provisioning_configuration_def the_cluster_config_def split: sum.splits)

lemma create_compute_cell_other_failure:
  assumes "sdk_ComputeTarget sdk ws ''cpu-cluster'' = Inl e"
    and "exn_cls e \<noteq> ComputeTargetException"
  shows "create_compute_cell sdk ws = ([ComputeTarget_init ws ''cpu-cluster''], Inl e)"
  using assms
  by (simp add: create_compute_cell_def cpu_cluster_name_def io_defs)

text \<open>
  C3. In every notebook that obtains the compute target named "cpu-cluster": when the
  lookup raises ComputeTargetException, the cell builds the provisioning configuration
  with vm_size STANDARD_D2_V2, vm_priority lowpriority and max_nodes 4 and calls
  ComputeTarget.create with it (these are its only provisioning calls, and the cluster it
  then waits for and keeps is the created one); when the lookup succeeds, the cell makes no
  provisioning call, and the cluster it waits for and keeps is the one found.
\<close>

theorem cpu_cluster_reuse_or_create:
  assumes "(nb, cell) \<in> set cpu_cluster_cells"
  shows "(\<forall>e. sdk_ComputeTarget sdk ws ''cpu-cluster'' = Inl e \<and>
              exn_cls e = ComputeTargetException \<longrightarrow>
            take 3 (fst (cell sdk ws)) =
              [ComputeTarget_init ws ''cpu-cluster'',
               AmlCompute_provisioning_configuration
                 \<lparr>vm_size = ''STANDARD_D2_V2'', vm_priority = ''lowpriority'', max_nodes = 4\<rparr>,
               ComputeTarget_create ws ''cpu-cluster''
                 \<lparr>vm_size = ''STANDARD_D2_V2'', vm_priority = ''lowpriority'', max_nodes = 4\<rparr>] \<and>
            filter is_provisioning (fst (cell sdk ws)) =
              [AmlCompute_provisioning_configuration
                 \<lparr>vm_size = ''STANDARD_D2_V2'', vm_priority = ''lowpriority'', max_nodes = 4\<rparr>,
               ComputeTarget_create ws ''cpu-cluster''
                 \<lparr>vm_size = ''STANDARD_D2_V2'', vm_priority = ''lowpriority'', max_nodes = 4\<rparr>] \<and>
            (\<forall>c. sdk_ComputeTarget_create sdk ws ''cpu-cluster''
                   \<lparr>vm_size = ''STANDARD_D2_V2'', vm_priority = ''lowpriority'', max_nodes = 4\<rparr> = Inr c \<longrightarrow>
                 drop 3 (fst (cell sdk ws)) = [Wait_for_completion c True] \<and>
                 snd (cell sdk ws) =
                   (case sdk_wait_for_completion sdk c of Inl e' \<Rightarrow> Inl e' | Inr _ \<Rightarrow> Inr c))) \<and>
         (\<forall>c. sdk_ComputeTarget sdk ws ''cpu-cluster'' = Inr c \<longrightarrow>
            filter is_provisioning (fst (cell sdk ws)) = [] \<and>
            fst (cell sdk ws) =
              [ComputeTarget_init ws ''cpu-cluster'', Print ''Found existing cluster, use it.'',
               Wait_for_completion c True] \<and>
            snd (cell sdk ws) =
              (case sdk_wait_for_completion sdk c of Inl e' \<Rightarrow> Inl e' | Inr _ \<Rightarrow> Inr c))"
proof -
  from assms have cell: "cell = create_compute_cell"
    by (auto simp: cpu_cluster_cells_def)
  have found: "filter is_provisioning (fst (cell sdk ws)) = [] \<and>
      fst (cell sdk ws) =
        [ComputeTarget_init ws ''cpu-cluster'', Print ''Found existing cluster, use it.'',
         Wait_for_completion c True] \<and>
      snd (cell sdk ws) =
        (case sdk_wait_for_completion sdk c of Inl e' \<Rightarrow> Inl e' | Inr _ \<Rightarrow> Inr c)"
    if "sdk_ComputeTarget sdk ws ''cpu-cluster'' = Inr c" for c
    unfolding cell create_compute_cell_found [OF that] by simp
  have missing: "take 3 (fst (cell sdk ws)) =
        [ComputeTarget_init ws ''cpu-cluster'',
         AmlCompute_provisioning_configuration the_cluster_config,
         ComputeTarget_create ws ''cpu-cluster'' the_cluster_config] \<and>
      filter is_provisioning (fst (cell sdk ws)) =
        [AmlCompute_provisioning_configuration the_cluster_config,
         ComputeTarget_create ws ''cpu-cluster'' the_cluster_config] \<and>
      (\<forall>c. sdk_ComputeTarget_create sdk ws ''cpu-cluster'' the_cluster_config = Inr c \<longrightarrow>
           drop 3 (fst (cell sdk ws)) = [Wait_for_completion c True] \<and>
           snd (cell sdk ws) =
             (case sdk_wait_for_completion sdk c of Inl e' \<Rightarrow> Inl e' | Inr _ \<Rightarrow> Inr c))"
    if "sdk_ComputeTarget sdk ws ''cpu-cluster'' = Inl e"
      and "exn_cls e = ComputeTargetException" for e
    unfolding cell create_compute_cell_not_found [OF that]
    by (cases "sdk_ComputeTarget_create sdk ws ''cpu-cluster'' the_cluster_config") simp_all
  show ?thesis
    using found missing unfolding the_cluster_config_def by blast
qed

theorem cpu_cluster_reuse_or_create_witness:
  "(''Exercise 5 - Optimizing Model Training'', create_compute_cell)
      \<in> set cpu_cluster_cells \<and>
   sdk_ComputeTarget sdk_cluster_missing example_ws ''cpu-cluster'' =
     Inl (Exn ComputeTargetException (Some ''ComputeTargetNotFound'')) \<and>
   create_compute_cell sdk_cluster_missing example_ws =
     ([ComputeTarget_init example_ws ''cpu-cluster'',
       AmlCompute_provisioning_configuration
         \<lparr>vm_size = ''STANDARD_D2_V2'', vm_priority = ''lowpriority'', max_nodes = 4\<rparr>,
       ComputeTarget_create example_ws ''cpu-cluster''
         \<lparr>vm_size = ''STANDARD_D2_V2'', vm_priority = ''lowpriority'', max_nodes = 4\<rparr>,
       Wait_for_completion (ComputeTargetObj 1) True],
      Inr (ComputeTargetObj 1)) \<and>
   sdk_ComputeTarget sdk_cluster_present example_ws ''cpu-cluster'' = Inr (ComputeTargetObj 0) \<and>
   create_compute_cell sdk_cluster_present example_ws =
     ([ComputeTarget_init example_ws ''cpu-cluster'', Print ''Found existing cluster, use it.'',
       Wait_for_completion (ComputeTargetObj 0) True],
      Inr (ComputeTargetObj 0))"
proof -
  have m: "(''Exercise 5 - Optimizing Model Training'', create_compute_cell)
      \<in> set cpu_cluster_cells"
    by (simp add: cpu_cluster_cells_def)
  have l1: "sdk_ComputeTarget sdk_cluster_missing example_ws ''cpu-cluster'' =
      Inl (Exn ComputeTargetException (Some ''ComputeTargetNotFound''))"
    by (simp add: sdk_cluster_missing_def)
  have c1: "sdk_ComputeTarget_create sdk_cluster_missing example_ws ''cpu-cluster''
      \<lparr>vm_size = ''STANDARD_D2_V2'', vm_priority = ''lowpriority'', max_nodes = 4\<rparr>
      = Inr (ComputeTargetObj 1)"
    by (simp add: sdk_cluster_missing_def)
  have w1: "sdk_wait_for_completion sdk_cluster_missing (ComputeTargetObj 1) = Inr ()"
    by (simp add: sdk_cluster_missing_def)
  have l2: "sdk_ComputeTarget sdk_cluster_present example_ws ''cpu-cluster'' =
      Inr (ComputeTargetObj 0)"
    by (simp add: sdk_cluster_present_def)
  have w2: "sdk_wait_for_completion sdk_cluster_present (ComputeTargetObj 0) = Inr ()"
    by (simp add: sdk_cluster_present_def)
  note t1 = cpu_cluster_reuse_or_create [OF m, of sdk_cluster_missing example_ws]
  note t2 = cpu_cluster_reuse_or_create [OF m, of sdk_cluster_present example_ws]
  from t1 l1 c1 w1 have a: "take 3 (fst (create_compute_cell sdk_cluster_missing example_ws)) =
      [ComputeTarget_init example_ws ''cpu-cluster'',
       AmlCompute_provisioning_configuration
         \<lparr>vm_size = ''STANDARD_D2_V2'', vm_priority = ''lowpriority'', max_nodes = 4\<rparr>,
       ComputeTarget_create example_ws ''cpu-cluster''
         \<lparr>vm_size = ''STANDARD_D2_V2'', vm_priority = ''lowpriority'', max_nodes = 4\<rparr>]"
    and b: "drop 3 (fst (create_compute_cell sdk_cluster_missing example_ws)) =
      [Wait_for_completion (ComputeTargetObj 1) True]"
    and c: "snd (create_compute_cell sdk_cluster_missing example_ws) = Inr (ComputeTargetObj 1)"
    by simp_all
  from a b have d: "fst (create_compute_cell sdk_cluster_missing example_ws) =
      [ComputeTarget_init example_ws ''cpu-cluster'',
       AmlCompute_provisioning_configuration
         \<lparr>vm_size = ''STANDARD_D2_V2'', vm_priority = ''lowpriority'', max_nodes = 4\<rparr>,
       ComputeTarget_create example_ws ''cpu-cluster''
         \<lparr>vm_size = ''STANDARD_D2_V2'', vm_priority = ''lowpriority'', max_nodes = 4\<rparr>,
       Wait_for_completion (ComputeTargetObj 1) True]"
    by (metis append_Cons append_Nil append_take_drop_id)
  from t2 l2 w2 have e: "fst (create_compute_cell sdk_cluster_present example_ws) =
      [ComputeTarget_init example_ws ''cpu-cluster'', Print ''Found existing cluster, use it.'',
       Wait_for_completion (ComputeTargetObj 0) True]"
    and f: "snd (create_compute_cell sdk_cluster_present example_ws) = Inr (ComputeTargetObj 0)"
    by simp_all
  show ?thesis
    using m l1 l2 c d e f by (simp add: prod_eq_iff)
qed

section \<open>Properties of the workspace cell\<close>

lemmas stmt_defs = seq_def try_except_finally_def skip_def stmt_print_def
lemmas ws_defs = connect_workspace_cell_def find_workspace_def create_workspace_def
  print_ws_name_def print_ex_message_def write_config_def
lemmas result_defs = trace_of_def vars_of_def raised_def

text \<open>The cell's result in each of its four cases: the workspace is found; the lookup raises
  an exception the clause does not catch; it raises one that has no message; it raises one
  with a message, and the workspace is created.\<close>

lemma connect_workspace_cell_found:
  assumes "sdk_Workspace sdk WORKSPACE_NAME SUBSCRIPTION_ID RESOURCE_GROUP_NAME = Inr w"
  shows "connect_workspace_cell sdk =
    (case sdk_write_config sdk w of
       Inr _ \<Rightarrow>
         ([Workspace_init WORKSPACE_NAME SUBSCRIPTION_ID RESOURCE_GROUP_NAME,
           Print (ws_name w @ '' found.''), Write_config w,
           Print (ws_name w @ '' saved.'')], Some w, None)
     | Inl e3 \<Rightarrow>
         ([Workspace_init WORKSPACE_NAME SUBSCRIPTION_ID RESOURCE_GROUP_NAME,
           Print (ws_name w @ '' found.''), Write_config w], Some w, Some e3))"
  using assms by (simp add: ws_defs stmt_defs split: sum.splits)

lemma connect_workspace_cell_not_caught:
  assumes "sdk_Workspace sdk WORKSPACE_NAME SUBSCRIPTION_ID RESOURCE_GROUP_NAME = Inl ex"
    and "\<not> catches Except_Exception ex"
  shows "connect_workspace_cell sdk =
    ([Workspace_init WORKSPACE_NAME SUBSCRIPTION_ID RESOURCE_GROUP_NAME], None, Some ex)"
  using assms by (simp add: ws_defs stmt_defs)

lemma connect_workspace_cell_no_message:
  assumes "sdk_Workspace sdk WORKSPACE_NAME SUBSCRIPTION_ID RESOURCE_GROUP_NAME = Inl ex"
    and "catches Except_Exception ex" and "exn_message ex = None"
  shows "connect_workspace_cell sdk =
    ([Workspace_init WORKSPACE_NAME SUBSCRIPTION_ID RESOURCE_GROUP_NAME], None,
     Some (Exn AttributeError None))"
  using assms by (simp add: ws_defs stmt_defs)

lemma connect_workspace_cell_create:
  assumes "sdk_Workspace sdk WORKSPACE_NAME SUBSCRIPTION_ID RESOURCE_GROUP_NAME = Inl ex"
    and "catches Except_Exception ex" and "exn_message ex = Some m"
  shows "connect_workspace_cell sdk =
    (case sdk_Workspace_create sdk WORKSPACE_NAME SUBSCRIPTION_ID RESOURCE_GROUP_NAME True REGION of
       Inl e2 \<Rightarrow>
         ([Workspace_init WORKSPACE_NAME SUBSCRIPTION_ID RESOURCE_GROUP_NAME,
           Print m, Print ''Attempting to create new workspace...'',
           Workspace_create WORKSPACE_NAME SUBSCRIPTION_ID RESOURCE_GROUP_NAME True REGION],
          None, Some e2)
     | Inr w \<Rightarrow>
         (case sdk_write_config sdk w of
            Inr _ \<Rightarrow>
              ([Workspace_init WORKSPACE_NAME SUBSCRIPTION_ID RESOURCE_GROUP_NAME,
                Print m, Print ''Attempting to create new workspace...'',
                Workspace_create WORKSPACE_NAME SUBSCRIPTION_ID RESOURCE_GROUP_NAME True REGION,
                Print (ws_name w @ '' created.''), Write_config w,
                Print (ws_name w @ '' saved.'')], Some w, None)
          | Inl e3 \<Rightarrow>
              ([Workspace_init WORKSPACE_NAME SUBSCRIPTION_ID RESOURCE_GROUP_NAME,
                Print m, Print ''Attempting to create new workspace...'',
                Workspace_create WORKSPACE_NAME SUBSCRIPTION_ID RESOURCE_GROUP_NAME True REGION,
                Print (ws_name w @ '' created.''), Write_config w],
               Some w, Some e3)))"
  using assms by (simp add: ws_defs stmt_defs split: sum.splits)

lemma connect_workspace_cell_cases:
  obtains
    (found) w where "sdk_Workspace sdk WORKSPACE_NAME SUBSCRIPTION_ID RESOURCE_GROUP_NAME = Inr w"
  | (not_caught) ex where
      "sdk_Workspace sdk WORKSPACE_NAME SUBSCRIPTION_ID RESOURCE_GROUP_NAME = Inl ex"
      "\<not> catches Except_Exception ex"
  | (no_message) ex where
      "sdk_Workspace sdk WORKSPACE_NAME SUBSCRIPTION_ID RESOURCE_GROUP_NAME = Inl ex"
      "catches Except_Exception ex" "exn_message ex = None"
  | (create) ex m where
      "sdk_Workspace sdk WORKSPACE_NAME SUBSCRIPTION_ID RESOURCE_GROUP_NAME = Inl ex"
      "catches Except_Exception ex" "exn_message ex = Some m"
  by (cases "sdk_Workspace sdk WORKSPACE_NAME SUBSCRIPTION_ID RESOURCE_GROUP_NAME") auto

text \<open>write_config is called exactly when the cell ends with a workspace in ws.\<close>

lemma write_config_iff_workspace_obtained:
  "filter is_Write_config (trace_of (connect_workspace_cell sdk)) =
     (case vars_of (connect_workspace_cell sdk) of None \<Rightarrow> [] | Some w \<Rightarrow> [Write_config w])"
proof (cases rule: connect_workspace_cell_cases [of sdk])
  case (found w)
  show ?thesis unfolding connect_workspace_cell_found [OF found]
    by (simp add: result_defs split: sum.splits)
next
  case (not_caught ex)
  show ?thesis unfolding connect_workspace_cell_not_caught [OF not_caught]
    by (simp add: result_defs)
next
  case (no_message ex)
  show ?thesis unfolding connect_workspace_cell_no_message [OF no_message]
    by (simp add: result_defs)
next
  case (create ex m)
  show ?thesis unfolding connect_workspace_cell_create [OF create]
    by (simp add: result_defs split: sum.splits)
qed

lemma no_config_when_lookup_and_creation_fail:
  assumes "sdk_Workspace sdk WORKSPACE_NAME SUBSCRIPTION_ID RESOURCE_GROUP_NAME = Inl ex"
    and "sdk_Workspace_create sdk WORKSPACE_NAME SUBSCRIPTION_ID RESOURCE_GROUP_NAME True REGION = Inl e2"
  shows "filter is_Write_config (trace_of (connect_workspace_cell sdk)) = [] \<and>
    vars_of (connect_workspace_cell sdk) = None \<and> raised (connect_workspace_cell sdk) \<noteq> None"
proof (cases rule: connect_workspace_cell_cases [of sdk])
  case (found w)
  with assms show ?thesis by simp
next
  case (not_caught ex)
  show ?thesis unfolding connect_workspace_cell_not_caught [OF not_caught]
    by (simp add: result_defs)
next
  case (no_message ex)
  show ?thesis unfolding connect_workspace_cell_no_message [OF no_message]
    by (simp add: result_defs)
next
  case (create ex m)
  show ?thesis unfolding connect_workspace_cell_create [OF create]
    using assms by (simp add: result_defs)
qed

text \<open>
  C6. The claim: when the workspace lookup raises an exception a new workspace is created,
  and write_config is called exactly when a workspace was obtained. The second half holds
  (the two lemmas above). The first half fails on an exception that has no \<open>message\<close>
  attribute: the handler's first statement, \<open>print(ex.message)\<close>, raises AttributeError,
  Workspace.create is never called, nothing is written and the AttributeError reaches the
  user.
\<close>

theorem connect_workspace_message_less_exception:
  "connect_workspace_cell sdk_workspace_unreachable =
     ([Workspace_init ''aml-workspace'' ''<YOUR_AZURE_SUBSCRIPTION_ID>'' ''aml-resource-group''],
      None, Some (Exn AttributeError None)) \<and>
   filter is_Workspace_create (trace_of (connect_workspace_cell sdk_workspace_unreachable)) = []"
  by (simp add: ws_defs stmt_defs result_defs sdk_workspace_unreachable_def WORKSPACE_NAME_def
      SUBSCRIPTION_ID_def RESOURCE_GROUP_NAME_def)

text \<open>
  C1, as stated, fails: the workspace cell catches an exception that is not a
  ComputeTargetException (here the SDK's workspace-not-found exception) and recovers from
  it by creating the workspace; the cell ends with no exception.
\<close>

theorem only_ComputeTargetException_caught_counterexample:
  "sdk_Workspace sdk_workspace_missing WORKSPACE_NAME SUBSCRIPTION_ID RESOURCE_GROUP_NAME =
     Inl (Exn (OtherException ''WorkspaceException'') (Some ''Workspace not found'')) \<and>
   exn_cls (Exn (OtherException ''WorkspaceException'') (Some ''Workspace not found''))
     \<noteq> ComputeTargetException \<and>
   connect_workspace_cell sdk_workspace_missing =
     ([Workspace_init ''aml-workspace'' ''<YOUR_AZURE_SUBSCRIPTION_ID>'' ''aml-resource-group'',
       Print ''Workspace not found'', Print ''Attempting to create new workspace...'',
       Workspace_create ''aml-workspace'' ''<YOUR_AZURE_SUBSCRIPTION_ID>'' ''aml-resource-group''
         True ''eastus2'',
       Print ''aml-workspace created.'', Write_config example_ws,
       Print ''aml-workspace saved.''],
      Some example_ws, None)"
  by (simp add: ws_defs stmt_defs sdk_workspace_missing_def WORKSPACE_NAME_def
      SUBSCRIPTION_ID_def RESOURCE_GROUP_NAME_def REGION_def example_ws_def)

section \<open>Where exceptions are caught\<close>

lemma cells_with_except_clauses_eq:
  "cells_with_except_clauses =
     [(''Exercise 1: Setting up Your Environment'', 3, [Except_Exception]),
      (''Exercise 8 - Batch Inferencing with Pipelines'', 4, [Except_ComputeTargetException]),
      (''Exercise 4 - Compute Contexts'', 3, [Except_ComputeTargetException]),
      (''Exercise 7 - Automating ML Workflows with Pipelines'', 6,
       [Except_ComputeTargetException]),
      (''Exercise 5 - Optimizing Model Training'', 3, [Except_ComputeTargetException])]"
  by (simp add: cells_with_except_clauses_def notebook_except_clauses_def)

lemma bind_io_propagates: "snd m = Inl e \<Longrightarrow> bind_io m f = (fst m, Inl e)"
  by (cases m) (simp add: bind_io_def)

text \<open>
  C1, amended. Exceptions are caught in two kinds of cell only. Of all code cells of the
  notebooks, five have an except clause: the workspace cell of Exercise 1
  (\<open>except Exception\<close>) and the cpu-cluster cells of Exercises 4, 5, 7 and 8
  (\<open>except ComputeTargetException\<close>).
  In the workspace cell, an exception of the lookup that does not derive from Exception
  propagates; one that does (and has a message to print) is answered by the attempt to
  create the workspace, and a failure of Workspace.create or of write_config propagates.
  In a cpu-cluster cell, an exception of the lookup other than ComputeTargetException
  propagates; ComputeTargetException is answered by provisioning, and a failure of
  ComputeTarget.create or of wait_for_completion propagates.
  Everywhere else a failing statement ends the cell: sequencing passes the exception on.
\<close>

theorem exceptions_caught_in_two_kinds_of_cell:
  assumes "(nb, cell) \<in> set cpu_cluster_cells"
  shows
   "cells_with_except_clauses =
      [(''Exercise 1: Setting up Your Environment'', 3, [Except_Exception]),
       (''Exercise 8 - Batch Inferencing with Pipelines'', 4, [Except_ComputeTargetException]),
       (''Exercise 4 - Compute Contexts'', 3, [Except_ComputeTargetException]),
       (''Exercise 7 - Automating ML Workflows with Pipelines'', 6,
        [Except_ComputeTargetException]),
       (''Exercise 5 - Optimizing Model Training'', 3, [Except_ComputeTargetException])] \<and>
    (\<forall>ex. sdk_Workspace wsdk WORKSPACE_NAME SUBSCRIPTION_ID RESOURCE_GROUP_NAME = Inl ex \<longrightarrow>
       (\<not> catches Except_Exception ex \<longrightarrow>
          connect_workspace_cell wsdk =
            ([Workspace_init WORKSPACE_NAME SUBSCRIPTION_ID RESOURCE_GROUP_NAME], None, Some ex)) \<and>
       (\<forall>m. catches Except_Exception ex \<and> exn_message ex = Some m \<longrightarrow>
          take 4 (trace_of (connect_workspace_cell wsdk)) =
            [Workspace_init WORKSPACE_NAME SUBSCRIPTION_ID RESOURCE_GROUP_NAME,
             Print m, Print ''Attempting to create new workspace...'',
             Workspace_create WORKSPACE_NAME SUBSCRIPTION_ID RESOURCE_GROUP_NAME True REGION] \<and>
          (\<forall>e2. sdk_Workspace_create wsdk WORKSPACE_NAME SUBSCRIPTION_ID RESOURCE_GROUP_NAME
                  True REGION = Inl e2 \<longrightarrow>
             raised (connect_workspace_cell wsdk) = Some e2))) \<and>
    (\<forall>w e3. vars_of (connect_workspace_cell wsdk) = Some w \<and> sdk_write_config wsdk w = Inl e3 \<longrightarrow>
       raised (connect_workspace_cell wsdk) = Some e3) \<and>
    (\<forall>e. sdk_ComputeTarget csdk ws ''cpu-cluster'' = Inl e \<longrightarrow>
       (\<not> catches Except_ComputeTargetException e \<longrightarrow>
          cell csdk ws = ([ComputeTarget_init ws ''cpu-cluster''], Inl e)) \<and>
       (catches Except_ComputeTargetException e \<longrightarrow>
          take 3 (fst (cell csdk ws)) =
            [ComputeTarget_init ws ''cpu-cluster'',
             AmlCompute_provisioning_configuration the_cluster_config,
             ComputeTarget_create ws ''cpu-cluster'' the_cluster_config] \<and>
          (\<forall>e'. sdk_ComputeTarget_create csdk ws ''cpu-cluster'' the_cluster_config = Inl e' \<longrightarrow>
             snd (cell csdk ws) = Inl e'))) \<and>
    (\<forall>c e'. (sdk_ComputeTarget csdk ws ''cpu-cluster'' = Inr c \<or>
              (\<exists>e. sdk_ComputeTarget csdk ws ''cpu-cluster'' = Inl e \<and>
                   catches Except_ComputeTargetException e \<and>
                   sdk_ComputeTarget_create csdk ws ''cpu-cluster'' the_cluster_config = Inr c)) \<and>
             sdk_wait_for_completion csdk c = Inl e' \<longrightarrow>
       snd (cell csdk ws) = Inl e') \<and>
    (\<forall>m f e. snd m = Inl e \<longrightarrow> bind_io m f = (fst m, Inl e :: exn + compute_target))"
proof -
  from assms have cell: "cell = create_compute_cell"
    by (auto simp: cpu_cluster_cells_def)
  have ws_lookup: "(\<not> catches Except_Exception ex \<longrightarrow>
          connect_workspace_cell wsdk =
            ([Workspace_init WORKSPACE_NAME SUBSCRIPTION_ID RESOURCE_GROUP_NAME], None, Some ex)) \<and>
       (\<forall>m. catches Except_Exception ex \<and> exn_message ex = Some m \<longrightarrow>
          take 4 (trace_of (connect_workspace_cell wsdk)) =
            [Workspace_init WORKSPACE_NAME SUBSCRIPTION_ID RESOURCE_GROUP_NAME,
             Print m, Print ''Attempting to create new workspace...'',
             Workspace_create WORKSPACE_NAME SUBSCRIPTION_ID RESOURCE_GROUP_NAME True REGION] \<and>
          (\<forall>e2. sdk_Workspace_create wsdk WORKSPACE_NAME SUBSCRIPTION_ID RESOURCE_GROUP_NAME
                  True REGION = Inl e2 \<longrightarrow>
             raised (connect_workspace_cell wsdk) = Some e2))"
    if l: "sdk_Workspace wsdk WORKSPACE_NAME SUBSCRIPTION_ID RESOURCE_GROUP_NAME = Inl ex" for ex
  proof (intro conjI impI allI)
    assume "\<not> catches Except_Exception ex"
    then show "connect_workspace_cell wsdk =
        ([Workspace_init WORKSPACE_NAME SUBSCRIPTION_ID RESOURCE_GROUP_NAME], None, Some ex)"
      by (rule connect_workspace_cell_not_caught [OF l])
  next
    fix m assume "catches Except_Exception ex \<and> exn_message ex = Some m"
    then have eq: "connect_workspace_cell wsdk = (case sdk_Workspace_create wsdk WORKSPACE_NAME SUBSCRIPTION_ID RESOURCE_GROUP_NAME True REGION of
       Inl e2 \<Rightarrow>
         ([Workspace_init WORKSPACE_NAME SUBSCRIPTION_ID RESOURCE_GROUP_NAME,
           Print m, Print ''Attempting to create new workspace...'',
           Workspace_create WORKSPACE_NAME SUBSCRIPTION_ID RESOURCE_GROUP_NAME True REGION],
          None, Some e2)
     | Inr w \<Rightarrow>
         (case sdk_write_config wsdk w of
            Inr _ \<Rightarrow>
              ([Workspace_init WORKSPACE_NAME SUBSCRIPTION_ID RESOURCE_GROUP_NAME,
                Print m, Print ''Attempting to create new workspace...'',
                Workspace_create WORKSPACE_NAME SUBSCRIPTION_ID RESOURCE_GROUP_NAME True REGION,
                Print (ws_name w @ '' created.''), Write_config w,
                Print (ws_name w @ '' saved.'')], Some w, None)
          | Inl e3 \<Rightarrow>
              ([Workspace_init WORKSPACE_NAME SUBSCRIPTION_ID RESOURCE_GROUP_NAME,
                Print m, Print ''Attempting to create new workspace...'',
                Workspace_create WORKSPACE_NAME SUBSCRIPTION_ID RESOURCE_GROUP_NAME True REGION,
                Print (ws_name w @ '' created.''), Write_config w],
               Some w, Some e3)))"
      using connect_workspace_cell_create [OF l] by blast
    show "take 4 (trace_of (connect_workspace_cell wsdk)) =
            [Workspace_init WORKSPACE_NAME SUBSCRIPTION_ID RESOURCE_GROUP_NAME,
             Print m, Print ''Attempting to create new workspace...'',
             Workspace_create WORKSPACE_NAME SUBSCRIPTION_ID RESOURCE_GROUP_NAME True REGION]"
      unfolding eq by (simp add: result_defs split: sum.splits)
    fix e2
    assume "sdk_Workspace_create wsdk WORKSPACE_NAME SUBSCRIPTION_ID RESOURCE_GROUP_NAME
                  True REGION = Inl e2"
    then show "raised (connect_workspace_cell wsdk) = Some e2"
      unfolding eq by (simp add: result_defs)
  qed
  have ws_write: "raised (connect_workspace_cell wsdk) = Some e3"
    if v: "vars_of (connect_workspace_cell wsdk) = Some w" and f: "sdk_write_config wsdk w = Inl e3"
    for w e3
  proof (cases rule: connect_workspace_cell_cases [of wsdk])
    case (found w')
    from v f show ?thesis unfolding connect_workspace_cell_found [OF found]
      by (auto simp: result_defs split: sum.splits)
  next
    case (not_caught ex)
    from v show ?thesis unfolding connect_workspace_cell_not_caught [OF not_caught]
      by (simp add: result_defs)
  next
    case (no_message ex)
    from v show ?thesis unfolding connect_workspace_cell_no_message [OF no_message]
      by (simp add: result_defs)
  next
    case (create ex m)
    from v f show ?thesis unfolding connect_workspace_cell_create [OF create]
      by (auto simp: result_defs split: sum.splits)
  qed
  have cl_lookup: "(\<not> catches Except_ComputeTargetException e \<longrightarrow>
          cell csdk ws = ([ComputeTarget_init ws ''cpu-cluster''], Inl e)) \<and>
       (catches Except_ComputeTargetException e \<longrightarrow>
          take 3 (fst (cell csdk ws)) =
            [ComputeTarget_init ws ''cpu-cluster'',
             AmlCompute_provisioning_configuration the_cluster_config,
             ComputeTarget_create ws ''cpu-cluster'' the_cluster_config] \<and>
          (\<forall>e'. sdk_ComputeTarget_create csdk ws ''cpu-cluster'' the_cluster_config = Inl e' \<longrightarrow>
             snd (cell csdk ws) = Inl e'))"
    if l: "sdk_ComputeTarget csdk ws ''cpu-cluster'' = Inl e" for e
  proof (cases "catches Except_ComputeTargetException e")
    case True
    then have c: "exn_cls e = ComputeTargetException" by simp
    show ?thesis using True unfolding cell create_compute_cell_not_found [OF l c]
      by (simp split: sum.splits)
  next
    case False
    then have c: "exn_cls e \<noteq> ComputeTargetException" by simp
    show ?thesis using False unfolding cell create_compute_cell_other_failure [OF l c]
      by simp
  qed
  have cl_wait: "snd (cell csdk ws) = Inl e'"
    if o: "sdk_ComputeTarget csdk ws ''cpu-cluster'' = Inr c \<or>
              (\<exists>e. sdk_ComputeTarget csdk ws ''cpu-cluster'' = Inl e \<and>
                   catches Except_ComputeTargetException e \<and>
                   sdk_ComputeTarget_create csdk ws ''cpu-cluster'' the_cluster_config = Inr c)"
      and w: "sdk_wait_for_completion csdk c = Inl e'" for c e'
    using o
  proof
    assume f: "sdk_ComputeTarget csdk ws ''cpu-cluster'' = Inr c"
    show ?thesis unfolding cell create_compute_cell_found [OF f] using w by simp
  next
    assume "\<exists>e. sdk_ComputeTarget csdk ws ''cpu-cluster'' = Inl e \<and>
                   catches Except_ComputeTargetException e \<and>
                   sdk_ComputeTarget_create csdk ws ''cpu-cluster'' the_cluster_config = Inr c"
    then obtain e where l: "sdk_ComputeTarget csdk ws ''cpu-cluster'' = Inl e"
      and c: "exn_cls e = ComputeTargetException"
      and k: "sdk_ComputeTarget_create csdk ws ''cpu-cluster'' the_cluster_config = Inr c"
      by auto
    show ?thesis unfolding cell create_compute_cell_not_found [OF l c] using k w by simp
  qed
  have seq_law: "bind_io m f = (fst m, Inl e)" if "snd m = Inl e"
    for m :: "'x io" and f :: "'x \<Rightarrow> compute_target io" and e
    using that by (rule bind_io_propagates)
  have p1: "\<forall>ex. sdk_Workspace wsdk WORKSPACE_NAME SUBSCRIPTION_ID RESOURCE_GROUP_NAME = Inl ex \<longrightarrow>
       (\<not> catches Except_Exception ex \<longrightarrow>
          connect_workspace_cell wsdk =
            ([Workspace_init WORKSPACE_NAME SUBSCRIPTION_ID RESOURCE_GROUP_NAME], None, Some ex)) \<and>
       (\<forall>m. catches Except_Exception ex \<and> exn_message ex = Some m \<longrightarrow>
          take 4 (trace_of (connect_workspace_cell wsdk)) =
            [Workspace_init WORKSPACE_NAME SUBSCRIPTION_ID RESOURCE_GROUP_NAME,
             Print m, Print ''Attempting to create new workspace...'',
             Workspace_create WORKSPACE_NAME SUBSCRIPTION_ID RESOURCE_GROUP_NAME True REGION] \<and>
          (\<forall>e2. sdk_Workspace_create wsdk WORKSPACE_NAME SUBSCRIPTION_ID RESOURCE_GROUP_NAME
                  True REGION = Inl e2 \<longrightarrow>
             raised (connect_workspace_cell wsdk) = Some e2))"
    by (intro allI impI) (rule ws_lookup)
  have p2: "\<forall>w e3. vars_of (connect_workspace_cell wsdk) = Some w \<and> sdk_write_config wsdk w = Inl e3 \<longrightarrow>
       raised (connect_workspace_cell wsdk) = Some e3"
    using ws_write by (intro allI impI) (elim conjE)
  have p3: "\<forall>e. sdk_ComputeTarget csdk ws ''cpu-cluster'' = Inl e \<longrightarrow>
       (\<not> catches Except_ComputeTargetException e \<longrightarrow>
          cell csdk ws = ([ComputeTarget_init ws ''cpu-cluster''], Inl e)) \<and>
       (catches Except_ComputeTargetException e \<longrightarrow>
          take 3 (fst (cell csdk ws)) =
            [ComputeTarget_init ws ''cpu-cluster'',
             AmlCompute_provisioning_configuration the_cluster_config,
             ComputeTarget_create ws ''cpu-cluster'' the_cluster_config] \<and>
          (\<forall>e'. sdk_ComputeTarget_create csdk ws ''cpu-cluster'' the_cluster_config = Inl e' \<longrightarrow>
             snd (cell csdk ws) = Inl e'))"
    by (intro allI impI) (rule cl_lookup)
  have p4: "\<forall>c e'. (sdk_ComputeTarget csdk ws ''cpu-cluster'' = Inr c \<or>
              (\<exists>e. sdk_ComputeTarget csdk ws ''cpu-cluster'' = Inl e \<and>
                   catches Except_ComputeTargetException e \<and>
                   sdk_ComputeTarget_create csdk ws ''cpu-cluster'' the_cluster_config = Inr c)) \<and>
             sdk_wait_for_completion csdk c = Inl e' \<longrightarrow>
       snd (cell csdk ws) = Inl e'"
    using cl_wait by (intro allI impI) (elim conjE)
  have p5: "\<forall>(m :: 'x io) (f :: 'x \<Rightarrow> compute_target io) e.
      snd m = Inl e \<longrightarrow> bind_io m f = (fst m, Inl e)"
    by (intro allI impI) (rule seq_law)
  from cells_with_except_clauses_eq p1 p2 p3 p4 p5 show ?thesis
    by (intro conjI)
qed

theorem exceptions_caught_in_two_kinds_of_cell_witness:
  "(''Exercise 4 - Compute Contexts'', create_compute_cell) \<in> set cpu_cluster_cells \<and>
   sdk_Workspace sdk_workspace_missing WORKSPACE_NAME SUBSCRIPTION_ID RESOURCE_GROUP_NAME =
     Inl (Exn (OtherException ''WorkspaceException'') (Some ''Workspace not found'')) \<and>
   catches Except_Exception
     (Exn (OtherException ''WorkspaceException'') (Some ''Workspace not found'')) \<and>
   take 4 (trace_of (connect_workspace_cell sdk_workspace_missing)) =
     [Workspace_init WORKSPACE_NAME SUBSCRIPTION_ID RESOURCE_GROUP_NAME,
      Print ''Workspace not found'', Print ''Attempting to create new workspace...'',
      Workspace_create WORKSPACE_NAME SUBSCRIPTION_ID RESOURCE_GROUP_NAME True REGION] \<and>
   sdk_Workspace sdk_workspace_interrupted WORKSPACE_NAME SUBSCRIPTION_ID RESOURCE_GROUP_NAME =
     Inl (Exn KeyboardInterrupt None) \<and>
   \<not> catches Except_Exception (Exn KeyboardInterrupt None) \<and>
   connect_workspace_cell sdk_workspace_interrupted =
     ([Workspace_init WORKSPACE_NAME SUBSCRIPTION_ID RESOURCE_GROUP_NAME], None,
      Some (Exn KeyboardInterrupt None)) \<and>
   sdk_ComputeTarget sdk_cluster_missing example_ws ''cpu-cluster'' =
     Inl (Exn ComputeTargetException (Some ''ComputeTargetNotFound'')) \<and>
   take 3 (fst (create_compute_cell sdk_cluster_missing example_ws)) =
     [ComputeTarget_init example_ws ''cpu-cluster'',
      AmlCompute_provisioning_configuration the_cluster_config,
      ComputeTarget_create example_ws ''cpu-cluster'' the_cluster_config] \<and>
   sdk_ComputeTarget sdk_cluster_unauthorized example_ws ''cpu-cluster'' =
     Inl (Exn (OtherException ''AuthenticationException'') (Some ''token expired'')) \<and>
   create_compute_cell sdk_cluster_unauthorized example_ws =
     ([ComputeTarget_init example_ws ''cpu-cluster''],
      Inl (Exn (OtherException ''AuthenticationException'') (Some ''token expired'')))"
proof -
  have m: "(''Exercise 4 - Compute Contexts'', create_compute_cell) \<in> set cpu_cluster_cells"
    by (simp add: cpu_cluster_cells_def)
  have l1: "sdk_Workspace sdk_workspace_missing WORKSPACE_NAME SUBSCRIPTION_ID
      RESOURCE_GROUP_NAME =
      Inl (Exn (OtherException ''WorkspaceException'') (Some ''Workspace not found''))"
    by (simp add: sdk_workspace_missing_def)
  have l2: "sdk_Workspace sdk_workspace_interrupted WORKSPACE_NAME SUBSCRIPTION_ID
      RESOURCE_GROUP_NAME = Inl (Exn KeyboardInterrupt None)"
    by (simp add: sdk_workspace_interrupted_def)
  have l3: "sdk_ComputeTarget sdk_cluster_missing example_ws ''cpu-cluster'' =
      Inl (Exn ComputeTargetException (Some ''ComputeTargetNotFound''))"
    by (simp add: sdk_cluster_missing_def)
  have l4: "sdk_ComputeTarget sdk_cluster_unauthorized example_ws ''cpu-cluster'' =
      Inl (Exn (OtherException ''AuthenticationException'') (Some ''token expired''))"
    by (simp add: sdk_cluster_unauthorized_def)
  note t1 = exceptions_caught_in_two_kinds_of_cell [OF m,
      where wsdk = sdk_workspace_missing and csdk = sdk_cluster_missing and ws = example_ws]
  note t2 = exceptions_caught_in_two_kinds_of_cell [OF m,
      where wsdk = sdk_workspace_interrupted and csdk = sdk_cluster_unauthorized
        and ws = example_ws]
  have k1: "catches Except_Exception
      (Exn (OtherException ''WorkspaceException'') (Some ''Workspace not found'')) \<and>
    exn_message (Exn (OtherException ''WorkspaceException'') (Some ''Workspace not found'')) =
      Some ''Workspace not found''"
    by simp
  have k2: "\<not> catches Except_Exception (Exn KeyboardInterrupt None)"
    by simp
  have k3: "catches Except_ComputeTargetException
      (Exn ComputeTargetException (Some ''ComputeTargetNotFound''))"
    by simp
  have k4: "\<not> catches Except_ComputeTargetException
      (Exn (OtherException ''AuthenticationException'') (Some ''token expired''))"
    by simp
  note a = t1 [THEN conjunct2, THEN conjunct1, rule_format, OF l1, THEN conjunct2, rule_format,
      OF k1, THEN conjunct1]
  note b = t1 [THEN conjunct2, THEN conjunct2, THEN conjunct2, THEN conjunct1, rule_format,
      OF l3, THEN conjunct2, rule_format, OF k3, THEN conjunct1]
  note c = t2 [THEN conjunct2, THEN conjunct1, rule_format, OF l2, THEN conjunct1, rule_format,
      OF k2]
  note d = t2 [THEN conjunct2, THEN conjunct2, THEN conjunct2, THEN conjunct1, rule_format,
      OF l4, THEN conjunct1, rule_format, OF k4]
  from m l1 l2 l3 l4 k1 k2 a b c d show ?thesis by (intro conjI) simp_all
qed

section \<open>Properties of the REST trigger\<close>

lemmas rest_defs = trigger_published_pipeline_def trigger_pipeline_cell_def
  get_auth_header_cell_def requests_post_def subscript_def

text \<open>
  C5. Once the interactive session has handed out its authentication header, the cells
  send exactly one HTTP request: a POST to the published pipeline's endpoint, with that
  header as the request's headers and the JSON body \<open>{"ExperimentName":
  "Batch_Pipeline_via_REST"}\<close>. When the request is answered and the response decodes to a
  JSON object, the run identifier is the value of the object's field "Id" (and the cell
  raises KeyError when the object has no such field).
\<close>

theorem pipeline_triggered_by_authorized_post:
  assumes "env_InteractiveLoginAuthentication env = Inr session"
    and "env_get_authentication_header env session = Inr auth_header"
  shows "filter is_Requests_request (fst (trigger_published_pipeline env endpoint)) =
      [Requests_request \<lparr>req_method = ''POST'', req_url = endpoint, req_headers = auth_header,
         req_json = JObject [(''ExperimentName'', JString ''Batch_Pipeline_via_REST'')]\<rparr>] \<and>
    (\<forall>resp fields.
       env_requests_post env \<lparr>req_method = ''POST'', req_url = endpoint,
           req_headers = auth_header,
           req_json = JObject [(''ExperimentName'', JString ''Batch_Pipeline_via_REST'')]\<rparr>
         = Inr resp \<and>
       env_response_json env resp = Inr (JObject fields) \<longrightarrow>
       snd (trigger_published_pipeline env endpoint) =
         (case map_of (rev fields) ''Id'' of
            Some run_id \<Rightarrow> Inr run_id
          | None \<Rightarrow> Inl (Exn KeyError None)))"
  using assms
  by (auto simp: rest_defs io_defs split: sum.splits option.splits json.splits)

theorem pipeline_triggered_by_authorized_post_witness:
  "env_InteractiveLoginAuthentication example_rest_env = Inr (AuthSession 0) \<and>
   env_get_authentication_header example_rest_env (AuthSession 0) =
     Inr [(''Authorization'', ''Bearer abc'')] \<and>
   trigger_published_pipeline example_rest_env ''https://eastus2.aether.ms/pipelines/1'' =
     ([InteractiveLoginAuthentication_init, Get_authentication_header (AuthSession 0),
       Print_headers [(''Authorization'', ''Bearer abc'')],
       Requests_request \<lparr>req_method = ''POST'',
         req_url = ''https://eastus2.aether.ms/pipelines/1'',
         req_headers = [(''Authorization'', ''Bearer abc'')],
         req_json = JObject [(''ExperimentName'', JString ''Batch_Pipeline_via_REST'')]\<rparr>,
       Response_json (Response 0)],
      Inr (JString ''run-1''))"
proof -
  have a: "env_InteractiveLoginAuthentication example_rest_env = Inr (AuthSession 0)"
    by (simp add: example_rest_env_def)
  have h: "env_get_authentication_header example_rest_env (AuthSession 0) =
      Inr [(''Authorization'', ''Bearer abc'')]"
    by (simp add: example_rest_env_def)
  have p: "env_requests_post example_rest_env \<lparr>req_method = ''POST'',
         req_url = ''https://eastus2.aether.ms/pipelines/1'',
         req_headers = [(''Authorization'', ''Bearer abc'')],
         req_json = JObject [(''ExperimentName'', JString ''Batch_Pipeline_via_REST'')]\<rparr>
       = Inr (Response 0) \<and>
     env_response_json example_rest_env (Response 0) =
       Inr (JObject [(''Id'', JString ''run-1''), (''Status'', JString ''Running'')])"
    by (simp add: example_rest_env_def)
  note t = pipeline_triggered_by_authorized_post [OF a h,
      of "''https://eastus2.aether.ms/pipelines/1''"]
  note r = t [THEN conjunct2, rule_format, OF p]
  have tr: "fst (trigger_published_pipeline example_rest_env
        ''https://eastus2.aether.ms/pipelines/1'') =
     [InteractiveLoginAuthentication_init, Get_authentication_header (AuthSession 0),
       Print_headers [(''Authorization'', ''Bearer abc'')],
       Requests_request \<lparr>req_method = ''POST'',
         req_url = ''https://eastus2.aether.ms/pipelines/1'',
         req_headers = [(''Authorization'', ''Bearer abc'')],
         req_json = JObject [(''ExperimentName'', JString ''Batch_Pipeline_via_REST'')]\<rparr>,
       Response_json (Response 0)]"
    by (simp add: rest_defs io_defs example_rest_env_def)
  from r have res: "snd (trigger_published_pipeline example_rest_env
        ''https://eastus2.aether.ms/pipelines/1'') = Inr (JString ''run-1'')"
    by simp
  from a h tr res show ?thesis
    by (simp add: prod_eq_iff)
qed

section \<open>Successful runs, statement by statement\<close>

lemma bind_io_Inr_iff:
  "bind_io m f = (tr, Inr y) \<longleftrightarrow>
     (\<exists>tr1 x tr2. m = (tr1, Inr x) \<and> f x = (tr2, Inr y) \<and> tr = tr1 @ tr2)"
  by (cases m; cases "snd m") (auto simp: bind_io_def split: prod.splits)

lemma ret_eq_iff: "ret x = (tr, r) \<longleftrightarrow> tr = [] \<and> r = Inr x"
  by (auto simp: ret_def)

lemma raise_eq_Inr_iff: "raise e = (tr, Inr y) \<longleftrightarrow> False"
  by (simp add: raise_def)

lemma call_eq_iff: "call ev outcome = (tr, r) \<longleftrightarrow> tr = [ev] \<and> r = outcome"
  by (auto simp: call_def)

lemma global_name_Inr_iff: "global_name names n = (tr, Inr u) \<longleftrightarrow> n \<in> set names \<and> tr = []"
  by (auto simp: global_name_def ret_def raise_def)

lemma method_call_Inr_iff: "method_call lib ev = (tr, Inr u) \<longleftrightarrow> lib ev = None \<and> tr = [ev]"
  by (auto simp: method_call_def call_def split: option.splits)

lemma lib_call_Inr_iff:
  "lib_call names lib n ev = (tr, Inr u) \<longleftrightarrow> n \<in> set names \<and> lib ev = None \<and> tr = [ev]"
  by (auto simp: lib_call_def bind_io_Inr_iff global_name_Inr_iff method_call_Inr_iff)

lemma named_call_Inr_iff:
  "named_call names n ev outcome = (tr, Inr x) \<longleftrightarrow>
     n \<in> set names \<and> outcome = Inr x \<and> tr = [ev]"
  by (auto simp: named_call_def bind_io_Inr_iff global_name_Inr_iff call_eq_iff)

lemma undeclared_options_Inr_iff:
  "undeclared_options declared args = (tr, Inr u) \<longleftrightarrow>
     list_all (\<lambda>(opt, _). opt \<in> set declared) args \<and> tr = []"
  by (auto simp: undeclared_options_def ret_def raise_def)

lemma steps_append: "steps (xs @ ys) = bind_io (steps xs) (\<lambda>_. steps ys)"
proof (induction xs)
  case Nil
  show ?case by (cases "steps ys") (simp add: bind_io_def ret_def)
next
  case (Cons x xs)
  show ?case
    by (cases x; cases "snd x")
      (auto simp: Cons bind_io_def split: prod.splits sum.splits)
qed

lemma with_open_Inr_iff:
  "with_open lib path mode body = (tr, Inr x) \<longleftrightarrow>
     lib (File_open path mode) = None \<and> lib (File_close path) = None \<and>
     (\<exists>trb. body = (trb, Inr x) \<and> tr = File_open path mode # trb @ [File_close path])"
  by (cases body; cases "snd body")
    (auto simp: with_open_def bind_io_Inr_iff method_call_Inr_iff ret_eq_iff)

section \<open>Properties of the batch scoring script\<close>

lemma genfromtxt_all_Inr:
  assumes "genfromtxt_all names env fs = (tr, Inr rows)"
  shows "map (env_genfromtxt env) fs = map Inr rows \<and> tr = map Genfromtxt fs"
  using assms
proof (induction fs arbitrary: tr rows)
  case Nil
  then show ?case by (simp add: ret_eq_iff)
next
  case (Cons f fs)
  from Cons.prems obtain row tr' rows' where
    f: "env_genfromtxt env f = Inr row" and
    r: "genfromtxt_all names env fs = (tr', Inr rows')" and
    e: "rows = row # rows'" "tr = Genfromtxt f # tr'"
    by (auto simp: bind_io_Inr_iff named_call_Inr_iff ret_eq_iff)
  from Cons.IH [OF r] f e show ?case by simp
qed

lemma write_loop_Inr:
  assumes "steps (map (write_result names env path fns preds) [0..<n]) = (tr, Inr ())"
  shows "n \<le> length fns \<and>
    tr = map (\<lambda>i. File_write path (result_line (env_str env) (fns ! i) (preds ! i))) [0..<n]"
  using assms
proof (induction n arbitrary: tr)
  case 0
  then show ?case by (simp add: ret_eq_iff)
next
  case (Suc n)
  from Suc.prems obtain tr1 tr2 where
    a: "steps (map (write_result names env path fns preds) [0..<n]) = (tr1, Inr ())" and
    b: "write_result names env path fns preds n = (tr2, Inr ())" and
    c: "tr = tr1 @ tr2"
    by (auto simp: steps_append bind_io_Inr_iff ret_eq_iff)
  from b have d: "n < length fns" and
    e: "tr2 = [File_write path (result_line (env_str env) (fns ! n) (preds ! n))]"
    by (auto simp: write_result_def bind_io_Inr_iff global_name_Inr_iff method_call_Inr_iff
        raise_eq_Inr_iff split: if_splits)
  from Suc.IH [OF a] c d e show ?case by simp
qed

lemma file_content_append:
  "file_content (tr1 @ tr2) path = fold (file_step path) tr2 (file_content tr1 path)"
  by (simp add: file_content_def)

lemma fold_file_step_Genfromtxt:
  "fold (file_step path) (map Genfromtxt fs) c = c"
  by (induction fs) simp_all

lemma fold_file_step_writes:
  "fold (file_step path) (map (\<lambda>i. File_write path (g i)) is) (Some s) =
     Some (s @ concat (map g is))"
  by (induction "is" arbitrary: s) simp_all

lemma split_lines_line:
  assumes "newline \<notin> set l"
  shows "split_lines (l @ newline # rest) = l # split_lines rest"
  using assms by (induction l) (auto simp: split_lines_def)

lemma split_lines_concat:
  assumes "\<forall>l \<in> set ls. newline \<notin> set l"
  shows "split_lines (concat (map (\<lambda>l. l @ [newline]) ls)) = ls"
  using assms
proof (induction ls)
  case Nil
  show ?case by (simp add: split_lines_def)
next
  case (Cons l ls)
  then have "split_lines (l @ newline # concat (map (\<lambda>l. l @ [newline]) ls)) =
      l # split_lines (concat (map (\<lambda>l. l @ [newline]) ls))"
    by (intro split_lines_line) simp
  with Cons show ?case by simp
qed

lemma output_path_eq: "os_path_join ''outputs'' ''results.txt'' = ''outputs/results.txt''"
  by (simp add: os_path_join_def)

lemmas Inr_iffs = bind_io_Inr_iff lib_call_Inr_iff named_call_Inr_iff method_call_Inr_iff
  global_name_Inr_iff undeclared_options_Inr_iff with_open_Inr_iff ret_eq_iff raise_eq_Inr_iff
  call_eq_iff

lemma batch_diabetes_Inr:
  assumes "batch_diabetes env args = (tr, Inr ())"
  shows "\<exists>input_dir model_path file_names rows predictions.
     str_option args ''--input_dir'' (Some ''batch_data'') = Some input_dir \<and>
     env_get_model_path env ''diabetes_model'' = Inr model_path \<and>
     env_glob env (os_path_join input_dir ''*.csv'') = Inr file_names \<and>
     map (env_genfromtxt env) file_names = map Inr rows \<and>
     env_predict env rows = Inr predictions \<and>
     length predictions \<le> length file_names \<and>
     tr = [Run_get_context, Lib ''argparse.ArgumentParser()'',
           Run_log ''Input Folder'' (PStr input_dir),
           Model_get_model_path ''diabetes_model'', Joblib_load model_path,
           Glob (os_path_join input_dir ''*.csv''),
           Run_log ''File Count'' (PInt (int (length file_names)))]
          @ map Genfromtxt file_names
          @ [Lib ''np.asarray'', Model_predict rows, Os_makedirs ''outputs'',
             File_open ''outputs/results.txt'' ''w'']
          @ map (\<lambda>i. File_write ''outputs/results.txt''
                        (result_line (env_str env) (file_names ! i) (predictions ! i)))
              [0..<length predictions]
          @ [File_flush ''outputs/results.txt'', File_close ''outputs/results.txt'',
             File_close ''outputs/results.txt'', Run_complete]"
  using assms unfolding batch_diabetes_def score_files_def Let_def output_path_eq
  apply (auto simp: Inr_iffs split: option.splits dest!: genfromtxt_all_Inr write_loop_Inr)
  subgoal for input_dir model_path file_names rows predictions
    by (rule exI [of _ predictions]) simp
  done

lemma map_nth_zip:
  assumes "length ps \<le> length fs"
  shows "map (\<lambda>i. g (fs ! i) (ps ! i)) [0..<length ps] = map (\<lambda>(f, p). g f p) (zip fs ps)"
  using assms by (intro map_upt_eqI) simp_all

lemma file_content_batch_trace:
  "file_content
     (pre @ map Genfromtxt fs @ [Lib ''np.asarray'', Model_predict rows, Os_makedirs ''outputs'',
        File_open ''outputs/results.txt'' ''w'']
      @ map (\<lambda>i. File_write ''outputs/results.txt'' (g i)) js
      @ [File_flush ''outputs/results.txt'', File_close ''outputs/results.txt'',
         File_close ''outputs/results.txt'', Run_complete])
     ''outputs/results.txt'' = Some (concat (map g js))"
  by (simp add: file_content_def fold_file_step_Genfromtxt fold_file_step_writes)

text \<open>
  C2. For every run of the batch scoring script that completes, over the n files that the
  glob matched, with the model giving one prediction per file: outputs/results.txt holds,
  for each matched file in the order of the match, the file's base name, then ": ", then
  the string form of its prediction, then a newline. When no base name and no printed
  prediction contains a newline itself, these are the file's lines: exactly n of them, the
  i-th for the i-th matched file.
\<close>

theorem results_file_one_line_per_input_file:
  assumes "snd (batch_diabetes env args) = Inr ()"
    and "str_option args ''--input_dir'' (Some ''batch_data'') = Some input_dir"
    and "env_glob env (os_path_join input_dir ''*.csv'') = Inr file_names"
    and "map (env_genfromtxt env) file_names = map Inr rows"
    and "env_predict env rows = Inr predictions"
    and "length predictions = length file_names"
  shows "file_content (fst (batch_diabetes env args)) ''outputs/results.txt'' =
      Some (concat (map (\<lambda>(f, p). path_tail f @ '': '' @ env_str env p @ [newline])
                      (zip file_names predictions))) \<and>
    ((\<forall>(f, p) \<in> set (zip file_names predictions).
         newline \<notin> set (path_tail f) \<and> newline \<notin> set (env_str env p)) \<longrightarrow>
     map_option split_lines
        (file_content (fst (batch_diabetes env args)) ''outputs/results.txt'') =
       Some (map (\<lambda>(f, p). path_tail f @ '': '' @ env_str env p) (zip file_names predictions)) \<and>
     map_option (length \<circ> split_lines)
        (file_content (fst (batch_diabetes env args)) ''outputs/results.txt'') =
       Some (length file_names))"
proof -
  obtain tr where run: "batch_diabetes env args = (tr, Inr ())"
    using assms(1) by (cases "batch_diabetes env args") simp
  from batch_diabetes_Inr [OF run] obtain input_dir' model_path file_names' rows' predictions'
    where i: "str_option args ''--input_dir'' (Some ''batch_data'') = Some input_dir'"
      and g: "env_glob env (os_path_join input_dir' ''*.csv'') = Inr file_names'"
      and r: "map (env_genfromtxt env) file_names' = map Inr rows'"
      and p: "env_predict env rows' = Inr predictions'"
      and t: "tr = [Run_get_context, Lib ''argparse.ArgumentParser()'',
           Run_log ''Input Folder'' (PStr input_dir'),
           Model_get_model_path ''diabetes_model'', Joblib_load model_path,
           Glob (os_path_join input_dir' ''*.csv''),
           Run_log ''File Count'' (PInt (int (length file_names')))]
          @ map Genfromtxt file_names'
          @ [Lib ''np.asarray'', Model_predict rows', Os_makedirs ''outputs'',
             File_open ''outputs/results.txt'' ''w'']
          @ map (\<lambda>i. File_write ''outputs/results.txt''
                        (result_line (env_str env) (file_names' ! i) (predictions' ! i)))
              [0..<length predictions']
          @ [File_flush ''outputs/results.txt'', File_close ''outputs/results.txt'',
             File_close ''outputs/results.txt'', Run_complete]"
    by blast
  from i assms(2) have i': "input_dir' = input_dir" by simp
  from g assms(3) have f': "file_names' = file_names" by (simp add: i')
  from r assms(4) have "map Inr rows' = (map Inr rows :: (exn + rat list) list)"
    by (simp add: f')
  then have r': "rows' = rows" by (simp add: inj_map_eq_map)
  from p assms(5) have p': "predictions' = predictions" by (simp add: r')
  have len: "length predictions \<le> length file_names" using assms(6) by simp
  have content: "file_content tr ''outputs/results.txt'' =
      Some (concat (map (\<lambda>(f, p). result_line (env_str env) f p) (zip file_names predictions)))"
    unfolding t f' p' file_content_batch_trace map_nth_zip [OF len] ..
  have lines: "concat (map (\<lambda>(f, p). result_line (env_str env) f p) (zip file_names predictions)) =
      concat (map (\<lambda>l. l @ [newline])
        (map (\<lambda>(f, p). path_tail f @ '': '' @ env_str env p) (zip file_names predictions)))"
    by (simp add: result_line_def comp_def case_prod_unfold)
  have colon: "newline \<notin> set '': ''" by (simp add: newline_def)
  have split: "split_lines (concat (map (\<lambda>(f, p). result_line (env_str env) f p)
        (zip file_names predictions))) =
      map (\<lambda>(f, p). path_tail f @ '': '' @ env_str env p) (zip file_names predictions)"
    if "\<forall>(f, p) \<in> set (zip file_names predictions).
         newline \<notin> set (path_tail f) \<and> newline \<notin> set (env_str env p)"
    unfolding lines using that colon by (intro split_lines_concat) auto
  have fst_run: "fst (batch_diabetes env args) = tr" by (simp add: run)
  show ?thesis
    unfolding fst_run content
    using split assms(6) by (auto simp: result_line_def case_prod_unfold)
qed

theorem results_file_one_line_per_input_file_witness:
  "snd (batch_diabetes example_batch_env []) = Inr () \<and>
   env_glob example_batch_env (os_path_join ''batch_data'' ''*.csv'') =
     Inr [''batch_data/1.csv'', ''batch_data/2.csv''] \<and>
   env_predict example_batch_env
     [[0, 171, 80, 34, 23, 43, 1, 21], [8, 92, 93, 47, 36, 21, 0, 46]] = Inr [0, 1] \<and>
   file_content (fst (batch_diabetes example_batch_env [])) ''outputs/results.txt'' =
     Some (''1.csv: 0'' @ [newline] @ ''2.csv: 1'' @ [newline]) \<and>
   map_option split_lines
     (file_content (fst (batch_diabetes example_batch_env [])) ''outputs/results.txt'') =
     Some [''1.csv: 0'', ''2.csv: 1'']"
proof -
  have ok: "snd (batch_diabetes example_batch_env []) = Inr ()"
    by code_simp
  have i: "str_option [] ''--input_dir'' (Some ''batch_data'') = Some ''batch_data''"
    by (simp add: str_option_def)
  have g: "env_glob example_batch_env (os_path_join ''batch_data'' ''*.csv'') =
      Inr [''batch_data/1.csv'', ''batch_data/2.csv'']"
    by (simp add: example_batch_env_def)
  have r: "map (env_genfromtxt example_batch_env) [''batch_data/1.csv'', ''batch_data/2.csv''] =
      map Inr [[0, 171, 80, 34, 23, 43, 1, 21], [8, 92, 93, 47, 36, 21, 0, 46]]"
    by (simp add: example_batch_env_def)
  have p: "env_predict example_batch_env
      [[0, 171, 80, 34, 23, 43, 1, 21], [8, 92, 93, 47, 36, 21, 0, 46]] = Inr [0, 1]"
    by (simp add: example_batch_env_def)
  have l: "length [0, 1 :: nat] = length [''batch_data/1.csv'', ''batch_data/2.csv'']"
    by simp
  have n: "\<forall>(f, p) \<in> set (zip [''batch_data/1.csv'', ''batch_data/2.csv''] [0, 1 :: nat]).
      newline \<notin> set (path_tail f) \<and> newline \<notin> set (env_str example_batch_env p)"
    by (simp add: path_tail_def newline_def example_batch_env_def)
  note t = results_file_one_line_per_input_file [OF ok i g r p l]
  note c = t [THEN conjunct1]
  note s = t [THEN conjunct2, THEN mp, OF n, THEN conjunct1]
  have c': "file_content (fst (batch_diabetes example_batch_env [])) ''outputs/results.txt'' =
      Some (''1.csv: 0'' @ [newline] @ ''2.csv: 1'' @ [newline])"
    unfolding c by (simp add: path_tail_def example_batch_env_def)
  have s': "map_option split_lines
      (file_content (fst (batch_diabetes example_batch_env [])) ''outputs/results.txt'') =
      Some [''1.csv: 0'', ''2.csv: 1'']"
    unfolding s by (simp add: path_tail_def example_batch_env_def)
  from ok g p c' s' show ?thesis by (intro conjI)
qed

section \<open>Properties of the batch data generation\<close>

lemma call_Inr_iff: "call ev outcome = (tr, Inr x) \<longleftrightarrow> outcome = Inr x \<and> tr = [ev]"
  by (auto simp: call_def)

lemma save_loop_Inr:
  assumes "steps (map (save_sample env folder sample) [0..<n]) = (tr, Inr ())"
  shows "n \<le> length sample \<and>
    tr = map (\<lambda>i. Tofile (os_path_join folder (str_nat (i + 1) @ ''.csv'')) (sample ! i) '','')
           [0..<n]"
  using assms
proof (induction n arbitrary: tr)
  case 0
  then show ?case by (simp add: ret_eq_iff)
next
  case (Suc n)
  from Suc.prems obtain tr1 tr2 where
    a: "steps (map (save_sample env folder sample) [0..<n]) = (tr1, Inr ())" and
    b: "save_sample env folder sample n = (tr2, Inr ())" and
    c: "tr = tr1 @ tr2"
    by (auto simp: steps_append bind_io_Inr_iff ret_eq_iff)
  from b have d: "n < length sample" and
    e: "tr2 = [Tofile (os_path_join folder (str_nat (n + 1) @ ''.csv'')) (sample ! n) '','']"
    by (auto simp: save_sample_def Let_def method_call_Inr_iff raise_eq_Inr_iff
        split: if_splits)
  from Suc.IH [OF a] c d e show ?case by simp
qed

lemma digit_char_not_slash: "d < 10 \<Longrightarrow> digit_char d \<noteq> CHR ''/''"
proof
  assume d: "d < 10" and "digit_char d = CHR ''/''"
  then have "of_char (char_of (48 + d)) = (of_char (CHR ''/'') :: nat)"
    by (simp add: digit_char_def)
  with d show False by simp
qed

lemma str_nat_head: "str_nat n \<noteq> [] \<and> hd (str_nat n) \<noteq> CHR ''/''"
proof (induction n rule: str_nat.induct)
  case (1 n)
  show ?case
  proof (cases "n < 10")
    case True
    then show ?thesis by (simp add: str_nat.simps [of n] digit_char_not_slash)
  next
    case False
    with 1 show ?thesis by (simp add: str_nat.simps [of n])
  qed
qed

lemma batch_file_path:
  "os_path_join ''./batch_data'' (str_nat k @ ''.csv'') = ''./batch_data/'' @ str_nat k @ ''.csv''"
  using str_nat_head [of k] by (simp add: os_path_join_def)

lemma select_columns_Inr_iff:
  "select_columns df cols = (tr, Inr sel) \<longleftrightarrow>
     list_all (\<lambda>c. c \<in> set (df_columns df)) cols \<and> tr = [] \<and>
     sel = project_columns df cols"
  by (auto simp: select_columns_def ret_def raise_def)

lemma print_Inr_iff: "print s = (tr, Inr u) \<longleftrightarrow> tr = [Print s]"
  by (auto simp: print_def call_def)

lemma written_files_append: "written_files (tr1 @ tr2) = written_files tr1 @ written_files tr2"
  by (induction tr1 rule: written_files.induct) simp_all

lemma written_files_Tofile:
  "written_files (map (\<lambda>i. Tofile (p i) (r i) s) js) = map p js"
  by (induction js) simp_all

lemma filter_Tofile:
  "filter is_Tofile (map (\<lambda>i. Tofile (p i) (r i) s) js) = map (\<lambda>i. Tofile (p i) (r i) s) js"
  by (induction js) simp_all

lemma generate_batch_data_cell_Inr:
  assumes "generate_batch_data_cell env = (tr, Inr ())"
  shows "\<exists>diabetes sample.
     gen_read_csv env ''data/diabetes.csv'' = Inr diabetes \<and>
     list_all (\<lambda>c. c \<in> set (df_columns diabetes)) feature_columns \<and>
     gen_sample env (project_columns diabetes feature_columns) 100 = Inr sample \<and>
     100 \<le> length sample \<and>
     tr = [Read_csv ''data/diabetes.csv'', Dataframe_sample 100, Os_makedirs ''./batch_data'',
           Print ''Folder created!'', Print ''Saving files...'']
          @ map (\<lambda>i. Tofile (''./batch_data/'' @ str_nat (i + 1) @ ''.csv'') (sample ! i) '','')
              [0..<100]
          @ [Print ''files saved!'', Print ''Uploading files to datastore...'',
             Get_default_datastore, Datastore_upload ''batch_data'' ''batch_data'' True,
             Print ''Done!'']"
  using assms unfolding generate_batch_data_cell_def Let_def
  by (auto simp: bind_io_Inr_iff call_Inr_iff method_call_Inr_iff select_columns_Inr_iff
      print_Inr_iff batch_file_path dest!: save_loop_Inr)

lemma map_from_one: "map (\<lambda>i. f (i + 1)) [0..<n] = map f [1..<Suc n]"
proof -
  have "map (\<lambda>i. f (i + 1)) [0..<n] = map f (map Suc [0..<n])" by simp
  also have "map Suc [0..<n] = [1..<Suc n]" by (simp only: map_Suc_upt One_nat_def)
  finally show ?thesis .
qed

lemma batch_file_names_distinct:
  "distinct (map (\<lambda>k. ''./batch_data/'' @ str_nat k @ ''.csv'') [1..<101])"
  by code_simp

lemma save_loop_ok:
  assumes "n \<le> length sample" and "\<forall>ev. gen_lib env ev = None"
  shows "snd (steps (map (save_sample env folder sample) [0..<n])) = Inr ()"
  using assms(1)
proof (induction n)
  case 0
  show ?case by (simp add: ret_def)
next
  case (Suc n)
  then have "snd (steps (map (save_sample env folder sample) [0..<n])) = Inr ()" by simp
  then obtain tr where "steps (map (save_sample env folder sample) [0..<n]) = (tr, Inr ())"
    by (cases "steps (map (save_sample env folder sample) [0..<n])") simp
  moreover from Suc.prems assms(2) have "snd (save_sample env folder sample n) = Inr ()"
    by (simp add: save_sample_def method_call_def call_def)
  ultimately show ?case
    by (cases "save_sample env folder sample n")
      (auto simp: steps_append bind_io_def ret_def split: prod.splits sum.splits)
qed

lemma generate_batch_data_cell_ok:
  assumes "gen_read_csv env ''data/diabetes.csv'' = Inr diabetes"
    and "list_all (\<lambda>c. c \<in> set (df_columns diabetes)) feature_columns"
    and "gen_sample env (project_columns diabetes feature_columns) 100 = Inr sample"
    and "100 \<le> length sample"
    and "\<forall>ev. gen_lib env ev = None"
  shows "snd (generate_batch_data_cell env) = Inr ()"
proof -
  from save_loop_ok [OF assms(4,5), of "''./batch_data''"] obtain tr where
    "steps (map (save_sample env ''./batch_data'' sample) [0..<100]) = (tr, Inr ())"
    by (cases "steps (map (save_sample env ''./batch_data'' sample) [0..<100])") simp
  with assms(1,2,3,5) show ?thesis
    by (simp add: generate_batch_data_cell_def select_columns_def io_defs method_call_def)
qed

text \<open>
  C10. When the batch-data generation cell completes, the files it has written are, in
  order, ./batch_data/1.csv up to ./batch_data/100.csv: one hundred files with one hundred
  different names. The i-th file receives the i-th record of the sample, and the sample is
  drawn from the frame of the eight feature columns, of which the Diabetic label is none.
  When the sampler returns rows of the frame it was given, every written record is the
  projection of a row of the data set onto the eight feature columns, eight values.
\<close>

theorem batch_data_hundred_feature_files:
  assumes "snd (generate_batch_data_cell env) = Inr ()"
    and "gen_read_csv env ''data/diabetes.csv'' = Inr diabetes"
    and "gen_sample env (project_columns diabetes feature_columns) 100 = Inr sample"
  shows "written_files (fst (generate_batch_data_cell env)) =
      map (\<lambda>k. ''./batch_data/'' @ str_nat k @ ''.csv'') [1..<101] \<and>
    length (written_files (fst (generate_batch_data_cell env))) = 100 \<and>
    distinct (written_files (fst (generate_batch_data_cell env))) \<and>
    filter is_Tofile (fst (generate_batch_data_cell env)) =
      map (\<lambda>i. Tofile (''./batch_data/'' @ str_nat (i + 1) @ ''.csv'') (sample ! i) '','')
        [0..<100] \<and>
    df_columns (project_columns diabetes feature_columns) =
      [''Pregnancies'', ''PlasmaGlucose'', ''DiastolicBloodPressure'', ''TricepsThickness'',
       ''SerumInsulin'', ''BMI'', ''DiabetesPedigree'', ''Age''] \<and>
    ''Diabetic'' \<notin> set (df_columns (project_columns diabetes feature_columns)) \<and>
    ((\<forall>r \<in> set sample. r \<in> set (df_rows (project_columns diabetes feature_columns))) \<longrightarrow>
     (\<forall>i < 100. length (sample ! i) = 8 \<and>
        (\<exists>row \<in> set (df_rows diabetes).
           sample ! i = map (\<lambda>c. row ! column_index diabetes c) feature_columns)))"
proof -
  obtain tr where run: "generate_batch_data_cell env = (tr, Inr ())"
    using assms(1) by (cases "generate_batch_data_cell env") simp
  from generate_batch_data_cell_Inr [OF run] assms(2,3)
  have len: "100 \<le> length sample"
    and t: "tr = [Read_csv ''data/diabetes.csv'', Dataframe_sample 100,
           Os_makedirs ''./batch_data'', Print ''Folder created!'', Print ''Saving files...'']
          @ map (\<lambda>i. Tofile (''./batch_data/'' @ str_nat (i + 1) @ ''.csv'') (sample ! i) '','')
              [0..<100]
          @ [Print ''files saved!'', Print ''Uploading files to datastore...'',
             Get_default_datastore, Datastore_upload ''batch_data'' ''batch_data'' True,
             Print ''Done!'']"
    by auto
  have fst_run: "fst (generate_batch_data_cell env) = tr" by (simp add: run)
  have files: "written_files tr = map (\<lambda>k. ''./batch_data/'' @ str_nat k @ ''.csv'') [1..<101]"
    unfolding t
    using map_from_one [of "\<lambda>k. ''./batch_data/'' @ str_nat k @ ''.csv''" 100]
    by (simp add: written_files_append written_files_Tofile)
  have tofiles: "filter is_Tofile tr =
      map (\<lambda>i. Tofile (''./batch_data/'' @ str_nat (i + 1) @ ''.csv'') (sample ! i) '','')
        [0..<100]"
    unfolding t by (simp add: filter_Tofile)
  have records: "length (sample ! i) = 8 \<and>
        (\<exists>row \<in> set (df_rows diabetes).
           sample ! i = map (\<lambda>c. row ! column_index diabetes c) feature_columns)"
    if sub: "\<forall>r \<in> set sample. r \<in> set (df_rows (project_columns diabetes feature_columns))"
      and i: "i < 100" for i
  proof -
    from i len have "sample ! i \<in> set sample" by simp
    with sub have "sample ! i \<in> set (df_rows (project_columns diabetes feature_columns))"
      by blast
    then obtain row where row: "row \<in> set (df_rows diabetes)"
      and eq: "sample ! i = map (\<lambda>c. row ! column_index diabetes c) feature_columns"
      by (auto simp: project_columns_def)
    from eq have "length (sample ! i) = 8" by (simp add: feature_columns_def)
    with row eq show ?thesis by blast
  qed
  show ?thesis
    unfolding fst_run files tofiles
    using batch_file_names_distinct records
    by (simp add: project_columns_def feature_columns_def)
qed

theorem batch_data_hundred_feature_files_witness:
  "snd (generate_batch_data_cell example_batch_data_env) = Inr () \<and>
   gen_read_csv example_batch_data_env ''data/diabetes.csv'' = Inr example_diabetes \<and>
   written_files (fst (generate_batch_data_cell example_batch_data_env)) =
     map (\<lambda>k. ''./batch_data/'' @ str_nat k @ ''.csv'') [1..<101] \<and>
   written_files (fst (generate_batch_data_cell example_batch_data_env)) ! 0 =
     ''./batch_data/1.csv'' \<and>
   written_files (fst (generate_batch_data_cell example_batch_data_env)) ! 99 =
     ''./batch_data/100.csv'' \<and>
   filter is_Tofile (fst (generate_batch_data_cell example_batch_data_env)) ! 4 =
     Tofile ''./batch_data/5.csv'' [4, 4, 4, 4, 4, 4, 4, 4] '','' \<and>
   length (take 100 (df_rows (project_columns example_diabetes feature_columns)) ! 4) = 8"
proof -
  have r: "gen_read_csv example_batch_data_env ''data/diabetes.csv'' = Inr example_diabetes"
    by (simp add: example_batch_data_env_def)
  have sm: "gen_sample example_batch_data_env (project_columns example_diabetes feature_columns)
      100 = Inr (take 100 (df_rows (project_columns example_diabetes feature_columns)))"
    by (simp add: example_batch_data_env_def)
  have cols: "list_all (\<lambda>c. c \<in> set (df_columns example_diabetes)) feature_columns"
    by (simp add: example_diabetes_def feature_columns_def)
  have len: "100 \<le> length (take 100 (df_rows (project_columns example_diabetes
      feature_columns)))"
    by (simp add: project_columns_def example_diabetes_def)
  have lib: "\<forall>ev. gen_lib example_batch_data_env ev = None"
    by (simp add: example_batch_data_env_def)
  have ok: "snd (generate_batch_data_cell example_batch_data_env) = Inr ()"
    by (rule generate_batch_data_cell_ok [OF r cols sm len lib])
  have sub: "\<forall>r \<in> set (take 100 (df_rows (project_columns example_diabetes feature_columns))).
      r \<in> set (df_rows (project_columns example_diabetes feature_columns))"
    by (meson in_set_takeD)
  note t = batch_data_hundred_feature_files [OF ok r sm]
  note files = t [THEN conjunct1]
  note tofiles = t [THEN conjunct2, THEN conjunct2, THEN conjunct2, THEN conjunct1]
  note recs = t [THEN conjunct2, THEN conjunct2, THEN conjunct2, THEN conjunct2,
      THEN conjunct2, THEN conjunct2, THEN mp, OF sub, rule_format, of 4, THEN conjunct1]
  have s1: "str_nat (Suc 0) = ''1''" and s5: "str_nat 5 = ''5''" and s100: "str_nat 100 = ''100''"
    by code_simp+
  have h: "map (\<lambda>k. ''./batch_data/'' @ str_nat k @ ''.csv'') [1..<101] ! 0 =
      ''./batch_data/1.csv''"
    by (simp add: s1)
  have l: "map (\<lambda>k. ''./batch_data/'' @ str_nat k @ ''.csv'') [1..<101] ! 99 =
      ''./batch_data/100.csv''"
    by (simp add: s100)
  have row: "take 100 (df_rows (project_columns example_diabetes feature_columns)) ! 4 =
      [4, 4, 4, 4, 4, 4, 4, 4]"
    by (simp add: project_columns_def example_diabetes_def feature_columns_def
        column_index_def eval_nat_numeral)
  have f: "map (\<lambda>i. Tofile (''./batch_data/'' @ str_nat (i + 1) @ ''.csv'')
        (take 100 (df_rows (project_columns example_diabetes feature_columns)) ! i) '','')
        [0..<100] ! 4 =
      Tofile ''./batch_data/5.csv'' [4, 4, 4, 4, 4, 4, 4, 4] '',''"
    using row s5 by simp
  from recs have n: "length (take 100 (df_rows (project_columns example_diabetes
      feature_columns)) ! 4) = 8"
    by simp
  from ok r files h l f n show ?thesis
    unfolding tofiles files by (intro conjI)
qed

section \<open>Which calls a script can make\<close>

lemma set_fst_bind_io:
  "set (fst (bind_io m f)) \<subseteq> set (fst m) \<union> (\<Union>x. set (fst (f x)))"
proof (cases m)
  case (Pair tr r)
  show ?thesis
  proof (cases r)
    case (Inl e)
    with Pair show ?thesis by (simp add: bind_io_def)
  next
    case (Inr x)
    with Pair have "fst (bind_io m f) = tr @ fst (f x)"
      by (simp add: bind_io_def split: prod.splits)
    with Pair show ?thesis by auto
  qed
qed

lemma set_fst_steps: "set (fst (steps ss)) \<subseteq> (\<Union>s \<in> set ss. set (fst s))"
proof (induction ss)
  case Nil
  show ?case by (simp add: ret_def)
next
  case (Cons s ss)
  have "set (fst (steps (s # ss))) \<subseteq> set (fst s) \<union> set (fst (steps ss))"
    using set_fst_bind_io [of s "\<lambda>_. steps ss"] by auto
  with Cons show ?case by auto
qed

lemma steps_failing_step:
  assumes "snd s = Inl e"
  shows "set (fst (steps (pre @ s # post))) \<subseteq> (\<Union>x \<in> set pre. set (fst x)) \<union> set (fst s)"
proof -
  have "steps (s # post) = (fst s, Inl e)"
    using assms by (cases s) (simp add: bind_io_def)
  then have "set (fst (steps (pre @ s # post))) \<subseteq> set (fst (steps pre)) \<union> set (fst s)"
    using set_fst_bind_io [of "steps pre" "\<lambda>_. steps (s # post)"]
    by (auto simp: steps_append)
  with set_fst_steps [of pre] show ?thesis by blast
qed

lemma fst_method_call: "fst (method_call lib ev) = [ev]"
  by (simp add: method_call_def call_def)

lemma set_fst_lib_call: "set (fst (lib_call names lib n ev)) \<subseteq> {ev}"
  by (simp add: lib_call_def global_name_def bind_io_def ret_def raise_def method_call_def
      call_def)

lemma lib_call_unbound:
  "n \<notin> set names \<Longrightarrow> lib_call names lib n ev = ([], Inl (Exn NameError None))"
  by (simp add: lib_call_def global_name_def bind_io_def raise_def)

lemma fst_print: "fst (print s) = [Print s]"
  by (simp add: print_def call_def)

lemma fst_print_values: "fst (print_values vs) = [Print_values vs]"
  by (simp add: print_values_def call_def)

lemma set_fst_fit:
  "set (fst (bind_io (global_name names n)
      (\<lambda>_. bind_io (py_truediv 1 reg) (\<lambda>C. method_call lib (LogisticRegression_fit C solver)))))
   \<subseteq> {LogisticRegression_fit (1 / reg) solver}"
  by (simp add: global_name_def py_truediv_def bind_io_def ret_def raise_def method_call_def
      call_def)

lemma not_in_bind_io:
  assumes "ev \<notin> set (fst m)" and "\<And>x. ev \<notin> set (fst (f x))"
  shows "ev \<notin> set (fst (bind_io m f))"
  using set_fst_bind_io [of m f] assms by auto

lemma not_in_steps:
  assumes "\<And>s. s \<in> set ss \<Longrightarrow> ev \<notin> set (fst s)"
  shows "ev \<notin> set (fst (steps ss))"
  using set_fst_steps [of ss] assms by auto

lemma not_in_lib_call: "ev' \<noteq> ev \<Longrightarrow> ev' \<notin> set (fst (lib_call names lib n ev))"
  using set_fst_lib_call [of names lib n ev] by auto

lemma not_in_fit:
  "Run_complete \<notin> set (fst (bind_io (global_name names n)
      (\<lambda>_. bind_io (py_truediv 1 reg) (\<lambda>C. method_call lib (LogisticRegression_fit C solver)))))"
  using set_fst_fit [of names n reg lib solver] by auto

lemma not_in_parse_regularization:
  "Run_complete \<notin> set (fst (parse_regularization names lib declared args))"
  unfolding parse_regularization_def
  by (intro not_in_bind_io not_in_lib_call)
    (simp_all add: undeclared_options_def float_option_def ret_def raise_def
      split: option.splits)

lemma train_evaluate_no_complete:
  "s \<in> set (train_evaluate names lib reg) \<Longrightarrow> Run_complete \<notin> set (fst s)"
  by (auto simp: train_evaluate_def fst_method_call fst_print_values not_in_lib_call not_in_fit)

lemma load_by_name_no_complete:
  "s \<in> set (load_by_name names lib d) \<Longrightarrow> Run_complete \<notin> set (fst s)"
  by (auto simp: load_by_name_def fst_print not_in_lib_call)

lemma load_input_dataset_no_complete:
  "s \<in> set (load_input_dataset lib) \<Longrightarrow> Run_complete \<notin> set (fst s)"
  by (auto simp: load_input_dataset_def fst_print fst_method_call)

text \<open>A script that never imports \<open>os\<close> stops at \<open>os.makedirs\<close>: whatever precedes, the
  statements after it, \<open>run.complete()\<close> among them, are never reached.\<close>

lemma no_complete_without_os:
  assumes "''os'' \<notin> set names"
    and "\<And>s. s \<in> set pre \<Longrightarrow> Run_complete \<notin> set (fst s)"
  shows "Run_complete \<notin> set (fst (steps (pre @ save_and_complete names lib folder path)))"
proof -
  have "snd (lib_call names lib ''os'' (Os_makedirs folder)) = Inl (Exn NameError None)"
    and "fst (lib_call names lib ''os'' (Os_makedirs folder)) = []"
    using assms(1) by (simp_all add: lib_call_unbound)
  with steps_failing_step [of "lib_call names lib ''os'' (Os_makedirs folder)" _ pre
      "[lib_call names lib ''joblib'' (Joblib_dump path), method_call lib Run_complete]"]
  have "set (fst (steps (pre @ save_and_complete names lib folder path)))
      \<subseteq> (\<Union>x \<in> set pre. set (fst x))"
    by (simp add: save_and_complete_def)
  with assms(2) show ?thesis by auto
qed

lemma training_scripts_never_complete:
  "Run_complete \<notin> set (fst (diabetes_training_fixed lib args))"
  "Run_complete \<notin> set (fst (diabetes_training_estimator lib args))"
  "Run_complete \<notin> set (fst (diabetes_training_compute lib args))"
  "Run_complete \<notin> set (fst (diabetes_training_hyperdrive lib args))"
proof -
  have pre1: "Run_complete \<notin> set (fst s)"
    if "s \<in> set ([lib_call names lib ''Run'' Run_get_context] @ load_by_name names lib d
        @ train_evaluate names lib reg)" for s names d reg
    using that
    by (auto simp: not_in_lib_call dest: load_by_name_no_complete train_evaluate_no_complete)
  have pre2: "Run_complete \<notin> set (fst s)"
    if "s \<in> set ([lib_call names lib ''Run'' Run_get_context] @ load_input_dataset lib
        @ train_evaluate names lib reg)" for s names reg
    using that
    by (auto simp: not_in_lib_call dest: load_input_dataset_no_complete
        train_evaluate_no_complete)
  show "Run_complete \<notin> set (fst (diabetes_training_fixed lib args))"
    unfolding diabetes_training_fixed_def Let_def train_evaluate_save_def append_assoc [symmetric]
    by (rule no_complete_without_os) (simp add: training_fixed_imports_def, rule pre1, simp)
  show "Run_complete \<notin> set (fst (diabetes_training_estimator lib args))"
    unfolding diabetes_training_estimator_def Let_def train_evaluate_save_def
      append_assoc [symmetric]
    by (intro not_in_bind_io not_in_parse_regularization no_complete_without_os)
      (simp add: training_estimator_imports_def, rule pre2, simp)
  show "Run_complete \<notin> set (fst (diabetes_training_compute lib args))"
    unfolding diabetes_training_compute_def Let_def train_evaluate_save_def
      append_assoc [symmetric]
    by (intro not_in_bind_io not_in_parse_regularization no_complete_without_os)
      (simp add: training_compute_imports_def, rule pre2, simp)
  show "Run_complete \<notin> set (fst (diabetes_training_hyperdrive lib args))"
    unfolding diabetes_training_hyperdrive_def Let_def train_evaluate_save_def
      append_assoc [symmetric]
    by (intro not_in_bind_io not_in_parse_regularization no_complete_without_os)
      (simp add: training_compute_imports_def, rule pre1, simp)
qed

lemma train_diabetes_never_completes:
  "Run_complete \<notin> set (fst (train_diabetes lib args))"
proof -
  have pre: "Run_complete \<notin> set (fst s)"
    if "s \<in> set (load_and_train names lib reg d)" for s names d reg
    using that
    by (auto simp: load_and_train_def not_in_lib_call fst_method_call fst_print_values
        not_in_fit dest: load_by_name_no_complete)
  have os: "''os'' \<notin> set train_diabetes_imports"
    by (simp add: train_diabetes_imports_def)
  show ?thesis
    unfolding train_diabetes_def Let_def
  proof (intro not_in_bind_io not_in_parse_regularization)
    fix reg
    show "Run_complete \<notin> set (fst
        (case str_option args ''--dataset_name'' (Some ''Diabetes Dataset'') of
           None \<Rightarrow> raise (Exn TypeError None)
         | Some dataset_name \<Rightarrow>
             (case str_option args ''--output_folder'' (Some ''diabetes_model'') of
                None \<Rightarrow> raise (Exn TypeError None)
              | Some output_folder \<Rightarrow>
                  steps (load_and_train train_diabetes_imports lib reg dataset_name
                    @ save_and_complete train_diabetes_imports lib output_folder
                        (model_file_in output_folder)))))"
      using no_complete_without_os [OF os pre]
      by (simp add: raise_def split: option.splits)
  qed
qed

section \<open>The run operations of the scripts\<close>

text \<open>
  C7. The claim: in every experiment, training and batch-scoring script,
  \<open>run.complete()\<close> is called exactly once, as the last run operation. The training script
  of Exercise 5 (as those of Exercise 3 Tasks 4 and 5, of Exercise 4 and
  \<open>train_diabetes.py\<close>) never imports \<open>os\<close>. Run with \<open>--regularization 0.1\<close> and every
  library call succeeding, it logs the regularization rate, the accuracy, the AUC and the
  ROC image and then ends with NameError at \<open>os.makedirs\<close>: \<open>run.complete()\<close> is not called.
\<close>

theorem hyperdrive_training_run_never_completed:
  "snd (diabetes_training_hyperdrive all_succeed regularization_tenth) =
     Inl (Exn NameError None) \<and>
   filter is_run_operation (fst (diabetes_training_hyperdrive all_succeed regularization_tenth)) =
     [Run_log ''Regularization Rate'' (PFloat (1 / 10)), Run_log ''Accuracy'' (PVar ''acc''),
      Run_log ''AUC'' (PVar ''auc''), Run_log_image ''ROC'']"
  by code_simp

section \<open>The regularization parameter\<close>

lemmas script_defs = parse_regularization_def train_evaluate_save_def train_evaluate_def
  save_and_complete_def load_by_name_def load_input_dataset_def load_data_folder_def
  load_and_train_def lib_call_def global_name_def method_call_def print_values_def
  py_truediv_def all_succeed_def undeclared_options_def

lemma str_option_required:
  assumes "opt \<in> fst ` set args"
  shows "\<exists>d. str_option args opt None = Some d"
proof -
  from assms have "map_of (rev args) opt \<noteq> None"
    by (simp add: map_of_eq_None_iff)
  then show ?thesis by (auto simp: str_option_def)
qed

lemma str_option_default: "\<exists>d. str_option args opt (Some dflt) = Some d"
  by (simp add: str_option_def split: option.splits)

lemma estimator_fit:
  assumes "list_all (\<lambda>(opt, _). opt \<in> set [''--regularization'']) args"
    and "float_option args ''--regularization'' (1 / 100) = ([], Inr reg)"
  shows "(reg = 0 \<longrightarrow>
      snd (diabetes_training_estimator all_succeed args) = Inl (Exn ZeroDivisionError None) \<and>
      filter is_LogisticRegression_fit (fst (diabetes_training_estimator all_succeed args)) = []) \<and>
    (reg \<noteq> 0 \<longrightarrow>
      filter is_LogisticRegression_fit (fst (diabetes_training_estimator all_succeed args)) =
        [LogisticRegression_fit (1 / reg) ''liblinear''])"
  using assms
  by (simp add: diabetes_training_estimator_def training_estimator_imports_def script_defs
      io_defs)

lemma compute_fit:
  assumes "list_all (\<lambda>(opt, _). opt \<in> set [''--regularization'']) args"
    and "float_option args ''--regularization'' (1 / 100) = ([], Inr reg)"
  shows "(reg = 0 \<longrightarrow>
      snd (diabetes_training_compute all_succeed args) = Inl (Exn ZeroDivisionError None) \<and>
      filter is_LogisticRegression_fit (fst (diabetes_training_compute all_succeed args)) = []) \<and>
    (reg \<noteq> 0 \<longrightarrow>
      filter is_LogisticRegression_fit (fst (diabetes_training_compute all_succeed args)) =
        [LogisticRegression_fit (1 / reg) ''liblinear''])"
  using assms
  by (simp add: diabetes_training_compute_def training_compute_imports_def script_defs io_defs)

lemma hyperdrive_fit:
  assumes "list_all (\<lambda>(opt, _). opt \<in> set [''--regularization'']) args"
    and "float_option args ''--regularization'' (1 / 100) = ([], Inr reg)"
  shows "(reg = 0 \<longrightarrow>
      snd (diabetes_training_hyperdrive all_succeed args) = Inl (Exn ZeroDivisionError None) \<and>
      filter is_LogisticRegression_fit (fst (diabetes_training_hyperdrive all_succeed args)) = []) \<and>
    (reg \<noteq> 0 \<longrightarrow>
      filter is_LogisticRegression_fit (fst (diabetes_training_hyperdrive all_succeed args)) =
        [LogisticRegression_fit (1 / reg) ''liblinear''])"
  using assms
  by (simp add: diabetes_training_hyperdrive_def training_compute_imports_def script_defs io_defs)

lemma datastore_fit:
  assumes "list_all (\<lambda>(opt, _). opt \<in> set [''--regularization'', ''--data-folder'']) args"
    and "float_option args ''--regularization'' (1 / 100) = ([], Inr reg)"
    and "''--data-folder'' \<in> fst ` set args"
  shows "(reg = 0 \<longrightarrow>
      snd (diabetes_training_datastore all_succeed args) = Inl (Exn ZeroDivisionError None) \<and>
      filter is_LogisticRegression_fit (fst (diabetes_training_datastore all_succeed args)) = []) \<and>
    (reg \<noteq> 0 \<longrightarrow>
      filter is_LogisticRegression_fit (fst (diabetes_training_datastore all_succeed args)) =
        [LogisticRegression_fit (1 / reg) ''liblinear''])"
proof -
  from str_option_required [OF assms(3)] obtain d where
    "str_option args ''--data-folder'' None = Some d" ..
  with assms(1,2) show ?thesis
    by (simp add: diabetes_training_datastore_def training_datastore_imports_def script_defs
        io_defs)
qed

lemma train_diabetes_fit:
  assumes "list_all (\<lambda>(opt, _). opt \<in> set [''--dataset_name'', ''--regularization'',
      ''--output_folder'']) args"
    and "float_option args ''--regularization'' (1 / 100) = ([], Inr reg)"
  shows "(reg = 0 \<longrightarrow>
      snd (train_diabetes all_succeed args) = Inl (Exn ZeroDivisionError None) \<and>
      filter is_LogisticRegression_fit (fst (train_diabetes all_succeed args)) = []) \<and>
    (reg \<noteq> 0 \<longrightarrow>
      filter is_LogisticRegression_fit (fst (train_diabetes all_succeed args)) =
        [LogisticRegression_fit (1 / reg) ''liblinear''])"
proof -
  obtain d where d: "str_option args ''--dataset_name'' (Some ''Diabetes Dataset'') = Some d"
    using str_option_default by blast
  obtain f where f: "str_option args ''--output_folder'' (Some ''diabetes_model'') = Some f"
    using str_option_default by blast
  from assms d f show ?thesis
    by (simp add: train_diabetes_def train_diabetes_imports_def script_defs io_defs)
qed

text \<open>
  C9, as stated, fails: the first training script of Exercise 3 sets \<open>reg = 0.01\<close> itself
  and reads no command line. Run with \<open>--regularization 0.0\<close> it fits the model with
  C = 100; no division fails.
\<close>

theorem fixed_rate_script_ignores_regularization_option:
  "filter is_LogisticRegression_fit
     (fst (diabetes_training_fixed all_succeed regularization_zero)) =
     [LogisticRegression_fit 100 ''liblinear''] \<and>
   snd (diabetes_training_fixed all_succeed regularization_zero) \<noteq>
     Inl (Exn ZeroDivisionError None)"
  by code_simp

text \<open>
  C9, amended. Every training script that takes the option \<open>--regularization\<close> (all but
  the first script of Exercise 3, which fixes \<open>reg = 0.01\<close>) computes C as 1/reg with no
  guard against zero, reg being the option's value or, without the option, 0.01. On a
  command line of options that the script declares, with those it cannot do without, and
  with every library call succeeding: when reg is not 0 the model is fitted once, with
  C = 1/reg and the liblinear solver; when reg is 0 the run ends with ZeroDivisionError and
  no model is fitted.
\<close>

theorem regularization_inverse_unguarded:
  assumes "(name, script, declared, required) \<in> set regularization_scripts"
    and "list_all (\<lambda>(opt, _). opt \<in> set declared) args"
    and "list_all (\<lambda>opt. opt \<in> fst ` set args) required"
    and "float_option args ''--regularization'' (1 / 100) = ([], Inr reg)"
  shows "(map_of (rev args) ''--regularization'' = None \<longrightarrow> reg = 1 / 100) \<and>
    (reg = 0 \<longrightarrow>
      snd (script all_succeed args) = Inl (Exn ZeroDivisionError None) \<and>
      filter is_LogisticRegression_fit (fst (script all_succeed args)) = []) \<and>
    (reg \<noteq> 0 \<longrightarrow>
      filter is_LogisticRegression_fit (fst (script all_succeed args)) =
        [LogisticRegression_fit (1 / reg) ''liblinear''])"
proof -
  have dflt: "map_of (rev args) ''--regularization'' = None \<longrightarrow> reg = 1 / 100"
    using assms(4) by (auto simp: float_option_def ret_def)
  from assms(1) have which:
    "name = ''Exercise 3, Task 5: diabetes_training.py'' \<and>
       script = diabetes_training_estimator \<and> declared = [''--regularization''] \<and>
       required = [] \<or>
     name = ''Exercise 3, Task 6: diabetes_training.py'' \<and>
       script = diabetes_training_datastore \<and>
       declared = [''--regularization'', ''--data-folder''] \<and>
       required = [''--data-folder''] \<or>
     name = ''Exercise 4, Task 3: diabetes_training.py'' \<and>
       script = diabetes_training_compute \<and> declared = [''--regularization''] \<and>
       required = [] \<or>
     name = ''Exercise 5, Task 2: diabetes_training.py'' \<and>
       script = diabetes_training_hyperdrive \<and> declared = [''--regularization''] \<and>
       required = [] \<or>
     name = ''Exercise 7, Task 2: train_diabetes.py'' \<and>
       script = train_diabetes \<and>
       declared = [''--dataset_name'', ''--regularization'', ''--output_folder''] \<and>
       required = []"
    unfolding regularization_scripts_def by simp
  have main: "(reg = 0 \<longrightarrow>
      snd (script all_succeed args) = Inl (Exn ZeroDivisionError None) \<and>
      filter is_LogisticRegression_fit (fst (script all_succeed args)) = []) \<and>
    (reg \<noteq> 0 \<longrightarrow>
      filter is_LogisticRegression_fit (fst (script all_succeed args)) =
        [LogisticRegression_fit (1 / reg) ''liblinear''])"
    using which
  proof (elim disjE conjE)
    assume c: "script = diabetes_training_estimator" "declared = [''--regularization'']"
    from assms(2) have "list_all (\<lambda>(opt, _). opt \<in> set [''--regularization'']) args"
      unfolding c .
    from estimator_fit [OF this assms(4)] show ?thesis unfolding c .
  next
    assume c: "script = diabetes_training_datastore"
      "declared = [''--regularization'', ''--data-folder'']" "required = [''--data-folder'']"
    from assms(2) have d: "list_all (\<lambda>(opt, _). opt \<in> set [''--regularization'',
        ''--data-folder'']) args"
      unfolding c .
    from assms(3) have r: "''--data-folder'' \<in> fst ` set args"
      unfolding c by simp
    from datastore_fit [OF d assms(4) r] show ?thesis unfolding c .
  next
    assume c: "script = diabetes_training_compute" "declared = [''--regularization'']"
    from assms(2) have "list_all (\<lambda>(opt, _). opt \<in> set [''--regularization'']) args"
      unfolding c .
    from compute_fit [OF this assms(4)] show ?thesis unfolding c .
  next
    assume c: "script = diabetes_training_hyperdrive" "declared = [''--regularization'']"
    from assms(2) have "list_all (\<lambda>(opt, _). opt \<in> set [''--regularization'']) args"
      unfolding c .
    from hyperdrive_fit [OF this assms(4)] show ?thesis unfolding c .
  next
    assume c: "script = train_diabetes"
      "declared = [''--dataset_name'', ''--regularization'', ''--output_folder'']"
    from assms(2) have "list_all (\<lambda>(opt, _). opt \<in> set [''--dataset_name'',
        ''--regularization'', ''--output_folder'']) args"
      unfolding c .
    from train_diabetes_fit [OF this assms(4)] show ?thesis unfolding c .
  qed
  from dflt main show ?thesis by (rule conjI)
qed

theorem regularization_inverse_unguarded_witness:
  "(''Exercise 5, Task 2: diabetes_training.py'', diabetes_training_hyperdrive,
      [''--regularization''], []) \<in> set regularization_scripts \<and>
   float_option regularization_zero ''--regularization'' (1 / 100) = ([], Inr 0) \<and>
   snd (diabetes_training_hyperdrive all_succeed regularization_zero) =
     Inl (Exn ZeroDivisionError None) \<and>
   float_option regularization_tenth ''--regularization'' (1 / 100) = ([], Inr (1 / 10)) \<and>
   filter is_LogisticRegression_fit
     (fst (diabetes_training_hyperdrive all_succeed regularization_tenth)) =
     [LogisticRegression_fit 10 ''liblinear''] \<and>
   float_option [] ''--regularization'' (1 / 100) = ([], Inr (1 / 100)) \<and>
   filter is_LogisticRegression_fit (fst (diabetes_training_hyperdrive all_succeed [])) =
     [LogisticRegression_fit 100 ''liblinear'']"
proof -
  have m: "(''Exercise 5, Task 2: diabetes_training.py'', diabetes_training_hyperdrive,
      [''--regularization''], []) \<in> set regularization_scripts"
    by (simp add: regularization_scripts_def)
  have d0: "list_all (\<lambda>(opt, _). opt \<in> set [''--regularization'']) regularization_zero"
    and d1: "list_all (\<lambda>(opt, _). opt \<in> set [''--regularization'']) regularization_tenth"
    and d2: "list_all (\<lambda>(opt, _). opt \<in> set [''--regularization'']) []"
    by (simp_all add: regularization_zero_def regularization_tenth_def)
  have r0: "list_all (\<lambda>opt. opt \<in> fst ` set regularization_zero) []"
    and r1: "list_all (\<lambda>opt. opt \<in> fst ` set regularization_tenth) []"
    and r2: "list_all (\<lambda>opt. opt \<in> fst ` set ([] :: argv)) []"
    by simp_all
  have f0: "float_option regularization_zero ''--regularization'' (1 / 100) = ([], Inr 0)"
    and f1: "float_option regularization_tenth ''--regularization'' (1 / 100) =
      ([], Inr (1 / 10))"
    and f2: "float_option [] ''--regularization'' (1 / 100) = ([], Inr (1 / 100))"
    by (simp_all add: float_option_def regularization_zero_def regularization_tenth_def
        ret_def)
  note t0 = regularization_inverse_unguarded [OF m d0 r0 f0]
  note t1 = regularization_inverse_unguarded [OF m d1 r1 f1]
  note t2 = regularization_inverse_unguarded [OF m d2 r2 f2]
  from t0 have a: "snd (diabetes_training_hyperdrive all_succeed regularization_zero) =
     Inl (Exn ZeroDivisionError None)"
    by simp
  from t1 have b: "filter is_LogisticRegression_fit
     (fst (diabetes_training_hyperdrive all_succeed regularization_tenth)) =
     [LogisticRegression_fit 10 ''liblinear'']"
    by simp
  from t2 have c: "filter is_LogisticRegression_fit
     (fst (diabetes_training_hyperdrive all_succeed [])) =
     [LogisticRegression_fit 100 ''liblinear'']"
    by simp
  from m f0 a f1 b f2 c show ?thesis by (intro conjI)
qed

section \<open>Nothing follows run.complete()\<close>

lemma completes_last_never: "Run_complete \<notin> set (fst m) \<Longrightarrow> completes_last m"
  by (auto simp: completes_last_def)

lemma completes_last_method_call: "completes_last (method_call lib Run_complete)"
  unfolding completes_last_def by (rule exI [of _ "[]"]) (simp add: fst_method_call)

lemma completes_last_bind_io:
  assumes "Run_complete \<notin> set (fst m)" and "\<And>x. completes_last (f x)"
  shows "completes_last (bind_io m f)"
proof (cases m)
  case (Pair tr r)
  show ?thesis
  proof (cases r)
    case (Inl e)
    with Pair assms(1) show ?thesis
      by (simp add: bind_io_def completes_last_never)
  next
    case (Inr x)
    from assms(2) [of x] obtain tr' where
      tr': "Run_complete \<notin> set tr'" "fst (f x) = tr' \<or> fst (f x) = tr' @ [Run_complete]"
      by (auto simp: completes_last_def)
    from Pair Inr have "fst (bind_io m f) = tr @ fst (f x)"
      by (simp add: bind_io_def split: prod.splits)
    with tr' Pair assms(1) show ?thesis
      unfolding completes_last_def by (intro exI [of _ "tr @ tr'"]) auto
  qed
qed

lemma completes_last_steps:
  assumes "\<And>s. s \<in> set pre \<Longrightarrow> Run_complete \<notin> set (fst s)"
  shows "completes_last (steps (pre @ [method_call lib Run_complete]))"
proof -
  have "steps [method_call lib Run_complete] = method_call lib Run_complete"
    by (cases "lib Run_complete") (simp_all add: method_call_def call_def bind_io_def ret_def)
  then have "steps (pre @ [method_call lib Run_complete]) =
      bind_io (steps pre) (\<lambda>_. method_call lib Run_complete)"
    by (simp add: steps_append)
  with not_in_steps [of pre Run_complete] assms completes_last_method_call show ?thesis
    by (simp add: completes_last_bind_io)
qed

lemma ends_with_complete:
  assumes "completes_last m" and "Run_complete \<in> set (fst m)"
  shows "fst m \<noteq> [] \<and> last (fst m) = Run_complete \<and>
    filter (\<lambda>ev. ev = Run_complete) (fst m) = [Run_complete]"
proof -
  from assms obtain tr where "Run_complete \<notin> set tr" "fst m = tr @ [Run_complete]"
    by (auto simp: completes_last_def)
  then show ?thesis by (auto simp: filter_empty_conv)
qed

lemma not_in_named_call:
  "ev' \<noteq> ev \<Longrightarrow> ev' \<notin> set (fst (named_call names n ev outcome))"
  by (simp add: named_call_def global_name_def bind_io_def ret_def raise_def call_def)

lemma not_in_ret: "ev \<notin> set (fst (ret x))"
  by (simp add: ret_def)

lemma not_in_genfromtxt_all:
  "Run_complete \<notin> set (fst (genfromtxt_all names env fs))"
proof (induction fs)
  case Nil
  show ?case by (simp add: ret_def)
next
  case (Cons f fs)
  show ?case
    unfolding genfromtxt_all.simps
    by (intro not_in_bind_io not_in_named_call not_in_ret Cons) simp
qed


lemma not_in_global_name: "ev \<notin> set (fst (global_name names n))"
  by (simp add: global_name_def ret_def raise_def)

lemma not_in_write_result:
  "Run_complete \<notin> set (fst (write_result names env path fns preds i))"
  by (simp add: write_result_def global_name_def bind_io_def ret_def raise_def method_call_def
      call_def)

lemma not_in_with_open:
  assumes "Run_complete \<notin> set (fst body)"
  shows "Run_complete \<notin> set (fst (with_open lib path mode body))"
proof (cases body)
  case (Pair tr r)
  with assms show ?thesis
    by (cases r; cases "lib (File_open path mode)"; cases "lib (File_close path)")
      (simp_all add: with_open_def bind_io_def method_call_def call_def ret_def)
qed

lemma not_in_method_call: "ev' \<noteq> ev \<Longrightarrow> ev' \<notin> set (fst (method_call lib ev))"
  by (simp add: fst_method_call)

lemma not_in_call: "ev' \<noteq> ev \<Longrightarrow> ev' \<notin> set (fst (call ev outcome))"
  by (simp add: call_def)

lemma not_in_undeclared_options: "ev \<notin> set (fst (undeclared_options declared args))"
  by (simp add: undeclared_options_def ret_def raise_def)

lemma score_files_completes_last: "completes_last (score_files env input_dir)"
  unfolding score_files_def Let_def
  by (intro completes_last_bind_io completes_last_method_call not_in_lib_call
      not_in_named_call not_in_global_name not_in_genfromtxt_all not_in_with_open
      not_in_bind_io not_in_steps not_in_method_call not_in_call)
    (auto simp: not_in_write_result)

lemma batch_diabetes_completes_last: "completes_last (batch_diabetes env args)"
  unfolding batch_diabetes_def Let_def
  by (intro completes_last_bind_io not_in_lib_call not_in_undeclared_options)
    (simp_all add: score_files_completes_last completes_last_never raise_def
      split: option.splits)

lemma load_data_folder_no_complete:
  "s \<in> set (load_data_folder names lib d) \<Longrightarrow> Run_complete \<notin> set (fst s)"
proof -
  have "Run_complete \<notin> set (fst (bind_io (global_name names ''pd'')
      (\<lambda>_. bind_io (global_name names ''os'')
         (\<lambda>_. case d of
                 None \<Rightarrow> raise (Exn TypeError None)
               | Some f \<Rightarrow> method_call lib (Read_csv (os_path_join f ''diabetes.csv''))))))"
    by (intro not_in_bind_io not_in_global_name)
      (simp add: raise_def fst_method_call split: option.splits)
  then show "s \<in> set (load_data_folder names lib d) \<Longrightarrow> Run_complete \<notin> set (fst s)"
    by (auto simp: load_data_folder_def fst_print_values)
qed

lemma diabetes_training_datastore_completes_last:
  "completes_last (diabetes_training_datastore lib args)"
proof -
  have "completes_last (steps ([lib_call names lib ''Run'' Run_get_context]
      @ load_data_folder names lib d @ train_evaluate_save names lib reg))" for names d reg
  proof -
    have eq: "[lib_call names lib ''Run'' Run_get_context] @ load_data_folder names lib d
        @ train_evaluate_save names lib reg =
      ([lib_call names lib ''Run'' Run_get_context] @ load_data_folder names lib d
        @ train_evaluate names lib reg
        @ [lib_call names lib ''os'' (Os_makedirs ''outputs''),
           lib_call names lib ''joblib'' (Joblib_dump ''outputs/diabetes_model.pkl'')])
      @ [method_call lib Run_complete]"
      by (simp add: train_evaluate_save_def save_and_complete_def)
    have pre: "Run_complete \<notin> set (fst s)"
      if "s \<in> set ([lib_call names lib ''Run'' Run_get_context] @ load_data_folder names lib d
        @ train_evaluate names lib reg
        @ [lib_call names lib ''os'' (Os_makedirs ''outputs''),
           lib_call names lib ''joblib'' (Joblib_dump ''outputs/diabetes_model.pkl'')])" for s
      using that
      by (auto simp: not_in_lib_call
          dest: load_data_folder_no_complete train_evaluate_no_complete)
    show ?thesis
      unfolding eq by (rule completes_last_steps) (rule pre)
  qed
  then show ?thesis
    unfolding diabetes_training_datastore_def Let_def
    by (intro completes_last_bind_io not_in_parse_regularization)
qed

lemma register_diabetes_completes_last: "completes_last (register_diabetes lib args)"
proof -
  have "completes_last (steps
      ([lib_call names lib ''Run'' Run_get_context, print p,
        lib_call names lib ''joblib'' (Joblib_load f),
        lib_call names lib ''Model'' (Model_register f n tags)]
       @ [method_call lib Run_complete]))" for names p f n tags
    by (rule completes_last_steps) (auto simp: not_in_lib_call fst_print)
  then show ?thesis
    unfolding register_diabetes_def Let_def
    by (intro completes_last_bind_io not_in_lib_call not_in_undeclared_options)
      (simp_all add: completes_last_never raise_def split: option.splits)
qed

lemma not_in_box_plot: "Run_complete \<notin> set (fst (box_plot names lib col))"
  unfolding box_plot_def
  by (rule not_in_steps) (auto simp: not_in_lib_call fst_method_call)

lemma not_in_log_age_row: "Run_complete \<notin> set (fst (log_age_row lib ages pedigrees i))"
  by (simp add: log_age_row_def fst_method_call raise_def)

lemma diabetes_experiment_completes_last: "completes_last (diabetes_experiment env)"
  unfolding diabetes_experiment_def Let_def case_prod_beta
  by (intro completes_last_bind_io completes_last_method_call not_in_lib_call
      not_in_named_call not_in_steps not_in_method_call not_in_call)
    (auto simp: not_in_box_plot not_in_log_age_row)

text \<open>Every script that the notebooks write: on every run, whatever the libraries do,
  \<open>run.complete()\<close> is called at most once and no call of any kind follows it.\<close>

lemma scripts_complete_last:
  "completes_last (diabetes_experiment eenv)"
  "completes_last (diabetes_training_fixed lib args)"
  "completes_last (diabetes_training_estimator lib args)"
  "completes_last (diabetes_training_datastore lib args)"
  "completes_last (diabetes_training_compute lib args)"
  "completes_last (diabetes_training_hyperdrive lib args)"
  "completes_last (train_diabetes lib args)"
  "completes_last (register_diabetes lib args)"
  "completes_last (batch_diabetes benv args)"
  by (simp_all add: diabetes_experiment_completes_last training_scripts_never_complete
      train_diabetes_never_completes completes_last_never
      diabetes_training_datastore_completes_last register_diabetes_completes_last
      batch_diabetes_completes_last)

section \<open>A completed run has called run.complete()\<close>

lemma cws_bind_io:
  assumes "\<And>x. completes_when_successful (f x)"
  shows "completes_when_successful (bind_io m f)"
proof (cases m)
  case (Pair tr r)
  show ?thesis
  proof (cases r)
    case (Inl e)
    with Pair show ?thesis by (simp add: completes_when_successful_def bind_io_def)
  next
    case (Inr x)
    with Pair assms [of x] show ?thesis
      by (cases "f x") (auto simp: completes_when_successful_def bind_io_def)
  qed
qed

lemma cws_method_call: "completes_when_successful (method_call lib Run_complete)"
  by (simp add: completes_when_successful_def fst_method_call)

lemma cws_raise: "completes_when_successful (raise e)"
  by (simp add: completes_when_successful_def raise_def)

lemma cws_steps: "completes_when_successful (steps (pre @ [method_call lib Run_complete]))"
proof -
  have "steps [method_call lib Run_complete] = method_call lib Run_complete"
    by (cases "lib Run_complete") (simp_all add: method_call_def call_def bind_io_def ret_def)
  then show ?thesis
    by (simp add: steps_append cws_bind_io cws_method_call)
qed

lemma score_files_cws: "completes_when_successful (score_files env input_dir)"
  unfolding score_files_def Let_def
  by (intro cws_bind_io cws_method_call)

lemma batch_diabetes_cws: "completes_when_successful (batch_diabetes env args)"
  unfolding batch_diabetes_def Let_def
  by (intro cws_bind_io) (simp add: cws_raise score_files_cws split: option.splits)

lemma diabetes_training_datastore_cws:
  "completes_when_successful (diabetes_training_datastore lib args)"
proof -
  have "completes_when_successful (steps ([lib_call names lib ''Run'' Run_get_context]
      @ load_data_folder names lib d @ train_evaluate_save names lib reg))" for names d reg
  proof -
    have eq: "[lib_call names lib ''Run'' Run_get_context] @ load_data_folder names lib d
        @ train_evaluate_save names lib reg =
      ([lib_call names lib ''Run'' Run_get_context] @ load_data_folder names lib d
        @ train_evaluate names lib reg
        @ [lib_call names lib ''os'' (Os_makedirs ''outputs''),
           lib_call names lib ''joblib'' (Joblib_dump ''outputs/diabetes_model.pkl'')])
      @ [method_call lib Run_complete]"
      by (simp add: train_evaluate_save_def save_and_complete_def)
    show ?thesis unfolding eq by (rule cws_steps)
  qed
  then show ?thesis
    unfolding diabetes_training_datastore_def Let_def by (intro cws_bind_io)
qed

lemma register_diabetes_cws: "completes_when_successful (register_diabetes lib args)"
proof -
  have "completes_when_successful (steps
      ([lib_call names lib ''Run'' Run_get_context, print p,
        lib_call names lib ''joblib'' (Joblib_load f),
        lib_call names lib ''Model'' (Model_register f n tags)]
       @ [method_call lib Run_complete]))" for names p f n tags
    by (rule cws_steps)
  then show ?thesis
    unfolding register_diabetes_def Let_def
    by (intro cws_bind_io) (simp add: cws_raise split: option.splits)
qed

lemma diabetes_experiment_cws: "completes_when_successful (diabetes_experiment env)"
  unfolding diabetes_experiment_def Let_def case_prod_beta
  by (intro cws_bind_io cws_method_call)

text \<open>The scripts that import what they use (the experiment script, the training script of
  Exercise 3 Task 6, the registration script and the batch scoring script): a run that
  ends without an exception has called \<open>run.complete()\<close> exactly once, as its last call.\<close>

lemma completed_runs_end_with_complete:
  "snd (diabetes_experiment eenv) = Inr () \<Longrightarrow>
     last (fst (diabetes_experiment eenv)) = Run_complete \<and>
     filter (\<lambda>ev. ev = Run_complete) (fst (diabetes_experiment eenv)) = [Run_complete]"
  "snd (diabetes_training_datastore lib args) = Inr () \<Longrightarrow>
     last (fst (diabetes_training_datastore lib args)) = Run_complete \<and>
     filter (\<lambda>ev. ev = Run_complete) (fst (diabetes_training_datastore lib args)) =
       [Run_complete]"
  "snd (register_diabetes lib args) = Inr () \<Longrightarrow>
     last (fst (register_diabetes lib args)) = Run_complete \<and>
     filter (\<lambda>ev. ev = Run_complete) (fst (register_diabetes lib args)) = [Run_complete]"
  "snd (batch_diabetes benv args) = Inr () \<Longrightarrow>
     last (fst (batch_diabetes benv args)) = Run_complete \<and>
     filter (\<lambda>ev. ev = Run_complete) (fst (batch_diabetes benv args)) = [Run_complete]"
  using ends_with_complete [OF diabetes_experiment_completes_last, of eenv]
    ends_with_complete [OF diabetes_training_datastore_completes_last, of lib args]
    ends_with_complete [OF register_diabetes_completes_last, of lib args]
    ends_with_complete [OF batch_diabetes_completes_last, of benv args]
    diabetes_experiment_cws [of eenv] diabetes_training_datastore_cws [of lib args]
    register_diabetes_cws [of lib args] batch_diabetes_cws [of benv args]
  by (simp_all add: completes_when_successful_def)

section \<open>Properties of the hyperparameter sweep\<close>

lemma steps_method_calls_prefix:
  "\<exists>rest. fst (steps (map (method_call lib) evs)) @ rest = evs"
proof (induction evs)
  case Nil
  show ?case by (simp add: ret_def)
next
  case (Cons ev evs)
  then obtain rest where rest: "fst (steps (map (method_call lib) evs)) @ rest = evs"
    by blast
  show ?case
  proof (cases "lib ev")
    case None
    then have "fst (steps (map (method_call lib) (ev # evs))) =
        ev # fst (steps (map (method_call lib) evs))"
      by (cases "steps (map (method_call lib) evs)")
        (simp add: method_call_def [of lib ev] call_def bind_io_def)
    with rest have "fst (steps (map (method_call lib) (ev # evs))) @ rest = ev # evs"
      by simp
    then show ?thesis ..
  next
    case (Some e)
    then have "fst (steps (map (method_call lib) (ev # evs))) = [ev]"
      by (simp add: method_call_def [of lib ev] call_def bind_io_def)
    then show ?thesis by simp
  qed
qed

lemma steps_method_calls_all_succeed:
  "steps (map (method_call all_succeed) evs) = (evs, Inr ())"
proof (induction evs)
  case Nil
  show ?case by (simp add: ret_def)
next
  case (Cons ev evs)
  have "method_call all_succeed ev = ([ev], Inr ())"
    by (simp add: method_call_def call_def all_succeed_def)
  with Cons show ?case by (simp add: bind_io_def)
qed

text \<open>
  C4. The configuration that the cell submits has a grid over the six values 0.001, 0.005,
  0.01, 0.05, 0.1 and 1.0 of the single parameter \<open>--regularization\<close> as its sampling, a
  bandit policy with the two arguments \<open>evaluation_interval = 2\<close> and \<open>slack_factor = 0.1\<close> as
  its policy, AUC as the primary metric, to be maximized, and \<open>max_total_runs = 6\<close>, the
  number of grid points; what remains of it is the estimator and \<open>max_concurrent_runs = 4\<close>.
  Whatever the service does, the cell only builds these objects, submits the configuration
  once and shows the run: it samples nothing and stops no run itself.
\<close>

theorem hyperdrive_supplies_grid_and_bandit_thresholds:
  "hyperparameter_sampling (hyperdrive experiment_folder cpu_cluster) =
     GridParameterSampling
       [(''--regularization'', choice [1 / 1000, 5 / 1000, 1 / 100, 5 / 100, 1 / 10, 1])] \<and>
   map fst (sampling_space (hyperparameter_sampling (hyperdrive experiment_folder cpu_cluster))) =
     [''--regularization''] \<and>
   grid_points (sampling_space (hyperparameter_sampling (hyperdrive experiment_folder cpu_cluster))) =
     map (\<lambda>v. [(''--regularization'', v)]) [1 / 1000, 5 / 1000, 1 / 100, 5 / 100, 1 / 10, 1] \<and>
   distinct [1 / 1000, 5 / 1000, 1 / 100, 5 / 100, 1 / 10, 1 :: rat] \<and>
   policy_arguments (policy (hyperdrive experiment_folder cpu_cluster)) =
     [(''evaluation_interval'', PInt 2), (''slack_factor'', PFloat (1 / 10))] \<and>
   primary_metric_name (hyperdrive experiment_folder cpu_cluster) = ''AUC'' \<and>
   primary_metric_goal (hyperdrive experiment_folder cpu_cluster) = MAXIMIZE \<and>
   max_total_runs (hyperdrive experiment_folder cpu_cluster) = 6 \<and>
   max_total_runs (hyperdrive experiment_folder cpu_cluster) =
     length (grid_points
       (sampling_space (hyperparameter_sampling (hyperdrive experiment_folder cpu_cluster)))) \<and>
   max_concurrent_runs (hyperdrive experiment_folder cpu_cluster) = 4 \<and>
   estimator (hyperdrive experiment_folder cpu_cluster) =
     hyper_estimator experiment_folder cpu_cluster \<and>
   (\<exists>not_reached. fst (hyperdrive_cell lib experiment_folder cpu_cluster) @ not_reached =
      [Lib ''choice'', Lib ''GridParameterSampling'', Lib ''BanditPolicy'', Lib ''SKLearn'',
       Lib ''HyperDriveConfig'',
       Experiment_submit_hyperdrive (hyperdrive experiment_folder cpu_cluster),
       Lib ''RunDetails'', RunDetails_show]) \<and>
   hyperdrive_cell all_succeed experiment_folder cpu_cluster =
     ([Lib ''choice'', Lib ''GridParameterSampling'', Lib ''BanditPolicy'', Lib ''SKLearn'',
       Lib ''HyperDriveConfig'',
       Experiment_submit_hyperdrive (hyperdrive experiment_folder cpu_cluster),
       Lib ''RunDetails'', RunDetails_show], Inr ())"
proof -
  have cfg: "hyperparameter_sampling (hyperdrive experiment_folder cpu_cluster) = params"
    "policy (hyperdrive experiment_folder cpu_cluster) = bandit_policy"
    "primary_metric_name (hyperdrive experiment_folder cpu_cluster) = ''AUC''"
    "primary_metric_goal (hyperdrive experiment_folder cpu_cluster) = MAXIMIZE"
    "max_total_runs (hyperdrive experiment_folder cpu_cluster) = 6"
    "max_concurrent_runs (hyperdrive experiment_folder cpu_cluster) = 4"
    "estimator (hyperdrive experiment_folder cpu_cluster) =
       hyper_estimator experiment_folder cpu_cluster"
    by (simp_all add: hyperdrive_def)
  have calls: "\<exists>not_reached. fst (hyperdrive_cell lib experiment_folder cpu_cluster) @ not_reached =
      hyperdrive_calls experiment_folder cpu_cluster"
    unfolding hyperdrive_cell_def by (rule steps_method_calls_prefix)
  have ok: "hyperdrive_cell all_succeed experiment_folder cpu_cluster =
      (hyperdrive_calls experiment_folder cpu_cluster, Inr ())"
    unfolding hyperdrive_cell_def by (rule steps_method_calls_all_succeed)
  show ?thesis
    unfolding cfg using calls ok
    by (simp add: params_def bandit_policy_def hyperdrive_calls_def)
qed

section \<open>Properties of the training pipeline\<close>

lemma bind_io_failing: "snd m = Inl e \<Longrightarrow> bind_io m f = (fst m, Inl e)"
  by (cases m) (simp add: bind_io_def)

lemma bind_io_fails:
  assumes "\<And>x. \<exists>e. snd (f x) = Inl e"
  shows "\<exists>e. snd (bind_io m f) = Inl e"
proof (cases m)
  case (Pair tr r)
  show ?thesis
  proof (cases r)
    case (Inl e)
    with Pair show ?thesis by (simp add: bind_io_def)
  next
    case (Inr x)
    with Pair assms [of x] show ?thesis
      by (cases "f x") (auto simp: bind_io_def)
  qed
qed

lemma steps_without_os:
  assumes "''os'' \<notin> set names"
  shows "\<exists>e. snd (steps (pre @ save_and_complete names lib folder path)) = Inl e"
    and "set (fst (steps (pre @ save_and_complete names lib folder path)))
      \<subseteq> (\<Union>x \<in> set pre. set (fst x))"
proof -
  have os: "lib_call names lib ''os'' (Os_makedirs folder) = ([], Inl (Exn NameError None))"
    using assms by (rule lib_call_unbound)
  then have "steps (save_and_complete names lib folder path) = ([], Inl (Exn NameError None))"
    by (simp add: save_and_complete_def bind_io_def)
  then show "\<exists>e. snd (steps (pre @ save_and_complete names lib folder path)) = Inl e"
    unfolding steps_append by (intro bind_io_fails) simp
  from os steps_failing_step [of "lib_call names lib ''os'' (Os_makedirs folder)" _ pre
      "[lib_call names lib ''joblib'' (Joblib_dump path), method_call lib Run_complete]"]
  show "set (fst (steps (pre @ save_and_complete names lib folder path)))
      \<subseteq> (\<Union>x \<in> set pre. set (fst x))"
    by (simp add: save_and_complete_def)
qed

lemma train_diabetes_fails: "\<exists>e. snd (train_diabetes lib args) = Inl e"
proof -
  have os: "''os'' \<notin> set train_diabetes_imports"
    by (simp add: train_diabetes_imports_def)
  show ?thesis
    unfolding train_diabetes_def Let_def
  proof (rule bind_io_fails)
    fix reg
    show "\<exists>e. snd
        (case str_option args ''--dataset_name'' (Some ''Diabetes Dataset'') of
           None \<Rightarrow> raise (Exn TypeError None)
         | Some dataset_name \<Rightarrow>
             (case str_option args ''--output_folder'' (Some ''diabetes_model'') of
                None \<Rightarrow> raise (Exn TypeError None)
              | Some output_folder \<Rightarrow>
                  steps (load_and_train train_diabetes_imports lib reg dataset_name
                    @ save_and_complete train_diabetes_imports lib output_folder
                        (model_file_in output_folder)))) = Inl e"
      using steps_without_os(1) [OF os]
      by (simp add: raise_def split: option.splits)
  qed
qed

lemma train_diabetes_calls:
  assumes "\<not> is_training_call ev"
  shows "ev \<notin> set (fst (train_diabetes lib args))"
proof -
  have neq: "ev \<noteq> Lib s" "ev \<noteq> Print s" "ev \<noteq> Print_values vs" "ev \<noteq> Run_get_context"
    "ev \<noteq> Run_log n v" "ev \<noteq> LogisticRegression_fit C solver" for s vs n v C solver
    using assms by auto
  have fit: "ev \<notin> set (fst (bind_io (global_name names n)
      (\<lambda>_. bind_io (py_truediv 1 reg)
         (\<lambda>C. method_call lib (LogisticRegression_fit C solver)))))" for names n reg solver
    using set_fst_fit [of names n reg lib solver] neq(6) [of "1 / reg" solver] by blast
  have pre: "ev \<notin> set (fst s)"
    if "s \<in> set (load_and_train names lib reg d)" for s names d reg
    using that neq fit
    by (auto simp: load_and_train_def load_by_name_def not_in_lib_call fst_method_call
        fst_print fst_print_values)
  have parse: "ev \<notin> set (fst (parse_regularization names lib declared args))"
    for names declared
    unfolding parse_regularization_def
    by (intro not_in_bind_io not_in_lib_call)
      (simp_all add: neq undeclared_options_def float_option_def ret_def raise_def
        split: option.splits)
  have os: "''os'' \<notin> set train_diabetes_imports"
    by (simp add: train_diabetes_imports_def)
  have saved: "ev \<notin> set (fst (steps (load_and_train train_diabetes_imports lib reg d
      @ save_and_complete train_diabetes_imports lib folder path)))" for reg d folder path
    using steps_without_os(2) [OF os, of "load_and_train train_diabetes_imports lib reg d"
        lib folder path] pre
    by auto
  show ?thesis
    unfolding train_diabetes_def Let_def
  proof (intro not_in_bind_io parse)
    fix reg
    show "ev \<notin> set (fst
        (case str_option args ''--dataset_name'' (Some ''Diabetes Dataset'') of
           None \<Rightarrow> raise (Exn TypeError None)
         | Some dataset_name \<Rightarrow>
             (case str_option args ''--output_folder'' (Some ''diabetes_model'') of
                None \<Rightarrow> raise (Exn TypeError None)
              | Some output_folder \<Rightarrow>
                  steps (load_and_train train_diabetes_imports lib reg dataset_name
                    @ save_and_complete train_diabetes_imports lib output_folder
                        (model_file_in output_folder)))))"
      using saved by (simp add: raise_def split: option.splits)
  qed
qed

text \<open>The wiring of the two steps: one object is the output of the training step and the
  input of the registration step, and stands after \<open>--output_folder\<close> on the one command
  line and after \<open>--model_folder\<close> on the other. Whatever path the service gives it, the
  file that the registration script loads is the file that the training script is to
  write.\<close>

lemma model_folder_shared:
  "outputs (train_step experiment_folder cpu_cluster model_folder) = [model_folder]"
  "inputs (register_step experiment_folder cpu_cluster model_folder) = [model_folder]"
  "options (map (materialize mount)
      (arguments (train_step experiment_folder cpu_cluster model_folder))) =
     Some [(''--dataset_name'', \<lparr>tok_text = ''Diabetes Dataset'', tok_float = None\<rparr>),
           (''--regularization'', \<lparr>tok_text = ''0.1'', tok_float = Some (1 / 10)\<rparr>),
           (''--output_folder'', mount model_folder)]"
  "options (map (materialize mount)
      (arguments (register_step experiment_folder cpu_cluster model_folder))) =
     Some [(''--model_folder'', mount model_folder)]"
  by (simp_all add: train_step_def register_step_def str_arg_def)

lemma model_file_shared:
  "map_option model_file_in
     (str_option [(''--dataset_name'', \<lparr>tok_text = ''Diabetes Dataset'', tok_float = None\<rparr>),
        (''--regularization'', \<lparr>tok_text = ''0.1'', tok_float = Some (1 / 10)\<rparr>),
        (''--output_folder'', mount model_folder)] ''--output_folder'' (Some ''diabetes_model'')) =
   map_option model_file_in
     (str_option [(''--model_folder'', mount model_folder)] ''--model_folder''
        (Some ''diabetes_model''))"
  by (simp add: str_option_def)

lemma register_depends_on_train:
  "depends_on (register_step experiment_folder cpu_cluster model_folder)
     (train_step experiment_folder cpu_cluster model_folder)"
  "\<not> depends_on (train_step experiment_folder cpu_cluster model_folder) s"
  "\<not> depends_on (register_step experiment_folder cpu_cluster model_folder)
     (register_step experiment_folder cpu_cluster model_folder)"
  by (simp_all add: depends_on_def train_step_def register_step_def)

lemma register_waits_for_train:
  "ready (pipeline_steps experiment_folder cpu_cluster model_folder) completed
     (register_step experiment_folder cpu_cluster model_folder) \<longleftrightarrow>
   ''Train Model'' \<in> set completed"
  "ready (pipeline_steps experiment_folder cpu_cluster model_folder) completed
     (train_step experiment_folder cpu_cluster model_folder)"
  by (simp_all add: ready_def pipeline_steps_def register_depends_on_train)
    (simp add: train_step_def)

text \<open>Whatever the scripts are: the service runs the training step and, when that has
  completed, the registration step.\<close>

lemma pipeline_runs_train_then_register:
  "run_pipeline scripts libs mount (pipeline_steps experiment_folder cpu_cluster model_folder) =
     bind_io (run_step scripts libs mount (train_step experiment_folder cpu_cluster model_folder))
       (\<lambda>_. bind_io
          (run_step scripts libs mount (register_step experiment_folder cpu_cluster model_folder))
          (\<lambda>_. ret ()))"
proof -
  let ?train = "train_step experiment_folder cpu_cluster model_folder"
  let ?register = "register_step experiment_folder cpu_cluster model_folder"
  have neq: "?register \<noteq> ?train"
    by (simp add: train_step_def register_step_def)
  have first: "ready [?train, ?register] [] ?train"
    using register_waits_for_train(2) [of experiment_folder cpu_cluster model_folder "[]"]
    by (simp add: pipeline_steps_def)
  have second: "ready [?train, ?register] [''Train Model''] ?register"
    using register_waits_for_train(1)
      [of experiment_folder cpu_cluster model_folder "[''Train Model'']"]
    by (simp add: pipeline_steps_def)
  have last: "run_steps scripts libs mount [?train, ?register] [] completed = ret ()"
    for completed
    by (subst run_steps.simps) simp
  have "run_steps scripts libs mount [?train, ?register] [?register] [''Train Model''] =
      bind_io (run_step scripts libs mount ?register) (\<lambda>_. ret ())"
    by (subst run_steps.simps) (simp add: second last)
  moreover have "step_name ?train = ''Train Model''"
    by (simp add: train_step_def)
  ultimately show ?thesis
    unfolding run_pipeline_def pipeline_steps_def
    by (subst run_steps.simps) (simp add: first)
qed

lemma train_diabetes_pipeline_arguments:
  "train_diabetes all_succeed
     [(''--dataset_name'', \<lparr>tok_text = ''Diabetes Dataset'', tok_float = None\<rparr>),
      (''--regularization'', \<lparr>tok_text = ''0.1'', tok_float = Some (1 / 10)\<rparr>),
      (''--output_folder'', folder)] =
   ([Lib ''argparse.ArgumentParser()'', Run_get_context,
     Print ''Loading data from Diabetes Dataset'',
     Lib ''Dataset.get_by_name(name=Diabetes Dataset).to_pandas_dataframe()'',
     Lib ''diabetes[features].values, diabetes[Diabetic].values'',
     Print_values
       [PStr ''Training a logistic regression model with regularization rate of'',
        PFloat (1 / 10)],
     Run_log ''Regularization Rate'' (PFloat (1 / 10)),
     LogisticRegression_fit 10 ''liblinear''],
    Inl (Exn NameError None))"
  by (simp add: train_diabetes_def parse_regularization_def lib_call_def global_name_def
      method_call_def all_succeed_def undeclared_options_def float_option_def str_option_def
      load_and_train_def load_by_name_def save_and_complete_def print_values_def
      py_truediv_def train_diabetes_imports_def model_file_in_def io_defs)

text \<open>
  The pipeline with the training script as it is written: \<open>train_diabetes.py\<close> never
  imports \<open>os\<close>, so whatever the libraries and the service do, the training step ends with
  an exception before \<open>joblib.dump\<close>; it never completes, no model file is produced, and
  the registration step never begins. With every library call succeeding the exception is
  the NameError at \<open>os.makedirs\<close>.
\<close>

lemma training_step_fails_before_model_is_saved:
  "(\<exists>e. snd (diabetes_pipeline_run libs mount experiment_folder cpu_cluster model_folder) =
      Inl e) \<and>
   fst (diabetes_pipeline_run libs mount experiment_folder cpu_cluster model_folder) =
     Step_started ''Train Model'' #
     fst (train_diabetes (libs ''Train Model'')
       [(''--dataset_name'', \<lparr>tok_text = ''Diabetes Dataset'', tok_float = None\<rparr>),
        (''--regularization'', \<lparr>tok_text = ''0.1'', tok_float = Some (1 / 10)\<rparr>),
        (''--output_folder'', mount model_folder)]) \<and>
   Step_completed ''Train Model'' \<notin>
     set (fst (diabetes_pipeline_run libs mount experiment_folder cpu_cluster model_folder)) \<and>
   Step_started ''Register Model'' \<notin>
     set (fst (diabetes_pipeline_run libs mount experiment_folder cpu_cluster model_folder)) \<and>
   (\<forall>path. Joblib_dump path \<notin>
     set (fst (diabetes_pipeline_run libs mount experiment_folder cpu_cluster model_folder))) \<and>
   (\<forall>path. Joblib_load path \<notin>
     set (fst (diabetes_pipeline_run libs mount experiment_folder cpu_cluster model_folder))) \<and>
   diabetes_pipeline_run (\<lambda>_. all_succeed) mount experiment_folder cpu_cluster model_folder =
     ([Step_started ''Train Model'', Lib ''argparse.ArgumentParser()'', Run_get_context,
       Print ''Loading data from Diabetes Dataset'',
       Lib ''Dataset.get_by_name(name=Diabetes Dataset).to_pandas_dataframe()'',
       Lib ''diabetes[features].values, diabetes[Diabetic].values'',
       Print_values
         [PStr ''Training a logistic regression model with regularization rate of'',
          PFloat (1 / 10)],
       Run_log ''Regularization Rate'' (PFloat (1 / 10)),
       LogisticRegression_fit 10 ''liblinear''],
      Inl (Exn NameError None))"
proof -
  let ?args = "[(''--dataset_name'', \<lparr>tok_text = ''Diabetes Dataset'', tok_float = None\<rparr>),
     (''--regularization'', \<lparr>tok_text = ''0.1'', tok_float = Some (1 / 10)\<rparr>),
     (''--output_folder'', mount model_folder)]"
  let ?train = "train_step experiment_folder cpu_cluster model_folder"
  have step: "run_step experiment_folder_scripts ls mount ?train =
      bind_io (call (Step_started ''Train Model'') (Inr ()))
        (\<lambda>_. bind_io (train_diabetes (ls ''Train Model'') ?args)
           (\<lambda>_. call (Step_completed ''Train Model'') (Inr ())))" for ls
  proof -
    have "step_name ?train = ''Train Model''" "script_name ?train = ''train_diabetes.py''"
      by (simp_all add: train_step_def)
    then show ?thesis
      by (simp add: run_step_def run_script_def experiment_folder_scripts_def
          model_folder_shared(3))
  qed
  have run: "diabetes_pipeline_run ls mount experiment_folder cpu_cluster model_folder =
      (Step_started ''Train Model'' # fst (train_diabetes (ls ''Train Model'') ?args), Inl e)"
    if "snd (train_diabetes (ls ''Train Model'') ?args) = Inl e" for ls e
  proof -
    from that have "run_step experiment_folder_scripts ls mount ?train =
        (Step_started ''Train Model'' # fst (train_diabetes (ls ''Train Model'') ?args), Inl e)"
      unfolding step by (simp add: bind_io_failing) (simp add: bind_io_def call_def)
    then show ?thesis
      unfolding diabetes_pipeline_run_def pipeline_runs_train_then_register
      by (simp add: bind_io_failing)
  qed
  obtain e where e: "snd (train_diabetes (libs ''Train Model'') ?args) = Inl e"
    using train_diabetes_fails by blast
  note r = run [of libs e, OF e]
  have calls: "ev \<notin> set (fst (diabetes_pipeline_run libs mount experiment_folder cpu_cluster
      model_folder))"
    if "\<not> is_training_call ev" and "ev \<noteq> Step_started ''Train Model''" for ev
    using that train_diabetes_calls [of ev "libs ''Train Model''" ?args] by (simp add: r)
  have p1: "\<exists>e. snd (diabetes_pipeline_run libs mount experiment_folder cpu_cluster
      model_folder) = Inl e"
    by (simp add: r)
  have p2: "fst (diabetes_pipeline_run libs mount experiment_folder cpu_cluster model_folder) =
      Step_started ''Train Model'' # fst (train_diabetes (libs ''Train Model'') ?args)"
    by (simp add: r)
  have p3: "Step_completed ''Train Model'' \<notin>
      set (fst (diabetes_pipeline_run libs mount experiment_folder cpu_cluster model_folder))"
    by (rule calls) simp_all
  have p4: "Step_started ''Register Model'' \<notin>
      set (fst (diabetes_pipeline_run libs mount experiment_folder cpu_cluster model_folder))"
    by (rule calls) simp_all
  have p5: "\<forall>path. Joblib_dump path \<notin>
      set (fst (diabetes_pipeline_run libs mount experiment_folder cpu_cluster model_folder))"
    by (rule allI, rule calls) simp_all
  have p6: "\<forall>path. Joblib_load path \<notin>
      set (fst (diabetes_pipeline_run libs mount experiment_folder cpu_cluster model_folder))"
    by (rule allI, rule calls) simp_all
  have p7: "diabetes_pipeline_run (\<lambda>_. all_succeed) mount experiment_folder cpu_cluster
      model_folder =
     ([Step_started ''Train Model'', Lib ''argparse.ArgumentParser()'', Run_get_context,
       Print ''Loading data from Diabetes Dataset'',
       Lib ''Dataset.get_by_name(name=Diabetes Dataset).to_pandas_dataframe()'',
       Lib ''diabetes[features].values, diabetes[Diabetic].values'',
       Print_values
         [PStr ''Training a logistic regression model with regularization rate of'',
          PFloat (1 / 10)],
       Run_log ''Regularization Rate'' (PFloat (1 / 10)),
       LogisticRegression_fit 10 ''liblinear''],
      Inl (Exn NameError None))"
    using run [of "\<lambda>_. all_succeed" "Exn NameError None"]
    by (simp add: train_diabetes_pipeline_arguments)
  from p1 p2 p3 p4 p5 p6 p7 show ?thesis
    by (intro conjI)
qed

section \<open>The order of the two steps\<close>

lemma train_diabetes_with_imports: "train_diabetes_with train_diabetes_imports = train_diabetes"
  by (simp add: fun_eq_iff train_diabetes_with_def train_diabetes_def)

lemma diabetes_pipeline_run_with_imports:
  "diabetes_pipeline_run_with train_diabetes_imports = diabetes_pipeline_run"
  by (simp add: fun_eq_iff diabetes_pipeline_run_with_def diabetes_pipeline_run_def
      pipeline_scripts_def experiment_folder_scripts_def train_diabetes_with_imports)







lemma pipeline_run_with_os_bound:
  "diabetes_pipeline_run_with (''os'' # train_diabetes_imports) (\<lambda>_. all_succeed)
     example_mount ''./diabetes_pipeline'' (ComputeTargetObj 0)
     (PipelineData 0 ''model_folder'') =
   ([Step_started ''Train Model'', Lib ''argparse.ArgumentParser()'', Run_get_context,
     Print ''Loading data from Diabetes Dataset'',
     Lib ''Dataset.get_by_name(name=Diabetes Dataset).to_pandas_dataframe()'',
     Lib ''diabetes[features].values, diabetes[Diabetic].values'',
     Print_values
       [PStr ''Training a logistic regression model with regularization rate of'',
        PFloat (1 / 10)],
     Run_log ''Regularization Rate'' (PFloat (1 / 10)),
     LogisticRegression_fit 10 ''liblinear'',
     Os_makedirs ''/mnt/model_folder'', Joblib_dump ''/mnt/model_folder/model.pkl'',
     Run_complete, Step_completed ''Train Model'',
     Step_started ''Register Model'', Lib ''argparse.ArgumentParser()'', Run_get_context,
     Print ''Loading model from /mnt/model_folder'',
     Joblib_load ''/mnt/model_folder/model.pkl'',
     Model_register ''/mnt/model_folder/model.pkl'' ''diabetes_model''
       [(''Training context'', ''Pipeline'')],
     Run_complete, Step_completed ''Register Model''],
    Inr ())"
  by code_simp


end
